theory Spec2Isabelle
  imports Main "HOL-Library.AList" "HOL-Library.Multiset"
begin

section \<open>JavaScript strings and objects\<close>

text \<open>
  A JavaScript string is a sequence of UTF-16 code units. The localized dialect of the
  editor is written in Chinese, so a code unit is modelled as an integer and a string as a
  list of code units; \<open>length\<close> then counts what \<^verbatim>\<open>String.prototype.length\<close> counts.
  ASCII literals are written \<open>S ''...''\<close>, other literals as lists of code points (all the
  non-ASCII characters of the tables lie in the Basic Multilingual Plane, one code unit each).
\<close>

type_synonym jchar = int
type_synonym jstring = "jchar list"

abbreviation S :: "string \<Rightarrow> jstring" where
  "S \<equiv> map of_char"

definition js_startsWith :: "jstring \<Rightarrow> jstring \<Rightarrow> bool" where
  "js_startsWith s p = (take (length p) s = p)"

definition js_endsWith :: "jstring \<Rightarrow> jstring \<Rightarrow> bool" where
  "js_endsWith s p = (length p \<le> length s \<and> drop (length s - length p) s = p)"

fun js_includes :: "jstring \<Rightarrow> jstring \<Rightarrow> bool" where
  "js_includes [] p = (p = [])"
| "js_includes (c # cs) p = (js_startsWith (c # cs) p \<or> js_includes cs p)"

text \<open>\<^verbatim>\<open>s.indexOf(p)\<close>; \<open>None\<close> stands for the result \<^verbatim>\<open>-1\<close>.\<close>

fun js_indexOf :: "jstring \<Rightarrow> jstring \<Rightarrow> nat option" where
  "js_indexOf [] p = (if p = [] then Some 0 else None)"
| "js_indexOf (c # cs) p =
     (if js_startsWith (c # cs) p then Some 0 else map_option Suc (js_indexOf cs p))"

text \<open>
  White space as \<^verbatim>\<open>String.prototype.trim\<close> and the regular-expression class
  \<^verbatim>\<open>\s\<close> define it: the WhiteSpace and LineTerminator code points.
\<close>

definition js_ws :: "jchar \<Rightarrow> bool" where
  "js_ws c = (c = 9 \<or> c = 10 \<or> c = 11 \<or> c = 12 \<or> c = 13 \<or> c = 32 \<or> c = 0xA0
     \<or> c = 0x1680 \<or> (0x2000 \<le> c \<and> c \<le> 0x200A) \<or> c = 0x2028 \<or> c = 0x2029
     \<or> c = 0x202F \<or> c = 0x205F \<or> c = 0x3000 \<or> c = 0xFEFF)"

definition js_trimEnd :: "jstring \<Rightarrow> jstring" where
  "js_trimEnd s = rev (dropWhile js_ws (rev s))"

definition js_trim :: "jstring \<Rightarrow> jstring" where
  "js_trim s = js_trimEnd (dropWhile js_ws s)"

text \<open>
  A value read from an object is \<open>None\<close> when the key is absent (\<^verbatim>\<open>undefined\<close>).
  \<open>truthy\<close> is JavaScript's boolean coercion of such a value: \<^verbatim>\<open>undefined\<close> and
  the empty string are falsy. \<open>js_or v d\<close> is \<^verbatim>\<open>v || d\<close> with a string default.
\<close>

fun truthy :: "jstring option \<Rightarrow> bool" where
  "truthy None = False"
| "truthy (Some v) = (v \<noteq> [])"

fun js_or :: "jstring option \<Rightarrow> jstring \<Rightarrow> jstring" where
  "js_or None d = d"
| "js_or (Some v) d = (if v = [] then d else v)"

text \<open>
  An object with string keys and string values is an association list in property
  order: a new key is appended, an assignment to an existing key keeps that key's place
  (\<open>AList.update\<close>), \<^verbatim>\<open>delete\<close> removes the key (\<open>AList.delete\<close>). A \<^verbatim>\<open>Map\<close>
  behaves the same way for \<^verbatim>\<open>set\<close>. Two things JavaScript does with particular keys
  are left out of the model. A lookup here finds own properties only, whereas a name that
  \<^verbatim>\<open>Object.prototype\<close> defines (\<^verbatim>\<open>constructor\<close>, \<^verbatim>\<open>toString\<close>, \<^verbatim>\<open>valueOf\<close>,
  \<^verbatim>\<open>hasOwnProperty\<close>, \<^verbatim>\<open>__proto__\<close> and the like) is found in every object
  literal, with a value that is not a string. And a key that is an array index
  (\<^verbatim>\<open>0\<close>, \<^verbatim>\<open>12\<close>) is enumerated before all other keys, wherever it was added. The
  statements below are about names and keys of neither kind.
\<close>

type_synonym jsobj = "(jstring \<times> jstring) list"

abbreviation obj_get :: "jsobj \<Rightarrow> jstring \<Rightarrow> jstring option" where
  "obj_get ob k \<equiv> map_of ob k"

abbreviation obj_set :: "jsobj \<Rightarrow> jstring \<Rightarrow> jstring \<Rightarrow> jsobj" where
  "obj_set ob k v \<equiv> AList.update k v ob"

abbreviation obj_delete :: "jsobj \<Rightarrow> jstring \<Rightarrow> jsobj" where
  "obj_delete ob k \<equiv> AList.delete k ob"

text \<open>\<^verbatim>\<open>Object.assign(target, source)\<close>.\<close>

definition obj_assign :: "jsobj \<Rightarrow> jsobj \<Rightarrow> jsobj" where
  "obj_assign tgt src = fold (\<lambda>(k, v) t. obj_set t k v) src tgt"

text \<open>An object literal: later duplicates of a key overwrite the value in place.\<close>

definition obj_literal :: "(jstring \<times> jstring) list \<Rightarrow> jsobj" where
  "obj_literal kvs = obj_assign [] kvs"

type_synonym rulemap = "(jstring \<times> jsobj) list"

abbreviation map_set :: "rulemap \<Rightarrow> jstring \<Rightarrow> jsobj \<Rightarrow> rulemap" where
  "map_set m k v \<equiv> AList.update k v m"

section \<open>The layout preprocessor of the generator\<close>

text \<open>\<^verbatim>\<open>getOverlayPositions(position, offsetX, offsetY)\<close> of visual-editor-generator.js.\<close>

definition getOverlayPositions :: "jstring option \<Rightarrow> jstring \<Rightarrow> jstring \<Rightarrow> jsobj" where
  "getOverlayPositions position offsetX offsetY =
    (if position = Some (S ''top-left'') then
       [(S ''top'', S ''calc(-30px + '' @ offsetY @ S '')''),
        (S ''left'', S ''calc(0px + '' @ offsetX @ S '')'')]
     else if position = Some (S ''top-center'') then
       [(S ''top'', S ''calc(-30px + '' @ offsetY @ S '')''),
        (S ''left'', S ''50%''),
        (S ''transform'', S ''translateX(-50%) translateX('' @ offsetX @ S '')'')]
     else if position = Some (S ''top-right'') then
       [(S ''top'', S ''calc(-30px + '' @ offsetY @ S '')''),
        (S ''right'', S ''calc(0px - '' @ offsetX @ S '')'')]
     else if position = Some (S ''right-top'') then
       [(S ''top'', S ''calc(0px + '' @ offsetY @ S '')''),
        (S ''right'', S ''calc(-30px - '' @ offsetX @ S '')'')]
     else if position = Some (S ''right-middle'') then
       [(S ''top'', S ''50%''),
        (S ''right'', S ''calc(-30px - '' @ offsetX @ S '')''),
        (S ''transform'', S ''translateY(-50%) translateY('' @ offsetY @ S '')'')]
     else if position = Some (S ''right-bottom'') then
       [(S ''bottom'', S ''calc(0px - '' @ offsetY @ S '')''),
        (S ''right'', S ''calc(-30px - '' @ offsetX @ S '')'')]
     else if position = Some (S ''left-top'') then
       [(S ''top'', S ''calc(0px + '' @ offsetY @ S '')''),
        (S ''left'', S ''calc(-30px + '' @ offsetX @ S '')'')]
     else if position = Some (S ''left-middle'') then
       [(S ''top'', S ''50%''),
        (S ''left'', S ''calc(-30px + '' @ offsetX @ S '')''),
        (S ''transform'', S ''translateY(-50%) translateY('' @ offsetY @ S '')'')]
     else if position = Some (S ''left-bottom'') then
       [(S ''bottom'', S ''calc(0px - '' @ offsetY @ S '')''),
        (S ''left'', S ''calc(-30px + '' @ offsetX @ S '')'')]
     else if position = Some (S ''bottom-left'') then
       [(S ''bottom'', S ''calc(-30px + '' @ offsetY @ S '')''),
        (S ''left'', S ''calc(0px + '' @ offsetX @ S '')'')]
     else if position = Some (S ''bottom-center'') then
       [(S ''bottom'', S ''calc(-30px + '' @ offsetY @ S '')''),
        (S ''left'', S ''50%''),
        (S ''transform'', S ''translateX(-50%) translateX('' @ offsetX @ S '')'')]
     else if position = Some (S ''bottom-right'') then
       [(S ''bottom'', S ''calc(-30px + '' @ offsetY @ S '')''),
        (S ''right'', S ''calc(0px - '' @ offsetX @ S '')'')]
     else
       [(S ''bottom'', S ''calc(-30px + '' @ offsetY @ S '')''),
        (S ''right'', S ''calc(20px + '' @ offsetX @ S '')'')])"

text \<open>\<^verbatim>\<open>getSqueezePositions(position, offsetX, offsetY)\<close>.\<close>

definition squeezeAlignSelf :: "jstring \<Rightarrow> jsobj \<Rightarrow> jsobj" where
  "squeezeAlignSelf p css =
    (if js_includes p (S ''top'') then obj_set css (S ''align-self'') (S ''flex-start'')
     else if js_includes p (S ''middle'') \<or> js_includes p (S ''center'')
       then obj_set css (S ''align-self'') (S ''center'')
     else if js_includes p (S ''bottom'') then obj_set css (S ''align-self'') (S ''flex-end'')
     else css)"

definition squeezeJustifySelf :: "jstring \<Rightarrow> jsobj \<Rightarrow> jsobj" where
  "squeezeJustifySelf p css =
    (if js_startsWith p (S ''top-'') \<or> js_startsWith p (S ''bottom-'') then
       (if js_endsWith p (S ''-left'') then obj_set css (S ''justify-self'') (S ''flex-start'')
        else if js_endsWith p (S ''-center'') then obj_set css (S ''justify-self'') (S ''center'')
        else if js_endsWith p (S ''-right'') then obj_set css (S ''justify-self'') (S ''flex-end'')
        else css)
     else css)"

definition getSqueezePositions :: "jstring option \<Rightarrow> jstring \<Rightarrow> jstring \<Rightarrow> jsobj" where
  "getSqueezePositions position offsetX offsetY =
    (let css0 = [(S ''position'', S ''static''), (S ''display'', S ''flex''),
                 (S ''top'', S ''auto''), (S ''right'', S ''auto''),
                 (S ''bottom'', S ''auto''), (S ''left'', S ''auto''),
                 (S ''z-index'', S ''auto'')];
         css1 = (if truthy position
                 then squeezeJustifySelf (the position) (squeezeAlignSelf (the position) css0)
                 else css0)
     in if offsetX \<noteq> S ''0px'' \<or> offsetY \<noteq> S ''0px''
        then obj_set (obj_set css1 (S ''margin-left'') offsetX) (S ''margin-top'') offsetY
        else css1)"

text \<open>
  The rotation step shared by \<^verbatim>\<open>generateAvatarLayoutCSS\<close> and
  \<^verbatim>\<open>generateInfoLayoutCSS\<close>: in squeeze mode the transform is assigned outright, in
  every other mode a rotation other than \<^verbatim>\<open>0deg\<close> is appended to the transform the
  object already carries, if it carries one.
\<close>

definition applyRotation :: "jstring option \<Rightarrow> jstring \<Rightarrow> jsobj \<Rightarrow> jsobj" where
  "applyRotation layoutMode rotation css =
    (if layoutMode = Some (S ''squeeze'') then
       (if rotation \<noteq> S ''0deg''
        then obj_set css (S ''transform'') (S ''rotate('' @ rotation @ S '')'')
        else obj_set css (S ''transform'') (S ''none''))
     else if rotation \<noteq> S ''0deg'' then
       obj_set css (S ''transform'')
         (if truthy (obj_get css (S ''transform''))
          then the (obj_get css (S ''transform'')) @ S '' rotate('' @ rotation @ S '')''
          else S ''rotate('' @ rotation @ S '')'')
     else css)"

definition generateAvatarLayoutCSS :: "jsobj \<Rightarrow> jsobj" where
  "generateAvatarLayoutCSS properties =
    (let layoutMode = obj_get properties (S ''avatar-layout-mode'');
         position = obj_get properties (S ''avatar-position'');
         offsetX = js_or (obj_get properties (S ''avatar-offset-x'')) (S ''0px'');
         offsetY = js_or (obj_get properties (S ''avatar-offset-y'')) (S ''0px'');
         rotation = js_or (obj_get properties (S ''avatar-rotate'')) (S ''0deg'');
         css =
           (if layoutMode = Some (S ''overlay'') then
              obj_assign [(S ''position'', S ''absolute''), (S ''z-index'', S ''10'')]
                (getOverlayPositions position offsetX offsetY)
            else if layoutMode = Some (S ''squeeze'') then
              obj_assign [(S ''position'', S ''static'')]
                (getSqueezePositions position offsetX offsetY)
            else [])
     in applyRotation layoutMode rotation css)"

definition generateInfoLayoutCSS :: "jsobj \<Rightarrow> jsobj" where
  "generateInfoLayoutCSS properties =
    (let layoutMode = obj_get properties (S ''info-layout-mode'');
         position = obj_get properties (S ''info-position'');
         direction = js_or (obj_get properties (S ''info-direction'')) (S ''column'');
         offsetX = js_or (obj_get properties (S ''info-offset-x'')) (S ''0px'');
         offsetY = js_or (obj_get properties (S ''info-offset-y'')) (S ''0px'');
         rotation = js_or (obj_get properties (S ''info-rotate'')) (S ''0deg'');
         css =
           (if layoutMode = Some (S ''overlay'') then
              obj_assign [(S ''position'', S ''absolute''), (S ''z-index'', S ''10''),
                          (S ''display'', S ''flex''), (S ''flex-direction'', direction)]
                (getOverlayPositions position offsetX offsetY)
            else if layoutMode = Some (S ''squeeze'') then
              obj_assign [(S ''position'', S ''static''), (S ''display'', S ''flex''),
                          (S ''flex-direction'', direction)]
                (getSqueezePositions position offsetX offsetY)
            else [])
     in applyRotation layoutMode rotation css)"


text \<open>\<^verbatim>\<open>generateInfoElementCSS\<close>, the variant \<^verbatim>\<open>preprocessInfoLayout\<close> calls.\<close>

definition generateInfoElementCSS :: "jsobj \<Rightarrow> jsobj" where
  "generateInfoElementCSS layoutProps =
    (let layoutMode = obj_get layoutProps (S ''info-layout-mode'');
         position = obj_get layoutProps (S ''info-position'');
         offsetX = js_or (obj_get layoutProps (S ''info-offset-x'')) (S ''0px'');
         offsetY = js_or (obj_get layoutProps (S ''info-offset-y'')) (S ''0px'');
         rotation = js_or (obj_get layoutProps (S ''info-rotate'')) (S ''0deg'');
         css =
           (if layoutMode = Some (S ''overlay'') then
              obj_assign [(S ''position'', S ''absolute''), (S ''z-index'', S ''10'')]
                (getOverlayPositions position offsetX offsetY)
            else if layoutMode = Some (S ''squeeze'') then
              obj_assign [(S ''position'', S ''static''), (S ''display'', S ''inline-block''),
                          (S ''margin'', S ''0 2px'')]
                (getSqueezePositions position offsetX offsetY)
            else [])
     in if rotation \<noteq> S ''0deg'' then
          obj_set css (S ''transform'')
            (if truthy (obj_get css (S ''transform''))
             then the (obj_get css (S ''transform'')) @ S '' rotate('' @ rotation @ S '')''
             else S ''rotate('' @ rotation @ S '')'')
        else css)"

definition getHorizontalAlignment :: "jstring \<Rightarrow> jstring" where
  "getHorizontalAlignment position =
    (if js_endsWith position (S ''-left'') then S ''flex-start''
     else if js_endsWith position (S ''-center'') then S ''center''
     else if js_endsWith position (S ''-right'') then S ''flex-end''
     else S ''flex-start'')"

definition generateSqueezeContainerCSS :: "jstring option \<Rightarrow> jsobj" where
  "generateSqueezeContainerCSS position =
    (let css = [(S ''display'', S ''flex''), (S ''align-items'', S ''flex-start''),
                (S ''position'', S ''relative''), (S ''z-index'', S ''auto'')]
     in if \<not> truthy position then css
        else let p = the position in
          if js_startsWith p (S ''top-'') \<or> js_startsWith p (S ''bottom-'') then
            obj_set (obj_set css (S ''flex-direction'') (S ''column''))
              (S ''align-items'') (getHorizontalAlignment p)
          else if js_startsWith p (S ''right-'') \<or> js_startsWith p (S ''left-'') then
            obj_set (obj_set css (S ''flex-direction'') (S ''row''))
              (S ''align-items'') (S ''flex-start'')
          else css)"

definition generateAvatarWrapperOrderCSS :: "jstring option \<Rightarrow> jsobj" where
  "generateAvatarWrapperOrderCSS position =
    (if \<not> truthy position then []
     else if js_startsWith (the position) (S ''bottom-'') \<or> js_startsWith (the position) (S ''right-'')
       then [(S ''order'', S ''1'')]
     else [])"

text \<open>
  \<^verbatim>\<open>getMessageContainerSelector\<close>: \<^verbatim>\<open>avatarSelector.replace(/\s+\.avatar.*$/, '')\<close>.
  The match starts at the leftmost white-space character whose run of white space is
  followed by \<^verbatim>\<open>.avatar\<close> and then by no line terminator up to the end of the string
  (\<^verbatim>\<open>.\<close> does not match a line terminator); everything from there on is removed.
\<close>

definition js_lineTerminator :: "jchar \<Rightarrow> bool" where
  "js_lineTerminator c = (c = 10 \<or> c = 13 \<or> c = 0x2028 \<or> c = 0x2029)"

fun getMessageContainerSelector :: "jstring \<Rightarrow> jstring" where
  "getMessageContainerSelector [] = []"
| "getMessageContainerSelector (c # cs) =
     (if js_ws c \<and> js_startsWith (dropWhile js_ws cs) (S ''.avatar'')
         \<and> \<not> list_ex js_lineTerminator (drop 7 (dropWhile js_ws cs))
      then []
      else c # getMessageContainerSelector cs)"

definition isAvatarSelector :: "jstring \<Rightarrow> bool" where
  "isAvatarSelector selector =
    (js_includes selector (S ''.avatar'') \<and>
      (js_includes selector (S ''is_user='' @ [34] @ S ''true'' @ [34]) \<or>
       js_includes selector (S ''is_user='' @ [34] @ S ''false'' @ [34])))"

definition isInfoElementSelector :: "jstring \<Rightarrow> bool" where
  "isInfoElementSelector selector =
    (js_includes selector (S ''.mesIDDisplay'') \<or>
     (js_includes selector (S ''.mes_timer'') \<and>
      js_includes selector (S ''is_user='' @ [34] @ S ''false'' @ [34])) \<or>
     js_includes selector (S ''.tokenCounterDisplay''))"

definition avatarLayoutAttributes :: "jstring list" where
  "avatarLayoutAttributes =
    [S ''avatar-layout-mode'', S ''avatar-position'', S ''avatar-offset-x'',
     S ''avatar-offset-y'', S ''avatar-rotate'', S ''position'', S ''top'', S ''right'',
     S ''bottom'', S ''left'', S ''z-index'', S ''transform'', S ''margin'', S ''margin-top'',
     S ''margin-right'', S ''margin-bottom'', S ''margin-left'']"

definition infoLayoutPropertyNames :: "jstring list" where
  "infoLayoutPropertyNames =
    [S ''info-layout-mode'', S ''info-position'', S ''info-direction'',
     S ''info-offset-x'', S ''info-offset-y'', S ''info-rotate'',
     S ''position'', S ''display'', S ''flex-direction'', S ''align-items'',
     S ''justify-content'', S ''top'', S ''right'', S ''bottom'', S ''left'',
     S ''transform'', S ''z-index'', S ''order'']"

text \<open>
  \<^verbatim>\<open>separateAvatarProperties\<close> and \<^verbatim>\<open>separateInfoProperties\<close>: one pass over the
  entries, each assigned to the layout object or to the style object.
\<close>

definition separateProperties :: "jstring list \<Rightarrow> jsobj \<Rightarrow> jsobj \<times> jsobj" where
  "separateProperties layoutNames properties =
    fold (\<lambda>(k, v) (layoutProps, styleProps).
            if k \<in> set layoutNames then (obj_set layoutProps k v, styleProps)
            else (layoutProps, obj_set styleProps k v))
      properties ([], [])"

definition separateAvatarProperties :: "jsobj \<Rightarrow> jsobj \<times> jsobj" where
  "separateAvatarProperties = separateProperties avatarLayoutAttributes"

definition separateInfoProperties :: "jsobj \<Rightarrow> jsobj \<times> jsobj" where
  "separateInfoProperties = separateProperties infoLayoutPropertyNames"

text \<open>
  The rule \<^verbatim>\<open>preprocessAvatarLayout\<close> stores under the avatar selector itself: the
  layout properties without the five intent keys, overlaid with the generated layout.
\<close>

definition avatarContainerProps :: "jsobj \<Rightarrow> jsobj" where
  "avatarContainerProps layoutProps =
    (let layoutCSS = generateAvatarLayoutCSS layoutProps;
         stripped = obj_delete (obj_delete (obj_delete (obj_delete (obj_delete layoutProps
                      (S ''avatar-layout-mode'')) (S ''avatar-position''))
                      (S ''avatar-offset-x'')) (S ''avatar-offset-y'')) (S ''avatar-rotate'')
     in obj_assign stripped layoutCSS)"

definition preprocessAvatarRule :: "rulemap \<Rightarrow> jstring \<times> jsobj \<Rightarrow> rulemap" where
  "preprocessAvatarRule processedRules rule =
    (let selector = fst rule; properties = snd rule in
     if isAvatarSelector selector then
       (let (layoutProps, styleProps) = separateAvatarProperties properties;
            layoutMode = obj_get layoutProps (S ''avatar-layout-mode'');
            position = obj_get layoutProps (S ''avatar-position'')
        in if layoutMode = Some (S ''none'') then
             (if styleProps \<noteq> [] then map_set processedRules (selector @ S '' img'') styleProps
              else processedRules)
           else
             (let messageSelector = getMessageContainerSelector selector;
                  r1 = (if layoutMode = Some (S ''squeeze'') \<and> truthy position then
                          (let r = map_set processedRules messageSelector
                                     (generateSqueezeContainerCSS position);
                               avatarWrapperCSS = generateAvatarWrapperOrderCSS position
                           in if avatarWrapperCSS \<noteq> []
                              then map_set r (messageSelector @ S '' > .mesAvatarWrapper'')
                                     avatarWrapperCSS
                              else r)
                        else processedRules);
                  r2 = (if layoutProps \<noteq> [] then
                          (let layoutCSS = generateAvatarLayoutCSS layoutProps;
                               merged = avatarContainerProps layoutProps
                           in if merged \<noteq> [] \<or> layoutCSS \<noteq> []
                              then map_set r1 selector (if merged \<noteq> [] then merged else layoutCSS)
                              else r1)
                        else r1)
              in if styleProps \<noteq> [] then map_set r2 (selector @ S '' img'') styleProps
                 else r2))
     else map_set processedRules selector properties)"

definition preprocessAvatarLayout :: "rulemap \<Rightarrow> rulemap" where
  "preprocessAvatarLayout styleRules = fold (\<lambda>rule acc. preprocessAvatarRule acc rule) styleRules []"

definition preprocessInfoRule :: "rulemap \<Rightarrow> jstring \<times> jsobj \<Rightarrow> rulemap" where
  "preprocessInfoRule processedRules rule =
    (let selector = fst rule; properties = snd rule in
     if isInfoElementSelector selector then
       (let (layoutProps, styleProps) = separateInfoProperties properties;
            layoutMode = obj_get layoutProps (S ''info-layout-mode'')
        in if layoutMode = Some (S ''none'') then
             (if styleProps \<noteq> [] then map_set processedRules selector styleProps
              else processedRules)
           else if truthy layoutMode \<and> truthy (obj_get layoutProps (S ''info-position'')) then
             (let elementCSS = generateInfoElementCSS layoutProps;
                  r1 = (if layoutMode = Some (S ''squeeze'') then
                          map_set processedRules (getMessageContainerSelector selector)
                            (generateSqueezeContainerCSS (obj_get layoutProps (S ''info-position'')))
                        else processedRules);
                  finalCSS = obj_assign (obj_assign [] elementCSS) styleProps
              in if finalCSS \<noteq> [] then map_set r1 selector finalCSS else r1)
           else
             (if styleProps \<noteq> [] then map_set processedRules selector styleProps
              else processedRules))
     else map_set processedRules selector properties)"

definition preprocessInfoLayout :: "rulemap \<Rightarrow> rulemap" where
  "preprocessInfoLayout styleRules = fold (\<lambda>rule acc. preprocessInfoRule acc rule) styleRules []"


section \<open>The canonical-stylesheet generator\<close>

record config =
  minify :: bool
  useImportant :: bool
  groupBySelector :: bool
  sortProps :: bool
  addComments :: bool
  indentSize :: nat

definition defaultConfig :: config where
  "defaultConfig = \<lparr> minify = False, useImportant = True, groupBySelector = True,
                      sortProps = True, addComments = True, indentSize = 2 \<rparr>"

definition propertyOrder :: "jstring list" where
  "propertyOrder =
    [S ''position'', S ''top'', S ''right'', S ''bottom'', S ''left'', S ''z-index'',
     S ''display'', S ''flex'', S ''flex-direction'', S ''flex-wrap'', S ''justify-content'',
     S ''align-items'', S ''grid'', S ''grid-template-columns'', S ''grid-template-rows'',
     S ''gap'', S ''float'', S ''clear'',
     S ''width'', S ''height'', S ''min-width'', S ''min-height'', S ''max-width'',
     S ''max-height'',
     S ''margin'', S ''margin-top'', S ''margin-right'', S ''margin-bottom'', S ''margin-left'',
     S ''padding'', S ''padding-top'', S ''padding-right'', S ''padding-bottom'',
     S ''padding-left'',
     S ''border'', S ''border-width'', S ''border-style'', S ''border-color'',
     S ''border-top'', S ''border-right'', S ''border-bottom'', S ''border-left'',
     S ''border-radius'', S ''border-top-left-radius'', S ''border-top-right-radius'',
     S ''border-bottom-left-radius'', S ''border-bottom-right-radius'',
     S ''outline'', S ''outline-width'', S ''outline-style'', S ''outline-color'',
     S ''background'', S ''background-color'', S ''background-image'', S ''background-repeat'',
     S ''background-position'', S ''background-size'', S ''background-attachment'',
     S ''color'', S ''font'', S ''font-family'', S ''font-size'', S ''font-weight'',
     S ''font-style'', S ''line-height'', S ''letter-spacing'', S ''text-align'',
     S ''text-decoration'', S ''text-transform'', S ''white-space'', S ''word-break'',
     S ''word-spacing'',
     S ''opacity'', S ''visibility'', S ''overflow'', S ''overflow-x'', S ''overflow-y'',
     S ''box-shadow'', S ''text-shadow'',
     S ''transform'', S ''transition'', S ''animation'',
     S ''filter'', S ''backdrop-filter'',
     S ''cursor'', S ''user-select'', S ''pointer-events'']"

text \<open>\<^verbatim>\<open>Array.prototype.indexOf\<close> on an array of strings; \<open>None\<close> is \<^verbatim>\<open>-1\<close>.\<close>

fun arr_indexOf :: "jstring list \<Rightarrow> jstring \<Rightarrow> nat option" where
  "arr_indexOf [] x = None"
| "arr_indexOf (y # ys) x = (if y = x then Some 0 else map_option Suc (arr_indexOf ys x))"

text \<open>
  The comparator of \<^verbatim>\<open>sortProperties\<close>. \<^verbatim>\<open>String.prototype.localeCompare\<close> depends
  on the host's collation and is a parameter \<open>lc\<close> (negative, zero or positive).
\<close>

definition compareProps :: "(jstring \<Rightarrow> jstring \<Rightarrow> int) \<Rightarrow> jstring \<Rightarrow> jstring \<Rightarrow> int" where
  "compareProps lc a b =
    (case (arr_indexOf propertyOrder a, arr_indexOf propertyOrder b) of
       (Some i, Some j) \<Rightarrow> int i - int j
     | (Some i, None) \<Rightarrow> - 1
     | (None, Some j) \<Rightarrow> 1
     | (None, None) \<Rightarrow> lc a b)"

text \<open>
  \<^verbatim>\<open>Array.prototype.sort\<close> is stable; with a comparator that is a total preorder its
  result is the stable insertion sort below.
\<close>

fun insertProp :: "(jstring \<Rightarrow> jstring \<Rightarrow> int) \<Rightarrow> jstring \<times> jstring \<Rightarrow> jsobj \<Rightarrow> jsobj" where
  "insertProp lc x [] = [x]"
| "insertProp lc x (y # ys) =
     (if compareProps lc (fst x) (fst y) \<le> 0 then x # y # ys else y # insertProp lc x ys)"

definition sortProperties :: "(jstring \<Rightarrow> jstring \<Rightarrow> int) \<Rightarrow> jsobj \<Rightarrow> jsobj" where
  "sortProperties lc properties = foldr (insertProp lc) properties []"

text \<open>The declarations \<^verbatim>\<open>generateRule\<close> emits for a rule, in the order it emits them.\<close>

definition ruleDeclarations :: "(jstring \<Rightarrow> jstring \<Rightarrow> int) \<Rightarrow> config \<Rightarrow> jsobj \<Rightarrow> jsobj" where
  "ruleDeclarations lc cfg properties =
    (if sortProps cfg then sortProperties lc properties else properties)"

definition generateRule :: "(jstring \<Rightarrow> jstring \<Rightarrow> int) \<Rightarrow> config \<Rightarrow> jstring \<Rightarrow> jsobj \<Rightarrow> jstring" where
  "generateRule lc cfg selector properties =
    (if properties = [] then []
     else
       (let indent = (if minify cfg then [] else replicate (indentSize cfg) 32);
            newline = (if minify cfg then [] else [10]);
            space = (if minify cfg then [] else [32]);
            sortedProps = ruleDeclarations lc cfg properties;
            important = (if useImportant cfg then S '' !important'' else [])
        in selector @ space @ S ''{'' @ newline @
           concat (map (\<lambda>(prop, value). indent @ prop @ S '':'' @ space @ value @ important
                                          @ S '';'' @ newline) sortedProps) @
           S ''}'' @ newline))"

text \<open>\<^verbatim>\<open>detectCategory\<close> and \<^verbatim>\<open>categorizeRules\<close> of the generator. The six
  categories are enumerated in the order the object literal declares them.\<close>

datatype category = Layout | Message | Input | Controls | Popup | Other

definition detectCategory :: "jstring \<Rightarrow> category" where
  "detectCategory selector =
    (if js_includes selector (S ''#chat'') \<or> js_includes selector (S ''#top-bar'')
        \<or> js_includes selector (S ''.drawer'') then Layout
     else if js_includes selector (S ''.mes'') \<or> js_includes selector (S ''.avatar'')
        \<or> js_includes selector (S ''.ch_name'') then Message
     else if js_includes selector (S ''#send'') \<or> js_includes selector (S ''textarea'') then Input
     else if js_includes selector (S ''button'') \<or> js_includes selector (S ''.swipe'') then Controls
     else if js_includes selector (S ''.popup'') \<or> js_includes selector (S ''modal'') then Popup
     else Other)"

definition getCategoryName :: "category \<Rightarrow> jstring" where
  "getCategoryName c =
    (case c of Layout \<Rightarrow> [0x5E03, 0x5C40, 0x6837, 0x5F0F]
     | Message \<Rightarrow> [0x6D88, 0x606F, 0x6837, 0x5F0F]
     | Input \<Rightarrow> [0x8F93, 0x5165, 0x6837, 0x5F0F]
     | Controls \<Rightarrow> [0x63A7, 0x4EF6, 0x6837, 0x5F0F]
     | Popup \<Rightarrow> [0x5F39, 0x7A97, 0x6837, 0x5F0F]
     | Other \<Rightarrow> [0x5176, 0x4ED6, 0x6837, 0x5F0F])"

definition categorizeRules :: "rulemap \<Rightarrow> (category \<times> rulemap) list" where
  "categorizeRules styleRules =
    map (\<lambda>c. (c, filter (\<lambda>(selector, properties). detectCategory selector = c) styleRules))
      [Layout, Message, Input, Controls, Popup, Other]"

definition generateGroupedRules :: "(jstring \<Rightarrow> jstring \<Rightarrow> int) \<Rightarrow> config \<Rightarrow> rulemap \<Rightarrow> jstring" where
  "generateGroupedRules lc cfg styleRules =
    concat (map (\<lambda>(c, rules).
        if rules = [] then []
        else (if addComments cfg then S ''/* === '' @ getCategoryName c @ S '' === */'' @ [10] else [])
             @ concat (map (\<lambda>(selector, properties). generateRule lc cfg selector properties) rules)
             @ [10])
      (categorizeRules styleRules))"

definition generateFlatRules :: "(jstring \<Rightarrow> jstring \<Rightarrow> int) \<Rightarrow> config \<Rightarrow> rulemap \<Rightarrow> jstring" where
  "generateFlatRules lc cfg styleRules =
    concat (map (\<lambda>(selector, properties). generateRule lc cfg selector properties) styleRules)"

text \<open>Decimal notation of a non-negative integer, as a template literal prints a count.\<close>

function show_nat :: "nat \<Rightarrow> jstring" where
  "show_nat n = (if n < 10 then [48 + int n] else show_nat (n div 10) @ [48 + int (n mod 10)])"
  by pat_completeness auto
termination
  by (relation "measure id") auto

text \<open>\<^verbatim>\<open>generateHeader\<close>; the formatted current time is the parameter \<open>now\<close>.\<close>

definition generateHeader :: "jstring \<Rightarrow> rulemap \<Rightarrow> jstring" where
  "generateHeader now styleRules =
    S ''/* '' @ [10] @ S '' * Generated by Visual CSS Editor'' @ [10] @
    S '' * Time: '' @ now @ [10] @
    S '' * Rules: '' @ show_nat (length styleRules) @ [10] @ S '' */'' @ [10, 10]"


text \<open>
  \<^verbatim>\<open>minifyCSS\<close> is five steps. The first replaces every match of
  \<^verbatim>\<open>/\/\*[\s\S]*?\*\//g\<close> by nothing: a comment opener is matched with the nearest
  closer that starts at least two characters later, and an opener with no closer is kept.
\<close>

fun afterCommentClose :: "jstring \<Rightarrow> jstring option" where
  "afterCommentClose [] = None"
| "afterCommentClose (c # cs) =
     (if js_startsWith (c # cs) (S ''*/'') then Some (drop 1 cs) else afterCommentClose cs)"

function removeComments :: "jstring \<Rightarrow> jstring" where
  "removeComments [] = []"
| "removeComments (c # cs) =
     (if js_startsWith (c # cs) (S ''/*'') then
        (case afterCommentClose (drop 1 cs) of
           Some r \<Rightarrow> removeComments r
         | None \<Rightarrow> c # removeComments cs)
      else c # removeComments cs)"
  by pat_completeness auto
termination
proof (relation "measure length")
  show "wf (measure length)" by simp
next
  fix c :: jchar and cs r :: jstring
  have shorter: "afterCommentClose s = Some t \<Longrightarrow> length t \<le> length s" for s t
    by (induction s) (auto split: if_splits)
  assume "afterCommentClose (drop 1 cs) = Some r"
  then have "length r \<le> length (drop 1 cs)" by (rule shorter)
  then show "(r, c # cs) \<in> measure length" by simp
qed auto

text \<open>\<^verbatim>\<open>.replace(/\s+/g, rep)\<close>: every run of white space becomes \<open>rep\<close>.\<close>

function replaceSpaceRuns :: "jstring \<Rightarrow> jstring \<Rightarrow> jstring" where
  "replaceSpaceRuns rep [] = []"
| "replaceSpaceRuns rep (c # cs) =
     (if js_ws c then rep @ replaceSpaceRuns rep (dropWhile js_ws cs)
      else c # replaceSpaceRuns rep cs)"
  by pat_completeness auto
termination
  by (relation "measure (\<lambda>(rep, s). length s)") (auto simp: length_dropWhile_le less_Suc_eq_le)

text \<open>
  \<^verbatim>\<open>.replace(/\s*([{}:;,])\s*/g, '$1')\<close>: a punctuation character swallows the white
  space on both sides of it.
\<close>

definition cssPunct :: "jchar \<Rightarrow> bool" where
  "cssPunct c = (c = 123 \<or> c = 125 \<or> c = 58 \<or> c = 59 \<or> c = 44)"

function tightenPunct :: "jstring \<Rightarrow> jstring" where
  "tightenPunct [] = []"
| "tightenPunct (c # cs) =
     (case dropWhile js_ws (c # cs) of
        [] \<Rightarrow> c # tightenPunct cs
      | d # ds \<Rightarrow> if cssPunct d then d # tightenPunct (dropWhile js_ws ds)
                 else c # tightenPunct cs)"
  by pat_completeness auto
termination
proof (relation "measure length")
  show "wf (measure length)" by simp
next
  fix c d :: jchar and cs ds :: jstring
  assume "dropWhile js_ws (c # cs) = d # ds"
  then have "length (d # ds) \<le> length (c # cs)"
    by (metis length_dropWhile_le)
  moreover have "length (dropWhile js_ws ds) \<le> length ds"
    by (rule length_dropWhile_le)
  ultimately show "(dropWhile js_ws ds, c # cs) \<in> measure length" by simp
qed auto

text \<open>\<^verbatim>\<open>.replace(/;\}/g, '}')\<close>.\<close>

fun dropLastSemicolon :: "jstring \<Rightarrow> jstring" where
  "dropLastSemicolon (c # d # cs) =
     (if c = 59 \<and> d = 125 then d # dropLastSemicolon cs else c # dropLastSemicolon (d # cs))"
| "dropLastSemicolon cs = cs"

definition minifyCSS :: "jstring \<Rightarrow> jstring" where
  "minifyCSS css = js_trim (dropLastSemicolon (tightenPunct (replaceSpaceRuns (S '' '') (removeComments css))))"

text \<open>
  \<^verbatim>\<open>generate(styleRules, config)\<close>; \<open>cfg\<close> is the merged configuration
  \<^verbatim>\<open>{...this.config, ...config}\<close>. No step of it calls \<^verbatim>\<open>optimize\<close> or
  \<^verbatim>\<open>mergeProperties\<close>.
\<close>

definition generate :: "(jstring \<Rightarrow> jstring \<Rightarrow> int) \<Rightarrow> jstring \<Rightarrow> config \<Rightarrow> rulemap \<Rightarrow> jstring" where
  "generate lc now cfg styleRules0 =
    (let styleRules = preprocessInfoLayout (preprocessAvatarLayout styleRules0) in
     if styleRules = [] then []
     else
       (let css = (if addComments cfg then generateHeader now styleRules else []) @
                  (if groupBySelector cfg then generateGroupedRules lc cfg styleRules
                   else generateFlatRules lc cfg styleRules)
        in if minify cfg then minifyCSS css else css))"

subsection \<open>Shorthand merging\<close>

text \<open>A value interpolated into a template literal: \<^verbatim>\<open>undefined\<close> prints its name.\<close>

fun tmpl :: "jstring option \<Rightarrow> jstring" where
  "tmpl None = S ''undefined''"
| "tmpl (Some v) = v"

definition canMergeBox :: "jsobj \<Rightarrow> jstring \<Rightarrow> bool" where
  "canMergeBox properties prefix =
    list_all (\<lambda>side. obj_get properties (prefix @ S ''-'' @ side) \<noteq> None)
      [S ''top'', S ''right'', S ''bottom'', S ''left'']"

definition mergeBox :: "jsobj \<Rightarrow> jstring \<Rightarrow> jstring option" where
  "mergeBox properties prefix =
    (let t = obj_get properties (prefix @ S ''-top'');
         r = obj_get properties (prefix @ S ''-right'');
         b = obj_get properties (prefix @ S ''-bottom'');
         l = obj_get properties (prefix @ S ''-left'')
     in if t = r \<and> t = b \<and> t = l then t
        else if t = b \<and> r = l then Some (tmpl t @ S '' '' @ tmpl r)
        else if r = l then Some (tmpl t @ S '' '' @ tmpl r @ S '' '' @ tmpl b)
        else Some (tmpl t @ S '' '' @ tmpl r @ S '' '' @ tmpl b @ S '' '' @ tmpl l))"

definition mergeBoxInto :: "jstring \<Rightarrow> jsobj \<Rightarrow> jsobj" where
  "mergeBoxInto prefix merged =
    (if canMergeBox merged prefix \<and> truthy (mergeBox merged prefix) then
       obj_delete (obj_delete (obj_delete (obj_delete
         (obj_set merged prefix (the (mergeBox merged prefix)))
         (prefix @ S ''-top'')) (prefix @ S ''-right'')) (prefix @ S ''-bottom''))
         (prefix @ S ''-left'')
     else merged)"

definition canMergeBorder :: "jsobj \<Rightarrow> bool" where
  "canMergeBorder properties =
    (obj_get properties (S ''border-width'') \<noteq> None \<and>
     obj_get properties (S ''border-style'') \<noteq> None \<and>
     obj_get properties (S ''border-color'') \<noteq> None)"

definition mergeBorder :: "jsobj \<Rightarrow> jstring option" where
  "mergeBorder properties =
    (let width = obj_get properties (S ''border-width'');
         style = obj_get properties (S ''border-style'');
         color = obj_get properties (S ''border-color'')
     in if truthy width \<and> truthy style \<and> truthy color
        then Some (the width @ S '' '' @ the style @ S '' '' @ the color)
        else None)"

definition mergeBorderInto :: "jsobj \<Rightarrow> jsobj" where
  "mergeBorderInto merged =
    (if canMergeBorder merged \<and> truthy (mergeBorder merged) then
       obj_delete (obj_delete (obj_delete
         (obj_set merged (S ''border'') (the (mergeBorder merged)))
         (S ''border-width'')) (S ''border-style'')) (S ''border-color'')
     else merged)"

definition mergeProperties :: "jsobj \<Rightarrow> jsobj" where
  "mergeProperties properties =
    mergeBorderInto (mergeBoxInto (S ''padding'') (mergeBoxInto (S ''margin'') properties))"

definition removeRedundant :: "jsobj \<Rightarrow> jsobj" where
  "removeRedundant properties =
    (let c1 = (if truthy (obj_get properties (S ''border'')) then
                 fold (\<lambda>k ob. obj_delete ob k)
                   [S ''border-width'', S ''border-style'', S ''border-color'', S ''border-top'',
                    S ''border-right'', S ''border-bottom'', S ''border-left''] properties
               else properties);
         c2 = (if truthy (obj_get c1 (S ''margin'')) then
                 fold (\<lambda>k ob. obj_delete ob k)
                   [S ''margin-top'', S ''margin-right'', S ''margin-bottom'', S ''margin-left''] c1
               else c1);
         c3 = (if truthy (obj_get c2 (S ''padding'')) then
                 fold (\<lambda>k ob. obj_delete ob k)
                   [S ''padding-top'', S ''padding-right'', S ''padding-bottom'',
                    S ''padding-left''] c2
               else c2)
     in if truthy (obj_get c3 (S ''background''))
           \<and> \<not> js_includes (the (obj_get c3 (S ''background''))) (S ''gradient'')
        then fold (\<lambda>k ob. obj_delete ob k)
               [S ''background-color'', S ''background-image'', S ''background-repeat'',
                S ''background-position'', S ''background-size''] c3
        else c3)"

text \<open>\<^verbatim>\<open>optimize(styleRules)\<close>, the only caller of \<^verbatim>\<open>mergeProperties\<close>.\<close>

definition optimize :: "rulemap \<Rightarrow> rulemap" where
  "optimize styleRules =
    fold (\<lambda>(selector, properties) optimized.
            let cleaned = removeRedundant (mergeProperties properties)
            in if cleaned \<noteq> [] then map_set optimized selector cleaned else optimized)
      styleRules []"

section \<open>The alias dictionary\<close>

text \<open>
  The tables of visual-editor-format-parser.js, in the order of their object literals.
  \<open>elementMapLiteral\<close> is the literal of the element table as written: it repeats two
  keys with new values, and \<open>elementMap\<close> is the object the literal evaluates to (a
  repeated key keeps its first position and takes its last value). The literal of the
  property table repeats seven keys, each with the value it already has, so
  \<open>propertyMap\<close> lists every key once, at its first position.
\<close>

definition elementMapLiteral :: "(jstring \<times> jstring) list" where
  "elementMapLiteral =
    [([0x7528, 0x6237, 0x6D88, 0x606F], S ''.mes[is_user='' @ [34] @ S ''true'' @ [34] @ S ''] .mes_block''),
     ([0x89D2, 0x8272, 0x6D88, 0x606F], S ''.mes:not([is_user='' @ [34] @ S ''true'' @ [34] @ S '']) .mes_block''),
     (S ''AI'' @ [0x6D88, 0x606F], S ''.mes[is_user='' @ [34] @ S ''false'' @ [34] @ S ''] .mes_block''),
     ([0x6D88, 0x606F, 0x6587, 0x672C], S ''.mes_text''),
     ([0x89D2, 0x8272, 0x540D, 0x79F0], S ''.ch_name''),
     ([0x7528, 0x6237, 0x5934, 0x50CF], S ''.mes[is_user='' @ [34] @ S ''true'' @ [34] @ S ''] .avatar img''),
     ([0x89D2, 0x8272, 0x5934, 0x50CF], S ''.mes:not([is_user='' @ [34] @ S ''true'' @ [34] @ S '']) .avatar img''),
     ([0x5934, 0x50CF], S ''.avatar img''),
     ([0x65F6, 0x95F4, 0x6233], S ''.timestamp''),
     ([0x8F93, 0x5165, 0x6846], S ''#send_textarea''),
     ([0x53D1, 0x9001, 0x6309, 0x94AE], S ''#send_but''),
     ([0x8F93, 0x5165, 0x533A, 0x57DF], S ''#send_form''),
     ([0x505C, 0x6B62, 0x6309, 0x94AE], S ''#stop_generate''),
     ([0x804A, 0x5929, 0x533A, 0x57DF], S ''#chat''),
     ([0x9876, 0x90E8, 0x680F], S ''#top-bar''),
     ([0x4FA7, 0x8FB9, 0x680F], S ''.drawer-content''),
     ([0x9875, 0x9762, 0x80CC, 0x666F], S ''body''),
     ([0x901A, 0x7528, 0x6309, 0x94AE], S ''.menu_button''),
     ([0x6ED1, 0x52A8, 0x6309, 0x94AE], S ''.swipe_left, .swipe_right''),
     ([0x5F39, 0x7A97], S ''.popup''),
     ([0x6EDA, 0x52A8, 0x6761], S ''::-webkit-scrollbar''),
     ([0x6EDA, 0x52A8, 0x6761, 0x6ED1, 0x5757], S ''::-webkit-scrollbar-thumb''),
     ([0x89D2, 0x8272, 0x5361, 0x7247], S ''.character_select''),
     ([0x89D2, 0x8272, 0x6807, 0x7B7E], S ''.character_tag''),
     ([0x4E16, 0x754C, 0x4E66, 0x6761, 0x76EE], S ''.world_entry''),
     ([0x6761, 0x76EE, 0x6807, 0x9898], S ''.world_entry_title''),
     ([0x6761, 0x76EE, 0x5185, 0x5BB9], S ''.world_entry_content''),
     ([0x7528, 0x6237, 0x5934, 0x50CF], S ''.mes[is_user='' @ [34] @ S ''true'' @ [34] @ S ''] .avatar''),
     (S ''AI'' @ [0x89D2, 0x8272, 0x5934, 0x50CF], S ''.mes[is_user='' @ [34] @ S ''false'' @ [34] @ S ''] .avatar''),
     ([0x89D2, 0x8272, 0x5934, 0x50CF], S ''.mes[is_user='' @ [34] @ S ''false'' @ [34] @ S ''] .avatar''),
     ([0x7528, 0x6237, 0x6D88, 0x606F] @ S ''ID'', S ''.mes[is_user='' @ [34] @ S ''true'' @ [34] @ S ''] .mesIDDisplay''),
     ([0x7528, 0x6237] @ S ''Token'' @ [0x8BA1, 0x6570], S ''.mes[is_user='' @ [34] @ S ''true'' @ [34] @ S ''] .tokenCounterDisplay''),
     (S ''AI'' @ [0x6D88, 0x606F] @ S ''ID'', S ''.mes[is_user='' @ [34] @ S ''false'' @ [34] @ S ''] .mesIDDisplay''),
     (S ''AI'' @ [0x8BA1, 0x65F6, 0x5668], S ''.mes[is_user='' @ [34] @ S ''false'' @ [34] @ S ''] .mes_timer''),
     (S ''AIToken'' @ [0x8BA1, 0x6570], S ''.mes[is_user='' @ [34] @ S ''false'' @ [34] @ S ''] .tokenCounterDisplay''),
     (S ''AI'' @ [0x54CD, 0x5E94, 0x914D, 0x7F6E], S ''#leftNavDrawerIcon''),
     ([0x89D2, 0x8272, 0x7BA1, 0x7406, 0x56FE, 0x6807], S ''#rightNavDrawerIcon''),
     ([0x6269, 0x5C55, 0x83DC, 0x5355, 0x56FE, 0x6807], S ''#extensionsMenuIcon''),
     ([0x8BBE, 0x7F6E, 0x56FE, 0x6807], S ''#settingsIcon'')]"

definition elementMap :: "jsobj" where
  "elementMap =
    [([0x7528, 0x6237, 0x6D88, 0x606F], S ''.mes[is_user='' @ [34] @ S ''true'' @ [34] @ S ''] .mes_block''),
     ([0x89D2, 0x8272, 0x6D88, 0x606F], S ''.mes:not([is_user='' @ [34] @ S ''true'' @ [34] @ S '']) .mes_block''),
     (S ''AI'' @ [0x6D88, 0x606F], S ''.mes[is_user='' @ [34] @ S ''false'' @ [34] @ S ''] .mes_block''),
     ([0x6D88, 0x606F, 0x6587, 0x672C], S ''.mes_text''),
     ([0x89D2, 0x8272, 0x540D, 0x79F0], S ''.ch_name''),
     ([0x7528, 0x6237, 0x5934, 0x50CF], S ''.mes[is_user='' @ [34] @ S ''true'' @ [34] @ S ''] .avatar''),
     ([0x89D2, 0x8272, 0x5934, 0x50CF], S ''.mes[is_user='' @ [34] @ S ''false'' @ [34] @ S ''] .avatar''),
     ([0x5934, 0x50CF], S ''.avatar img''),
     ([0x65F6, 0x95F4, 0x6233], S ''.timestamp''),
     ([0x8F93, 0x5165, 0x6846], S ''#send_textarea''),
     ([0x53D1, 0x9001, 0x6309, 0x94AE], S ''#send_but''),
     ([0x8F93, 0x5165, 0x533A, 0x57DF], S ''#send_form''),
     ([0x505C, 0x6B62, 0x6309, 0x94AE], S ''#stop_generate''),
     ([0x804A, 0x5929, 0x533A, 0x57DF], S ''#chat''),
     ([0x9876, 0x90E8, 0x680F], S ''#top-bar''),
     ([0x4FA7, 0x8FB9, 0x680F], S ''.drawer-content''),
     ([0x9875, 0x9762, 0x80CC, 0x666F], S ''body''),
     ([0x901A, 0x7528, 0x6309, 0x94AE], S ''.menu_button''),
     ([0x6ED1, 0x52A8, 0x6309, 0x94AE], S ''.swipe_left, .swipe_right''),
     ([0x5F39, 0x7A97], S ''.popup''),
     ([0x6EDA, 0x52A8, 0x6761], S ''::-webkit-scrollbar''),
     ([0x6EDA, 0x52A8, 0x6761, 0x6ED1, 0x5757], S ''::-webkit-scrollbar-thumb''),
     ([0x89D2, 0x8272, 0x5361, 0x7247], S ''.character_select''),
     ([0x89D2, 0x8272, 0x6807, 0x7B7E], S ''.character_tag''),
     ([0x4E16, 0x754C, 0x4E66, 0x6761, 0x76EE], S ''.world_entry''),
     ([0x6761, 0x76EE, 0x6807, 0x9898], S ''.world_entry_title''),
     ([0x6761, 0x76EE, 0x5185, 0x5BB9], S ''.world_entry_content''),
     (S ''AI'' @ [0x89D2, 0x8272, 0x5934, 0x50CF], S ''.mes[is_user='' @ [34] @ S ''false'' @ [34] @ S ''] .avatar''),
     ([0x7528, 0x6237, 0x6D88, 0x606F] @ S ''ID'', S ''.mes[is_user='' @ [34] @ S ''true'' @ [34] @ S ''] .mesIDDisplay''),
     ([0x7528, 0x6237] @ S ''Token'' @ [0x8BA1, 0x6570], S ''.mes[is_user='' @ [34] @ S ''true'' @ [34] @ S ''] .tokenCounterDisplay''),
     (S ''AI'' @ [0x6D88, 0x606F] @ S ''ID'', S ''.mes[is_user='' @ [34] @ S ''false'' @ [34] @ S ''] .mesIDDisplay''),
     (S ''AI'' @ [0x8BA1, 0x65F6, 0x5668], S ''.mes[is_user='' @ [34] @ S ''false'' @ [34] @ S ''] .mes_timer''),
     (S ''AIToken'' @ [0x8BA1, 0x6570], S ''.mes[is_user='' @ [34] @ S ''false'' @ [34] @ S ''] .tokenCounterDisplay''),
     (S ''AI'' @ [0x54CD, 0x5E94, 0x914D, 0x7F6E], S ''#leftNavDrawerIcon''),
     ([0x89D2, 0x8272, 0x7BA1, 0x7406, 0x56FE, 0x6807], S ''#rightNavDrawerIcon''),
     ([0x6269, 0x5C55, 0x83DC, 0x5355, 0x56FE, 0x6807], S ''#extensionsMenuIcon''),
     ([0x8BBE, 0x7F6E, 0x56FE, 0x6807], S ''#settingsIcon'')]"

definition propertyMap :: "jsobj" where
  "propertyMap =
    [([0x80CC, 0x666F, 0x989C, 0x8272], S ''background-color''),
     ([0x80CC, 0x666F], S ''background''),
     ([0x80CC, 0x666F, 0x56FE, 0x7247], S ''background-image''),
     ([0x80CC, 0x666F, 0x5927, 0x5C0F], S ''background-size''),
     ([0x80CC, 0x666F, 0x4F4D, 0x7F6E], S ''background-position''),
     ([0x80CC, 0x666F, 0x91CD, 0x590D], S ''background-repeat''),
     ([0x80CC, 0x666F, 0x9644, 0x7740], S ''background-attachment''),
     ([0x6587, 0x5B57, 0x989C, 0x8272], S ''color''),
     ([0x900F, 0x660E, 0x5EA6], S ''opacity''),
     ([0x56FE, 0x6807, 0x989C, 0x8272], S ''icon-color''),
     ([0x56FE, 0x6807, 0x5927, 0x5C0F], S ''icon-size''),
     ([0x5E03, 0x5C40, 0x6A21, 0x5F0F], S ''avatar-layout-mode''),
     ([0x5934, 0x50CF, 0x4F4D, 0x7F6E], S ''avatar-position''),
     ([0x6C34, 0x5E73, 0x504F, 0x79FB], S ''avatar-offset-x''),
     ([0x5782, 0x76F4, 0x504F, 0x79FB], S ''avatar-offset-y''),
     ([0x65CB, 0x8F6C, 0x89D2, 0x5EA6], S ''avatar-rotate''),
     ([0x4FE1, 0x606F, 0x5E03, 0x5C40, 0x6A21, 0x5F0F], S ''info-layout-mode''),
     ([0x4FE1, 0x606F, 0x4F4D, 0x7F6E], S ''info-position''),
     ([0x4FE1, 0x606F, 0x6C34, 0x5E73, 0x504F, 0x79FB], S ''info-offset-x''),
     ([0x4FE1, 0x606F, 0x5782, 0x76F4, 0x504F, 0x79FB], S ''info-offset-y''),
     ([0x4FE1, 0x606F, 0x65CB, 0x8F6C, 0x89D2, 0x5EA6], S ''info-rotate''),
     ([0x6392, 0x5217, 0x65B9, 0x5411], S ''info-direction''),
     ([0x8FB9, 0x6846], S ''border''),
     ([0x5706, 0x89D2], S ''border-radius''),
     ([0x8FB9, 0x6846, 0x989C, 0x8272], S ''border-color''),
     ([0x8FB9, 0x6846, 0x5BBD, 0x5EA6], S ''border-width''),
     ([0x8FB9, 0x6846, 0x6837, 0x5F0F], S ''border-style''),
     ([0x5185, 0x8FB9, 0x8DDD], S ''padding''),
     ([0x5916, 0x8FB9, 0x8DDD], S ''margin''),
     ([0x4E0A, 0x8FB9, 0x8DDD], S ''margin-top''),
     ([0x4E0B, 0x8FB9, 0x8DDD], S ''margin-bottom''),
     ([0x5DE6, 0x8FB9, 0x8DDD], S ''margin-left''),
     ([0x53F3, 0x8FB9, 0x8DDD], S ''margin-right''),
     ([0x4E0A, 0x5185, 0x8FB9, 0x8DDD], S ''padding-top''),
     ([0x4E0B, 0x5185, 0x8FB9, 0x8DDD], S ''padding-bottom''),
     ([0x5DE6, 0x5185, 0x8FB9, 0x8DDD], S ''padding-left''),
     ([0x53F3, 0x5185, 0x8FB9, 0x8DDD], S ''padding-right''),
     ([0x5B57, 0x4F53, 0x5927, 0x5C0F], S ''font-size''),
     ([0x5B57, 0x4F53], S ''font-family''),
     ([0x5B57, 0x4F53, 0x7C97, 0x7EC6], S ''font-weight''),
     ([0x884C, 0x9AD8], S ''line-height''),
     ([0x5B57, 0x95F4, 0x8DDD], S ''letter-spacing''),
     ([0x6587, 0x5B57, 0x5BF9, 0x9F50], S ''text-align''),
     ([0x6587, 0x5B57, 0x88C5, 0x9970], S ''text-decoration''),
     ([0x6587, 0x5B57, 0x53D8, 0x6362], S ''text-transform''),
     ([0x5BBD, 0x5EA6], S ''width''),
     ([0x9AD8, 0x5EA6], S ''height''),
     ([0x6700, 0x5927, 0x5BBD, 0x5EA6], S ''max-width''),
     ([0x6700, 0x5C0F, 0x5BBD, 0x5EA6], S ''min-width''),
     ([0x6700, 0x5927, 0x9AD8, 0x5EA6], S ''max-height''),
     ([0x6700, 0x5C0F, 0x9AD8, 0x5EA6], S ''min-height''),
     ([0x9634, 0x5F71], S ''box-shadow''),
     ([0x6587, 0x5B57, 0x9634, 0x5F71], S ''text-shadow''),
     ([0x542F, 0x7528, 0x9634, 0x5F71], S ''shadow-enabled''),
     ([0x9634, 0x5F71, 0x6C34, 0x5E73, 0x504F, 0x79FB], S ''shadow-x''),
     ([0x9634, 0x5F71, 0x5782, 0x76F4, 0x504F, 0x79FB], S ''shadow-y''),
     ([0x9634, 0x5F71, 0x6A21, 0x7CCA], S ''shadow-blur''),
     ([0x9634, 0x5F71, 0x6269, 0x6563], S ''shadow-spread''),
     ([0x9634, 0x5F71, 0x989C, 0x8272], S ''shadow-color''),
     ([0x9634, 0x5F71, 0x900F, 0x660E, 0x5EA6], S ''shadow-opacity''),
     ([0x6EE4, 0x955C], S ''filter''),
     ([0x6A21, 0x7CCA], S ''blur''),
     ([0x4EAE, 0x5EA6], S ''brightness''),
     ([0x5BF9, 0x6BD4, 0x5EA6], S ''contrast''),
     ([0x7070, 0x5EA6], S ''grayscale''),
     ([0x8272, 0x76F8, 0x65CB, 0x8F6C], S ''hue-rotate''),
     ([0x9971, 0x548C, 0x5EA6], S ''saturate''),
     ([0x53CD, 0x8F6C], S ''invert''),
     ([0x8910, 0x8272], S ''sepia''),
     ([0x8FC7, 0x6E21, 0x6548, 0x679C], S ''transition''),
     ([0x8FC7, 0x6E21], S ''transition''),
     ([0x52A8, 0x753B], S ''animation''),
     ([0x53D8, 0x6362], S ''transform''),
     ([0x663E, 0x793A, 0x65B9, 0x5F0F], S ''display''),
     ([0x5B9A, 0x4F4D], S ''position''),
     ([0x5C42, 0x7EA7], S ''z-index''),
     ([0x6D6E, 0x52A8], S ''float''),
     ([0x6EA2, 0x51FA], S ''overflow''),
     ([0x6EA2, 0x51FA, 0x6C34, 0x5E73], S ''overflow-x''),
     ([0x6EA2, 0x51FA, 0x5782, 0x76F4], S ''overflow-y''),
     ([0x4F4D, 0x7F6E], S ''position''),
     ([0x9876, 0x90E8], S ''top''),
     ([0x5E95, 0x90E8], S ''bottom''),
     ([0x5DE6, 0x8FB9], S ''left''),
     ([0x53F3, 0x8FB9], S ''right''),
     ([0x5DE6], S ''left''),
     ([0x53F3], S ''right''),
     ([0x4E0A], S ''top''),
     ([0x4E0B], S ''bottom''),
     ([0x5F39, 0x6027, 0x65B9, 0x5411], S ''flex-direction''),
     ([0x5F39, 0x6027, 0x6362, 0x884C], S ''flex-wrap''),
     ([0x5F39, 0x6027, 0x6D41], S ''flex-flow''),
     ([0x4E3B, 0x8F74, 0x5BF9, 0x9F50], S ''justify-content''),
     ([0x4EA4, 0x53C9, 0x8F74, 0x5BF9, 0x9F50], S ''align-items''),
     ([0x5185, 0x5BB9, 0x5BF9, 0x9F50], S ''align-content''),
     ([0x5F39, 0x6027, 0x589E, 0x957F], S ''flex-grow''),
     ([0x5F39, 0x6027, 0x6536, 0x7F29], S ''flex-shrink''),
     ([0x5F39, 0x6027, 0x57FA, 0x7840], S ''flex-basis''),
     ([0x5F39, 0x6027], S ''flex''),
     ([0x81EA, 0x8EAB, 0x5BF9, 0x9F50], S ''align-self''),
     ([0x987A, 0x5E8F], S ''order''),
     ([0x95F4, 0x8DDD], S ''gap''),
     ([0x884C, 0x95F4, 0x8DDD], S ''row-gap''),
     ([0x5217, 0x95F4, 0x8DDD], S ''column-gap''),
     ([0x7F51, 0x683C, 0x6A21, 0x677F, 0x5217], S ''grid-template-columns''),
     ([0x7F51, 0x683C, 0x6A21, 0x677F, 0x884C], S ''grid-template-rows''),
     ([0x7F51, 0x683C, 0x6A21, 0x677F, 0x533A, 0x57DF], S ''grid-template-areas''),
     ([0x7F51, 0x683C, 0x6A21, 0x677F], S ''grid-template''),
     ([0x7F51, 0x683C, 0x5217, 0x95F4, 0x8DDD], S ''column-gap''),
     ([0x7F51, 0x683C, 0x884C, 0x95F4, 0x8DDD], S ''row-gap''),
     ([0x7F51, 0x683C, 0x95F4, 0x8DDD], S ''gap''),
     ([0x7F51, 0x683C, 0x5217, 0x5F00, 0x59CB], S ''grid-column-start''),
     ([0x7F51, 0x683C, 0x5217, 0x7ED3, 0x675F], S ''grid-column-end''),
     ([0x7F51, 0x683C, 0x5217], S ''grid-column''),
     ([0x7F51, 0x683C, 0x884C, 0x5F00, 0x59CB], S ''grid-row-start''),
     ([0x7F51, 0x683C, 0x884C, 0x7ED3, 0x675F], S ''grid-row-end''),
     ([0x7F51, 0x683C, 0x884C], S ''grid-row''),
     ([0x7F51, 0x683C, 0x533A, 0x57DF], S ''grid-area''),
     ([0x7F51, 0x683C, 0x81EA, 0x52A8, 0x5217], S ''grid-auto-columns''),
     ([0x7F51, 0x683C, 0x81EA, 0x52A8, 0x884C], S ''grid-auto-rows''),
     ([0x7F51, 0x683C, 0x81EA, 0x52A8, 0x6D41], S ''grid-auto-flow''),
     ([0x53D8, 0x6362, 0x539F, 0x70B9], S ''transform-origin''),
     ([0x53D8, 0x6362, 0x98CE, 0x683C], S ''transform-style''),
     ([0x900F, 0x89C6], S ''perspective''),
     ([0x900F, 0x89C6, 0x539F, 0x70B9], S ''perspective-origin''),
     ([0x80CC, 0x9762, 0x53EF, 0x89C1], S ''backface-visibility''),
     ([0x52A8, 0x753B, 0x540D, 0x79F0], S ''animation-name''),
     ([0x52A8, 0x753B, 0x6301, 0x7EED, 0x65F6, 0x95F4], S ''animation-duration''),
     ([0x52A8, 0x753B, 0x65F6, 0x95F4, 0x51FD, 0x6570], S ''animation-timing-function''),
     ([0x52A8, 0x753B, 0x5EF6, 0x8FDF], S ''animation-delay''),
     ([0x52A8, 0x753B, 0x6B21, 0x6570], S ''animation-iteration-count''),
     ([0x52A8, 0x753B, 0x65B9, 0x5411], S ''animation-direction''),
     ([0x52A8, 0x753B, 0x586B, 0x5145, 0x6A21, 0x5F0F], S ''animation-fill-mode''),
     ([0x52A8, 0x753B, 0x64AD, 0x653E, 0x72B6, 0x6001], S ''animation-play-state''),
     ([0x8FC7, 0x6E21, 0x5C5E, 0x6027], S ''transition-property''),
     ([0x8FC7, 0x6E21, 0x6301, 0x7EED, 0x65F6, 0x95F4], S ''transition-duration''),
     ([0x8FC7, 0x6E21, 0x65F6, 0x95F4, 0x51FD, 0x6570], S ''transition-timing-function''),
     ([0x8FC7, 0x6E21, 0x5EF6, 0x8FDF], S ''transition-delay''),
     ([0x8272, 0x76F8], S ''hue-rotate''),
     ([0x6A21, 0x7CCA, 0x5EA6], S ''blur''),
     ([0x6295, 0x5F71], S ''drop-shadow''),
     ([0x6DF7, 0x5408, 0x6A21, 0x5F0F], S ''mix-blend-mode''),
     ([0x80CC, 0x666F, 0x6DF7, 0x5408, 0x6A21, 0x5F0F], S ''background-blend-mode''),
     ([0x88C1, 0x526A, 0x8DEF, 0x5F84], S ''clip-path''),
     ([0x88C1, 0x526A], S ''clip''),
     ([0x8499, 0x7248], S ''mask''),
     ([0x8499, 0x7248, 0x56FE, 0x7247], S ''mask-image''),
     ([0x8499, 0x7248, 0x5927, 0x5C0F], S ''mask-size''),
     ([0x8499, 0x7248, 0x4F4D, 0x7F6E], S ''mask-position''),
     ([0x8499, 0x7248, 0x91CD, 0x590D], S ''mask-repeat''),
     ([0x6EDA, 0x52A8, 0x884C, 0x4E3A], S ''scroll-behavior''),
     ([0x6EDA, 0x52A8, 0x6355, 0x6349, 0x7C7B, 0x578B], S ''scroll-snap-type''),
     ([0x6EDA, 0x52A8, 0x6355, 0x6349, 0x5BF9, 0x9F50], S ''scroll-snap-align''),
     ([0x6EDA, 0x52A8, 0x8FB9, 0x8DDD], S ''scroll-margin''),
     ([0x6EDA, 0x52A8, 0x5185, 0x8FB9, 0x8DDD], S ''scroll-padding''),
     ([0x5F62, 0x72B6, 0x5916, 0x90E8], S ''shape-outside''),
     ([0x5F62, 0x72B6, 0x8FB9, 0x8DDD], S ''shape-margin''),
     ([0x5F62, 0x72B6, 0x56FE, 0x7247, 0x9608, 0x503C], S ''shape-image-threshold''),
     ([0x6307, 0x9488, 0x4E8B, 0x4EF6], S ''pointer-events''),
     ([0x89E6, 0x6478, 0x52A8, 0x4F5C], S ''touch-action''),
     ([0x7528, 0x6237, 0x62D6, 0x62FD], S ''user-drag''),
     ([0x7528, 0x6237, 0x4FEE, 0x6539], S ''user-modify''),
     ([0x6587, 0x672C, 0x6EA2, 0x51FA], S ''text-overflow''),
     ([0x5355, 0x8BCD, 0x6362, 0x884C], S ''word-wrap''),
     ([0x5355, 0x8BCD, 0x65AD, 0x884C], S ''word-break''),
     ([0x8FDE, 0x5B57, 0x7B26], S ''hyphens''),
     ([0x6587, 0x672C, 0x65B9, 0x5411], S ''writing-mode''),
     ([0x6587, 0x672C, 0x9634, 0x5F71, 0x6A21, 0x7CCA], S ''text-shadow-blur''),
     ([0x8868, 0x683C, 0x5E03, 0x5C40], S ''table-layout''),
     ([0x8FB9, 0x6846, 0x5408, 0x5E76], S ''border-collapse''),
     ([0x8FB9, 0x6846, 0x95F4, 0x8DDD], S ''border-spacing''),
     ([0x7A7A, 0x5355, 0x5143, 0x683C], S ''empty-cells''),
     ([0x6807, 0x9898, 0x4F4D, 0x7F6E], S ''caption-side''),
     ([0x5217, 0x8868, 0x6837, 0x5F0F], S ''list-style''),
     ([0x5217, 0x8868, 0x6837, 0x5F0F, 0x7C7B, 0x578B], S ''list-style-type''),
     ([0x5217, 0x8868, 0x6837, 0x5F0F, 0x4F4D, 0x7F6E], S ''list-style-position''),
     ([0x5217, 0x8868, 0x6837, 0x5F0F, 0x56FE, 0x7247], S ''list-style-image''),
     ([0x662F, 0x5426, 0x8D85, 0x51FA, 0x7236, 0x5143, 0x7D20, 0x663E, 0x793A], S ''decoration-overflow-mode''),
     ([0x9F20, 0x6807, 0x6837, 0x5F0F], S ''cursor''),
     ([0x7528, 0x6237, 0x9009, 0x62E9], S ''user-select''),
     ([0x5185, 0x5BB9], S ''content''),
     ([0x6A21, 0x7CCA, 0x6548, 0x679C], S ''backdrop-filter''),
     ([0x8BA1, 0x6570, 0x5668, 0x91CD, 0x7F6E], S ''counter-reset''),
     ([0x8BA1, 0x6570, 0x5668, 0x589E, 0x91CF], S ''counter-increment''),
     ([0x5F15, 0x7528], S ''quotes''),
     ([0x5B64, 0x884C, 0x63A7, 0x5236], S ''orphans''),
     ([0x5BE1, 0x884C, 0x63A7, 0x5236], S ''widows''),
     ([0x5206, 0x9875, 0x524D], S ''page-break-before''),
     ([0x5206, 0x9875, 0x540E], S ''page-break-after''),
     ([0x5206, 0x9875, 0x5185], S ''page-break-inside'')]"

definition presetValues :: "(jstring \<times> jstring) list" where
  "presetValues =
    [([0x900F, 0x660E], S ''transparent''),
     ([0x65E0], S ''none''),
     ([0x5305, 0x542B], S ''contain''),
     ([0x8986, 0x76D6], S ''cover''),
     ([0x81EA, 0x52A8], S ''auto''),
     ([0x76F8, 0x5BF9, 0x5B9A, 0x4F4D], S ''relative''),
     ([0x7EDD, 0x5BF9, 0x5B9A, 0x4F4D], S ''absolute''),
     ([0x56FA, 0x5B9A, 0x5B9A, 0x4F4D], S ''fixed''),
     ([0x7C98, 0x6027, 0x5B9A, 0x4F4D], S ''sticky''),
     ([0x9759, 0x6001, 0x5B9A, 0x4F4D], S ''static''),
     ([0x5757, 0x7EA7], S ''block''),
     ([0x884C, 0x5185], S ''inline''),
     ([0x884C, 0x5185, 0x5757], S ''inline-block''),
     ([0x5F39, 0x6027, 0x76D2], S ''flex''),
     ([0x7F51, 0x683C], S ''grid''),
     ([0x8868, 0x683C], S ''table''),
     ([0x8868, 0x683C, 0x884C], S ''table-row''),
     ([0x8868, 0x683C, 0x5355, 0x5143, 0x683C], S ''table-cell''),
     ([0x542F, 0x7528], S ''enabled''),
     ([0x7981, 0x7528], S ''disabled''),
     ([0x6BDB, 0x73BB, 0x7483], S ''blur(8px)''),
     ([0x5FEB, 0x901F, 0x8FC7, 0x6E21], S ''all 0.2s ease''),
     ([0x6807, 0x51C6, 0x8FC7, 0x6E21], S ''all 0.3s ease''),
     ([0x6162, 0x901F, 0x8FC7, 0x6E21], S ''all 0.5s ease'')]"

definition unitMap :: "(jstring \<times> jstring) list" where
  "unitMap =
    [([0x50CF, 0x7D20], S ''px''),
     ([0x5B57, 0x9AD8], S ''em''),
     ([0x6839, 0x5B57, 0x9AD8], S ''rem''),
     ([0x5B57, 0x7B26, 0x5BBD], S ''ch''),
     ([0x5B57, 0x7B26, 0x9AD8], S ''ex''),
     ([0x82F1, 0x5BF8], S ''in''),
     ([0x5398, 0x7C73], S ''cm''),
     ([0x6BEB, 0x7C73], S ''mm''),
     ([0x70B9], S ''pt''),
     ([0x6D3E, 0x5361], S ''pc''),
     ([0x89C6, 0x53E3, 0x5BBD], S ''vw''),
     ([0x89C6, 0x53E3, 0x9AD8], S ''vh''),
     ([0x89C6, 0x53E3, 0x6700, 0x5C0F], S ''vmin''),
     ([0x89C6, 0x53E3, 0x6700, 0x5927], S ''vmax''),
     ([0x767E, 0x5206, 0x6BD4], S ''%''),
     ([0x500D], []),
     ([0x5206, 0x6570], S ''fr''),
     ([0x5EA6], S ''deg''),
     ([0x5F27, 0x5EA6], S ''rad''),
     ([0x68AF, 0x5EA6], S ''grad''),
     ([0x5708], S ''turn''),
     ([0x79D2], S ''s''),
     ([0x6BEB, 0x79D2], S ''ms''),
     ([0x8D6B, 0x5179], S ''Hz''),
     ([0x5343, 0x8D6B, 0x5179], S ''kHz''),
     ([0x6BCF, 0x82F1, 0x5BF8, 0x70B9, 0x6570], S ''dpi''),
     ([0x6BCF, 0x5398, 0x7C73, 0x70B9, 0x6570], S ''dpcm''),
     ([0x6BCF, 0x50CF, 0x7D20, 0x70B9, 0x6570], S ''dppx'')]"

definition cnUnitMap :: "(jstring \<times> jstring) list" where
  "cnUnitMap =
    [(S ''px'', [0x50CF, 0x7D20]),
     (S ''em'', [0x5B57, 0x9AD8]),
     (S ''rem'', [0x6839, 0x5B57, 0x9AD8]),
     (S ''ch'', [0x5B57, 0x7B26, 0x5BBD]),
     (S ''ex'', [0x5B57, 0x7B26, 0x9AD8]),
     (S ''in'', [0x82F1, 0x5BF8]),
     (S ''cm'', [0x5398, 0x7C73]),
     (S ''mm'', [0x6BEB, 0x7C73]),
     (S ''pt'', [0x70B9]),
     (S ''pc'', [0x6D3E, 0x5361]),
     (S ''vw'', [0x89C6, 0x53E3, 0x5BBD]),
     (S ''vh'', [0x89C6, 0x53E3, 0x9AD8]),
     (S ''vmin'', [0x89C6, 0x53E3, 0x6700, 0x5C0F]),
     (S ''vmax'', [0x89C6, 0x53E3, 0x6700, 0x5927]),
     (S ''%'', [0x767E, 0x5206, 0x6BD4]),
     (S ''fr'', [0x5206, 0x6570]),
     (S ''deg'', [0x5EA6]),
     (S ''rad'', [0x5F27, 0x5EA6]),
     (S ''grad'', [0x68AF, 0x5EA6]),
     (S ''turn'', [0x5708]),
     (S ''s'', [0x79D2]),
     (S ''ms'', [0x6BEB, 0x79D2]),
     (S ''Hz'', [0x8D6B, 0x5179]),
     (S ''kHz'', [0x5343, 0x8D6B, 0x5179]),
     (S ''dpi'', [0x6BCF, 0x82F1, 0x5BF8, 0x70B9, 0x6570]),
     (S ''dpcm'', [0x6BCF, 0x5398, 0x7C73, 0x70B9, 0x6570]),
     (S ''dppx'', [0x6BCF, 0x50CF, 0x7D20, 0x70B9, 0x6570])]"


text \<open>
  The reverse maps, built by the two loops of the constructor over
  \<^verbatim>\<open>Object.entries\<close> of the forward maps: the element loop assigns unconditionally,
  the property loop only when the canonical name has no entry yet.
\<close>

definition reverseElementMap :: jsobj where
  "reverseElementMap = fold (\<lambda>(cn, selector) r. obj_set r selector cn) elementMap []"

definition reversePropertyMap :: jsobj where
  "reversePropertyMap =
    fold (\<lambda>(cn, prop) r. if \<not> truthy (obj_get r prop) then obj_set r prop cn else r)
      propertyMap []"

definition getSelector :: "jstring \<Rightarrow> jstring" where
  "getSelector elementName = js_or (obj_get elementMap elementName) elementName"

definition getElementName :: "jstring \<Rightarrow> jstring" where
  "getElementName selector = js_or (obj_get reverseElementMap selector) selector"

text \<open>
  \<^verbatim>\<open>getProperty\<close> is \<^verbatim>\<open>this.propertyMap[name] || name\<close>. For a name that
  \<^verbatim>\<open>Object.prototype\<close> defines (\<^verbatim>\<open>constructor\<close>, \<^verbatim>\<open>toString\<close> and the like) the
  code finds the inherited member, which is not a string, and the parser stores the value
  under the printed form of that member; the definition here covers the other names, for
  which the lookup is one of own keys.
\<close>

definition getProperty :: "jstring \<Rightarrow> jstring" where
  "getProperty propName = js_or (obj_get propertyMap propName) propName"

definition getPropertyName :: "jstring \<Rightarrow> jstring" where
  "getPropertyName prop = js_or (obj_get reversePropertyMap prop) prop"

text \<open>The names of \<^verbatim>\<open>functionPatterns\<close>, in the order of the object literal.\<close>

definition functionNames :: "jstring list" where
  "functionNames =
    [[0x7F29, 0x653E], [0x65CB, 0x8F6C], [0x79FB, 0x52A8], [0x503E, 0x659C], [0x77E9, 0x9635],
     [0x6A21, 0x7CCA], [0x6295, 0x5F71], [0x4EAE, 0x5EA6], [0x5BF9, 0x6BD4, 0x5EA6], [0x9971, 0x548C, 0x5EA6], [0x8272, 0x76F8], [0x8272, 0x76F8, 0x65CB, 0x8F6C], [0x7070, 0x5EA6], [0x53CD, 0x8F6C], [0x8910, 0x8272],
     [0x6E10, 0x53D8], [0x7EBF, 0x6027, 0x6E10, 0x53D8], [0x5F84, 0x5411, 0x6E10, 0x53D8], [0x5706, 0x9525, 0x6E10, 0x53D8],
     [0x8BA1, 0x7B97], [0x6700, 0x5C0F, 0x503C], [0x6700, 0x5927, 0x503C], [0x5939, 0x503C], [0x53D8, 0x91CF]]"

section \<open>The value translator\<close>

text \<open>More string primitives: \<^verbatim>\<open>split\<close> on one character and on a non-empty string,
  and \<^verbatim>\<open>replace\<close> of the first occurrence of a string.\<close>

fun js_splitc :: "jchar \<Rightarrow> jstring \<Rightarrow> jstring list" where
  "js_splitc d [] = [[]]"
| "js_splitc d (c # cs) =
     (if c = d then [] # js_splitc d cs
      else (case js_splitc d cs of [] \<Rightarrow> [[c]] | p # ps \<Rightarrow> (c # p) # ps))"

function js_split_from :: "jstring \<Rightarrow> jstring \<Rightarrow> jstring \<Rightarrow> jstring list" where
  "js_split_from sep cur [] = [rev cur]"
| "js_split_from sep cur (c # cs) =
     (if sep \<noteq> [] \<and> js_startsWith (c # cs) sep
      then rev cur # js_split_from sep [] (drop (length sep) (c # cs))
      else js_split_from sep (c # cur) cs)"
  by pat_completeness auto
termination
  by (relation "measure (\<lambda>(sep, cur, s). length s)") auto

definition js_split :: "jstring \<Rightarrow> jstring \<Rightarrow> jstring list" where
  "js_split s sep = js_split_from sep [] s"

fun js_replaceFirst :: "jstring \<Rightarrow> jstring \<Rightarrow> jstring \<Rightarrow> jstring" where
  "js_replaceFirst [] pat rep = (if pat = [] then rep else [])"
| "js_replaceFirst (c # cs) pat rep =
     (if js_startsWith (c # cs) pat then rep @ drop (length pat) (c # cs)
      else c # js_replaceFirst cs pat rep)"

text \<open>\<^verbatim>\<open>value.replace(/^["']|["']$/g, '')\<close>: a quote character at the start and a
  quote character at the end are removed.\<close>

definition isQuote :: "jchar \<Rightarrow> bool" where
  "isQuote c = (c = 34 \<or> c = 39)"

definition stripQuotes :: "jstring \<Rightarrow> jstring" where
  "stripQuotes v =
    (let v1 = (case v of [] \<Rightarrow> [] | c # cs \<Rightarrow> if isQuote c then cs else v)
     in if v1 \<noteq> [] \<and> isQuote (last v1) then butlast v1 else v1)"

text \<open>
  A pattern \<^verbatim>\<open>/^NAME\((.*?)\)$/\<close> matches a value that is \<open>NAME\<close>, an opening
  parenthesis, a text without line terminators and a closing parenthesis at the very
  end; the captured group is that text.
\<close>

definition matchFunction :: "jstring \<Rightarrow> jstring \<Rightarrow> jstring option" where
  "matchFunction fnName v =
    (let n = length fnName in
     if js_startsWith v (fnName @ S ''('') \<and> n + 2 \<le> length v \<and> last v = 41
        \<and> \<not> list_ex js_lineTerminator (take (length v - n - 2) (drop (n + 1) v))
     then Some (take (length v - n - 2) (drop (n + 1) v))
     else None)"

fun firstFunctionMatch :: "jstring list \<Rightarrow> jstring \<Rightarrow> (jstring \<times> jstring) option" where
  "firstFunctionMatch [] v = None"
| "firstFunctionMatch (f # fs) v =
     (case matchFunction f v of
        Some params \<Rightarrow> Some (f, params)
      | None \<Rightarrow> firstFunctionMatch fs v)"

text \<open>\<^verbatim>\<open>parseUnitValue\<close>: the first unit of \<open>unitMap\<close> the value ends with is cut out
  (\<^verbatim>\<open>replace\<close> removes its first occurrence) and the canonical unit appended.\<close>

fun parseUnitValueIn :: "(jstring \<times> jstring) list \<Rightarrow> jstring \<Rightarrow> jstring" where
  "parseUnitValueIn [] v = v"
| "parseUnitValueIn ((cnUnit, cssUnit) # us) v =
     (if js_endsWith v cnUnit then js_replaceFirst v cnUnit [] @ cssUnit
      else parseUnitValueIn us v)"

definition parseUnitValue :: "jstring \<Rightarrow> jstring" where
  "parseUnitValue v = parseUnitValueIn unitMap v"

text \<open>\<^verbatim>\<open>/^\d+(?:\.\d+)?(?:U1|U2|...)$/\<close> for a list of units without digits or dots:
  the split into number and unit, if there is one.\<close>

definition isDigit :: "jchar \<Rightarrow> bool" where
  "isDigit c = (48 \<le> c \<and> c \<le> 57)"

definition matchNumberUnit :: "jstring list \<Rightarrow> jstring \<Rightarrow> (jstring \<times> jstring) option" where
  "matchNumberUnit units v =
    (let ds = takeWhile isDigit v; r1 = dropWhile isDigit v in
     if ds = [] then None
     else if r1 \<in> set units then Some (ds, r1)
     else (case r1 of
             [] \<Rightarrow> None
           | c # r2 \<Rightarrow>
               (let fs = takeWhile isDigit r2; r3 = dropWhile isDigit r2 in
                if c = 46 \<and> fs \<noteq> [] \<and> r3 \<in> set units then Some (ds @ [46] @ fs, r3)
                else None)))"

definition parseValueUnits :: "jstring list" where
  "parseValueUnits = [[0x50CF, 0x7D20], [0x767E, 0x5206, 0x6BD4], [0x500D], [0x5EA6], [0x5B57, 0x9AD8]]"

text \<open>\<^verbatim>\<open>parseInt(s, 16)\<close>; \<open>None\<close> is \<^verbatim>\<open>NaN\<close>.\<close>

definition hexDigitValue :: "jchar \<Rightarrow> int option" where
  "hexDigitValue c =
    (if 48 \<le> c \<and> c \<le> 57 then Some (c - 48)
     else if 97 \<le> c \<and> c \<le> 102 then Some (c - 87)
     else if 65 \<le> c \<and> c \<le> 70 then Some (c - 55)
     else None)"

definition parseInt16 :: "jstring \<Rightarrow> int option" where
  "parseInt16 s =
    (let s1 = dropWhile js_ws s;
         neg = (s1 \<noteq> [] \<and> hd s1 = 45);
         s2 = (if s1 \<noteq> [] \<and> (hd s1 = 45 \<or> hd s1 = 43) then tl s1 else s1);
         s3 = (if js_startsWith s2 (S ''0x'') \<or> js_startsWith s2 (S ''0X'') then drop 2 s2 else s2);
         ds = takeWhile (\<lambda>c. hexDigitValue c \<noteq> None) s3
     in if ds = [] then None
        else Some ((if neg then - 1 else 1) * foldl (\<lambda>a c. 16 * a + the (hexDigitValue c)) 0 ds))"

text \<open>A number interpolated into a template literal.\<close>

fun show_number :: "int option \<Rightarrow> jstring" where
  "show_number None = S ''NaN''"
| "show_number (Some n) = (if n < 0 then 45 # show_nat (nat (- n)) else show_nat (nat n))"

text \<open>\<^verbatim>\<open>s.substring(a, b)\<close> for \<open>a \<le> b\<close>.\<close>

definition js_substring :: "jstring \<Rightarrow> nat \<Rightarrow> nat \<Rightarrow> jstring" where
  "js_substring s a b = take (b - a) (drop a s)"

definition hexToRgb :: "jstring \<Rightarrow> jstring" where
  "hexToRgb hex0 =
    (let h1 = js_replaceFirst hex0 (S ''#'') [];
         h = (if length h1 = 3 then [h1 ! 0, h1 ! 0, h1 ! 1, h1 ! 1, h1 ! 2, h1 ! 2] else h1)
     in S ''rgb('' @ show_number (parseInt16 (js_substring h 0 2)) @ S '','' @
        show_number (parseInt16 (js_substring h 2 4)) @ S '','' @
        show_number (parseInt16 (js_substring h 4 6)) @ S '')'')"

text \<open>\<^verbatim>\<open>/^#[0-9a-fA-F]{3,6}$/\<close>.\<close>

definition isHexColor :: "jstring \<Rightarrow> bool" where
  "isHexColor v =
    (case v of
       [] \<Rightarrow> False
     | c # h \<Rightarrow> c = 35 \<and> 3 \<le> length h \<and> length h \<le> 6 \<and> list_all (\<lambda>d. hexDigitValue d \<noteq> None) h)"

text \<open>The value tables local to \<^verbatim>\<open>parseValue\<close>.\<close>

definition avatarLayoutModeMap :: jsobj where
  "avatarLayoutModeMap =
    [([0x65E0], S ''none''), ([0x65E0, 0x5E03, 0x5C40], S ''none''), ([0x6324, 0x538B, 0x6587, 0x5B57, 0x6A21, 0x5F0F], S ''squeeze''),
     ([0x6324, 0x538B, 0x6A21, 0x5F0F], S ''squeeze''), ([0x60AC, 0x6D6E, 0x6A21, 0x5F0F], S ''overlay''), ([0x8986, 0x76D6, 0x6A21, 0x5F0F], S ''overlay'')]"

definition infoLayoutModeMap :: jsobj where
  "infoLayoutModeMap =
    [([0x65E0], S ''none''), ([0x4FDD, 0x6301, 0x539F, 0x4F4D, 0x7F6E], S ''none''), ([0x6324, 0x538B, 0x6587, 0x5B57, 0x6A21, 0x5F0F], S ''squeeze''),
     ([0x6324, 0x538B, 0x6A21, 0x5F0F], S ''squeeze''), ([0x5F71, 0x54CD, 0x5E03, 0x5C40], S ''squeeze''), ([0x60AC, 0x6D6E, 0x6A21, 0x5F0F], S ''overlay''),
     ([0x8986, 0x76D6, 0x5728, 0x4E0A, 0x5C42], S ''overlay''), ([0x8986, 0x76D6, 0x6A21, 0x5F0F], S ''overlay'')]"

definition directionMap :: jsobj where
  "directionMap =
    [([0x7AD6, 0x5217], S ''column''), ([0x4E0A, 0x4E0B, 0x6392, 0x5217], S ''column''), ([0x5782, 0x76F4, 0x6392, 0x5217], S ''column''),
     ([0x6A2A, 0x5217], S ''row''), ([0x5DE6, 0x53F3, 0x6392, 0x5217], S ''row''), ([0x6C34, 0x5E73, 0x6392, 0x5217], S ''row'')]"

definition positionMap :: jsobj where
  "positionMap =
    [([0x9876, 0x90E8, 0x5DE6], S ''top-left''), ([0x9876, 0x90E8, 0x4E2D], S ''top-center''), ([0x9876, 0x90E8, 0x53F3], S ''top-right''),
     ([0x5DE6, 0x8FB9, 0x4E0A], S ''left-top''), ([0x5DE6, 0x8FB9, 0x4E2D], S ''left-middle''), ([0x5DE6, 0x8FB9, 0x4E0B], S ''left-bottom''),
     ([0x53F3, 0x8FB9, 0x4E0A], S ''right-top''), ([0x53F3, 0x8FB9, 0x4E2D], S ''right-middle''), ([0x53F3, 0x8FB9, 0x4E0B], S ''right-bottom''),
     ([0x5E95, 0x90E8, 0x5DE6], S ''bottom-left''), ([0x5E95, 0x90E8, 0x4E2D], S ''bottom-center''), ([0x5E95, 0x90E8, 0x53F3], S ''bottom-right''),
     ([0x9876, 0x5DE6], S ''top-left''), ([0x9876, 0x4E2D], S ''top-center''), ([0x9876, 0x53F3], S ''top-right''),
     ([0x5DE6, 0x4E0A], S ''left-top''), ([0x5DE6, 0x4E2D], S ''left-middle''), ([0x5DE6, 0x4E0B], S ''left-bottom''),
     ([0x53F3, 0x4E0A], S ''right-top''), ([0x53F3, 0x4E2D], S ''right-middle''), ([0x53F3, 0x4E0B], S ''right-bottom''),
     ([0x5E95, 0x5DE6], S ''bottom-left''), ([0x5E95, 0x4E2D], S ''bottom-center''), ([0x5E95, 0x53F3], S ''bottom-right'')]"

text \<open>The part of \<^verbatim>\<open>parseValue\<close> after the function patterns, which calls nothing
  recursive.\<close>

definition parseValueTail :: "jstring \<Rightarrow> jstring \<Rightarrow> jstring" where
  "parseValueTail v property =
    (if matchNumberUnit parseValueUnits v \<noteq> None then parseUnitValue v
     else if js_startsWith v (S ''rgb('') \<or> js_startsWith v (S ''rgba('') then v
     else if isHexColor v then hexToRgb v
     else if js_endsWith property (S ''-enabled'') then
       (if v = [0x542F, 0x7528] then S ''enabled'' else S ''disabled'')
     else if property = S ''avatar-layout-mode'' then js_or (obj_get avatarLayoutModeMap v) v
     else if property = S ''info-layout-mode'' then js_or (obj_get infoLayoutModeMap v) v
     else if property = S ''info-direction'' then js_or (obj_get directionMap v) v
     else if property = S ''info-position'' then js_or (obj_get positionMap v) v
     else if property = S ''avatar-position'' then js_or (obj_get positionMap v) v
     else v)"

text \<open>The branches of \<^verbatim>\<open>parseFunctionValue\<close> that only wrap the parameters.\<close>

definition wrapFunction :: "jstring \<Rightarrow> jstring \<Rightarrow> jstring" where
  "wrapFunction fnName params =
    (if fnName = [0x7F29, 0x653E] then S ''scale('' @ params @ S '')''
     else if fnName = [0x65CB, 0x8F6C] then S ''rotate('' @ parseUnitValue params @ S '')''
     else if fnName = [0x79FB, 0x52A8] then S ''translate('' @ params @ S '')''
     else if fnName = [0x503E, 0x659C] then S ''skew('' @ params @ S '')''
     else if fnName = [0x77E9, 0x9635] then S ''matrix('' @ params @ S '')''
     else if fnName = [0x6A21, 0x7CCA] then S ''blur('' @ parseUnitValue params @ S '')''
     else if fnName = [0x6295, 0x5F71] then S ''drop-shadow('' @ params @ S '')''
     else if fnName = [0x4EAE, 0x5EA6] then S ''brightness('' @ params @ S '')''
     else if fnName = [0x5BF9, 0x6BD4, 0x5EA6] then S ''contrast('' @ params @ S '')''
     else if fnName = [0x9971, 0x548C, 0x5EA6] then S ''saturate('' @ params @ S '')''
     else if fnName = [0x8272, 0x76F8] \<or> fnName = [0x8272, 0x76F8, 0x65CB, 0x8F6C] then
       S ''hue-rotate('' @ parseUnitValue params @ S '')''
     else if fnName = [0x7070, 0x5EA6] then S ''grayscale('' @ params @ S '')''
     else if fnName = [0x53CD, 0x8F6C] then S ''invert('' @ params @ S '')''
     else if fnName = [0x8910, 0x8272] then S ''sepia('' @ params @ S '')''
     else if fnName = [0x8BA1, 0x7B97] then S ''calc('' @ params @ S '')''
     else if fnName = [0x6700, 0x5C0F, 0x503C] then S ''min('' @ params @ S '')''
     else if fnName = [0x6700, 0x5927, 0x503C] then S ''max('' @ params @ S '')''
     else if fnName = [0x5939, 0x503C] then S ''clamp('' @ params @ S '')''
     else if fnName = [0x53D8, 0x91CF] then S ''var('' @ params @ S '')''
     else params)"

definition gradientSeparator :: jstring where
  "gradientSeparator = (S '' '' @ [0x5230] @ S '' '')"

text \<open>
  \<^verbatim>\<open>parseValue\<close>, \<^verbatim>\<open>parseFunctionValue\<close> and the three gradient parsers call each
  other: a gradient with two parts around the separator translates each part as a
  \<open>background\<close> value. Every recursive call is on a strictly shorter string.
\<close>

function parseValue :: "jstring \<Rightarrow> jstring \<Rightarrow> jstring"
  and parseFunctionValue :: "jstring \<Rightarrow> jstring \<Rightarrow> jstring"
  and parseGradient :: "jstring \<Rightarrow> jstring"
  and parseRadialGradient :: "jstring \<Rightarrow> jstring"
  and parseConicGradient :: "jstring \<Rightarrow> jstring"
where
  "parseValue value property =
    (if property = [] then value
     else if truthy (obj_get presetValues (stripQuotes value))
       then the (obj_get presetValues (stripQuotes value))
     else (case firstFunctionMatch functionNames (stripQuotes value) of
             Some (fnName, params) \<Rightarrow> parseFunctionValue fnName params
           | None \<Rightarrow> parseValueTail (stripQuotes value) property))"
| "parseFunctionValue fnName params =
    (if fnName = [0x6E10, 0x53D8] \<or> fnName = [0x7EBF, 0x6027, 0x6E10, 0x53D8] then parseGradient params
     else if fnName = [0x5F84, 0x5411, 0x6E10, 0x53D8] then parseRadialGradient params
     else if fnName = [0x5706, 0x9525, 0x6E10, 0x53D8] then parseConicGradient params
     else wrapFunction fnName params)"
| "parseGradient params =
    (case js_split params gradientSeparator of
       [from, to] \<Rightarrow> S ''linear-gradient('' @ parseValue from (S ''background'') @ S '', '' @
                      parseValue to (S ''background'') @ S '')''
     | _ \<Rightarrow> params)"
| "parseRadialGradient params =
    (case js_split params gradientSeparator of
       [from, to] \<Rightarrow> S ''radial-gradient('' @ parseValue from (S ''background'') @ S '', '' @
                      parseValue to (S ''background'') @ S '')''
     | _ \<Rightarrow> S ''radial-gradient('' @ params @ S '')'')"
| "parseConicGradient params =
    (case js_split params gradientSeparator of
       [from, to] \<Rightarrow> S ''conic-gradient('' @ parseValue from (S ''background'') @ S '', '' @
                      parseValue to (S ''background'') @ S '')''
     | _ \<Rightarrow> S ''conic-gradient('' @ params @ S '')'')"
  by pat_completeness auto
termination
proof -
  have strip: "length (stripQuotes v) \<le> length v" for v
    by (cases v) (auto simp: stripQuotes_def Let_def)
  have mf: "matchFunction f v = Some p \<Longrightarrow> length p < length v" for f v p
    by (auto simp: matchFunction_def Let_def split: if_splits)
  have ffm: "firstFunctionMatch fs v = Some (f, p) \<Longrightarrow> length p < length v" for fs v f p
    by (induction fs) (auto split: option.splits dest: mf)
  have ffm2: "firstFunctionMatch fs (stripQuotes v) = Some (f, p) \<Longrightarrow> length p < length v"
    for fs v f p
    using ffm[of fs "stripQuotes v" f p] strip[of v] by simp
  have sp: "x \<in> set (js_split_from sep cur s) \<Longrightarrow> length x \<le> length cur + length s"
    for x sep cur s
  proof (induction sep cur s rule: js_split_from.induct)
    case (1 sep cur)
    then show ?case by simp
  next
    case (2 sep cur c cs)
    show ?case
    proof (cases "sep \<noteq> [] \<and> js_startsWith (c # cs) sep")
      case True
      with 2 show ?thesis by (cases sep) auto
    next
      case False
      with 2 show ?thesis by auto
    qed
  qed
  have split2: "js_split s sep = [a, b] \<Longrightarrow> length a \<le> length s \<and> length b \<le> length s"
    for s sep a b
    using sp[of a sep "[]" s] sp[of b sep "[]" s] by (simp add: js_split_def)
  show ?thesis
    by (relation "measure (\<lambda>x. case x of
          Inl (Inl (value, property)) \<Rightarrow> 3 * length value
        | Inl (Inr (fnName, params)) \<Rightarrow> 3 * length params + 2
        | Inr (Inl params) \<Rightarrow> 3 * length params + 1
        | Inr (Inr (Inl params)) \<Rightarrow> 3 * length params + 1
        | Inr (Inr (Inr params)) \<Rightarrow> 3 * length params + 1)")
       (auto dest!: ffm2 split2)
qed

text \<open>
  A pattern \<^verbatim>\<open>/NAME\((.*?)\)/\<close> searched anywhere in a text: the leftmost occurrence of
  \<open>NAME(\<close> from which a closing parenthesis is reached without crossing a line
  terminator; the group is the text up to the first such parenthesis. The result is the
  text before the match, the group, and the text after the match.
\<close>

fun findCall :: "jstring \<Rightarrow> jstring \<Rightarrow> (jstring \<times> jstring \<times> jstring) option" where
  "findCall name [] = None"
| "findCall name (c # cs) =
     (let rest = drop (length name + 1) (c # cs);
          inner = takeWhile (\<lambda>x. x \<noteq> 41) rest
      in if js_startsWith (c # cs) (name @ S ''('') \<and> length inner < length rest
            \<and> \<not> list_ex js_lineTerminator inner
         then Some ([], inner, drop (length inner + 1) rest)
         else map_option (\<lambda>(before, i, after). (c # before, i, after)) (findCall name cs))"

text \<open>\<^verbatim>\<open>formatGradient\<close>.\<close>

definition formatGradient :: "jstring \<Rightarrow> jstring" where
  "formatGradient v =
    (case findCall (S ''linear-gradient'') v of
       None \<Rightarrow> v
     | Some (before, inner, after) \<Rightarrow>
         (let params = map js_trim (js_splitc 44 inner) in
          if 2 \<le> length params
          then [0x6E10, 0x53D8] @ S ''('' @ hd params @ (S '' '' @ [0x5230] @ S '' '') @ last params @ S '')''
          else v))"

definition formatValueUnits :: "jstring list" where
  "formatValueUnits =
    [S ''px'', S ''%'', S ''deg'', S ''rad'', S ''grad'', S ''turn'', S ''ms'', S ''s'',
     S ''em'', S ''rem'', S ''ch'', S ''ex'', S ''in'', S ''cm'', S ''mm'', S ''pt'', S ''pc'',
     S ''vh'', S ''vw'', S ''vmin'', S ''vmax'', S ''fr'', S ''Hz'', S ''kHz'', S ''dpi'',
     S ''dpcm'', S ''dppx'']"

definition reverseModeMap :: jsobj where
  "reverseModeMap =
    [(S ''none'', [0x65E0]), (S ''squeeze'', [0x6324, 0x538B, 0x6587, 0x5B57, 0x6A21, 0x5F0F]), (S ''overlay'', [0x60AC, 0x6D6E, 0x6A21, 0x5F0F])]"

definition reverseDirectionMap :: jsobj where
  "reverseDirectionMap = [(S ''column'', [0x7AD6, 0x5217]), (S ''row'', [0x6A2A, 0x5217])]"

definition reversePositionMap :: jsobj where
  "reversePositionMap =
    [(S ''top-left'', [0x9876, 0x90E8, 0x5DE6]), (S ''top-center'', [0x9876, 0x90E8, 0x4E2D]), (S ''top-right'', [0x9876, 0x90E8, 0x53F3]),
     (S ''left-top'', [0x5DE6, 0x8FB9, 0x4E0A]), (S ''left-middle'', [0x5DE6, 0x8FB9, 0x4E2D]), (S ''left-bottom'', [0x5DE6, 0x8FB9, 0x4E0B]),
     (S ''right-top'', [0x53F3, 0x8FB9, 0x4E0A]), (S ''right-middle'', [0x53F3, 0x8FB9, 0x4E2D]), (S ''right-bottom'', [0x53F3, 0x8FB9, 0x4E0B]),
     (S ''bottom-left'', [0x5E95, 0x90E8, 0x5DE6]), (S ''bottom-center'', [0x5E95, 0x90E8, 0x4E2D]), (S ''bottom-right'', [0x5E95, 0x90E8, 0x53F3])]"

definition bgSizeMap :: jsobj where
  "bgSizeMap = [(S ''contain'', [0x5305, 0x542B]), (S ''cover'', [0x8986, 0x76D6]), (S ''auto'', [0x81EA, 0x52A8])]"

definition cssPositionMap :: jsobj where
  "cssPositionMap =
    [(S ''relative'', [0x76F8, 0x5BF9, 0x5B9A, 0x4F4D]), (S ''absolute'', [0x7EDD, 0x5BF9, 0x5B9A, 0x4F4D]), (S ''fixed'', [0x56FA, 0x5B9A, 0x5B9A, 0x4F4D]),
     (S ''sticky'', [0x7C98, 0x6027, 0x5B9A, 0x4F4D]), (S ''static'', [0x9759, 0x6001, 0x5B9A, 0x4F4D])]"

definition displayMap :: jsobj where
  "displayMap =
    [(S ''block'', [0x5757, 0x7EA7]), (S ''inline'', [0x884C, 0x5185]), (S ''inline-block'', [0x884C, 0x5185, 0x5757]),
     (S ''flex'', [0x5F39, 0x6027, 0x76D2]), (S ''grid'', [0x7F51, 0x683C]), (S ''none'', [0x65E0])]"

text \<open>\<^verbatim>\<open>formatValue(value, property)\<close>.\<close>

definition formatValue :: "jstring \<Rightarrow> jstring \<Rightarrow> jstring" where
  "formatValue v property =
    (if property = [] then v
     else if v = S ''transparent'' then [0x900F, 0x660E]
     else if v = S ''none'' then [0x65E0]
     else if property = S ''shadow-enabled'' \<or> property = S ''button-shadow-enabled''
             \<or> property = S ''icon-shadow-enabled'' then
       (if v = S ''enabled'' then [0x542F, 0x7528] else [0x7981, 0x7528])
     else if property = S ''avatar-layout-mode'' then js_or (obj_get reverseModeMap v) v
     else if property = S ''info-layout-mode'' then js_or (obj_get reverseModeMap v) v
     else if property = S ''info-direction'' then js_or (obj_get reverseDirectionMap v) v
     else if property = S ''info-position'' then js_or (obj_get reversePositionMap v) v
     else if property = S ''avatar-position'' then js_or (obj_get reversePositionMap v) v
     else if js_startsWith v (S ''rgb('') \<or> js_startsWith v (S ''rgba('') then v
     else if isHexColor v then hexToRgb v
     else (case matchNumberUnit formatValueUnits v of
             Some (num, unit) \<Rightarrow> num @ js_or (obj_get cnUnitMap unit) unit
           | None \<Rightarrow>
               if js_includes v (S ''gradient'') then formatGradient v
               else if js_includes v (S ''drop-shadow'') then
                 js_replaceFirst v (S ''drop-shadow'') [0x6295, 0x5F71]
               else if truthy (obj_get bgSizeMap v) then the (obj_get bgSizeMap v)
               else if truthy (obj_get cssPositionMap v) then the (obj_get cssPositionMap v)
               else if truthy (obj_get displayMap v) then the (obj_get displayMap v)
               else v))"

section \<open>The localized-format generator\<close>

datatype cncategory = CMessage | CInput | CLayout | CControls | CIcons | COther

definition detectCategoryCn :: "jstring \<Rightarrow> cncategory" where
  "detectCategoryCn selector =
    (if js_includes selector (S ''.mes'') \<or> js_includes selector (S ''.avatar'')
        \<or> js_includes selector (S ''.ch_name'') \<or> js_includes selector (S ''.timestamp'')
       then CMessage
     else if js_includes selector (S ''#send'') \<or> js_includes selector (S ''textarea'')
        \<or> js_includes selector (S ''#stop'') then CInput
     else if js_includes selector (S ''#chat'') \<or> js_includes selector (S ''#top-bar'')
        \<or> js_includes selector (S ''.drawer'') \<or> selector = S ''body'' then CLayout
     else if js_includes selector (S ''button'') \<or> js_includes selector (S ''.swipe'')
        \<or> js_includes selector (S ''scrollbar'') then CControls
     else if js_includes selector (S ''NavDrawerIcon'') \<or> js_includes selector (S ''Icon'')
       then CIcons
     else COther)"

definition getCategoryTitle :: "cncategory \<Rightarrow> jstring" where
  "getCategoryTitle c =
    (case c of CMessage \<Rightarrow> [0x6D88, 0x606F, 0x6837, 0x5F0F] | CInput \<Rightarrow> [0x8F93, 0x5165, 0x6837, 0x5F0F] | CLayout \<Rightarrow> [0x5E03, 0x5C40, 0x6837, 0x5F0F]
     | CControls \<Rightarrow> [0x63A7, 0x4EF6, 0x6837, 0x5F0F] | CIcons \<Rightarrow> [0x56FE, 0x6807, 0x6837, 0x5F0F] | COther \<Rightarrow> [0x5176, 0x4ED6, 0x6837, 0x5F0F])"

definition categorizeStyles :: "rulemap \<Rightarrow> (cncategory \<times> rulemap) list" where
  "categorizeStyles styles =
    map (\<lambda>c. (c, filter (\<lambda>(selector, properties). detectCategoryCn selector = c) styles))
      [CMessage, CInput, CLayout, CControls, CIcons, COther]"

text \<open>The block \<^verbatim>\<open>generateChineseFormat\<close> writes for one rule.\<close>

definition generateBlock :: "jstring \<times> jsobj \<Rightarrow> jstring" where
  "generateBlock rule =
    (let selector = fst rule;
         elementName = (if selector \<noteq> S ''#leftNavDrawerIcon'' \<and> selector \<noteq> S ''#rightNavDrawerIcon''
                        then getElementName selector else selector)
     in elementName @ S '' {'' @ [10] @
        concat (map (\<lambda>(prop, value). S ''  '' @ getPropertyName prop @ S '': '' @
                                       formatValue value prop @ [10]) (snd rule)) @
        S ''}'' @ [10])"

definition generateChineseFormat :: "rulemap \<Rightarrow> jstring" where
  "generateChineseFormat styles =
    (if styles = [] then []
     else js_trim (concat (map (\<lambda>(category, rules).
            if rules = [] then []
            else S ''# '' @ getCategoryTitle category @ [10] @
                 concat (map generateBlock rules) @ [10])
          (categorizeStyles styles))))"

section \<open>The localized-format parser\<close>

record pstate =
  styles :: rulemap
  currentElement :: "jstring option"
  currentStyles :: jsobj

text \<open>
  The test on a line that starts with the decoration marker:
  \<^verbatim>\<open>lines.indexOf('}', lines.indexOf(line)) !== -1\<close>. \<open>line\<close> is the trimmed line and
  \<open>lines\<close> the raw ones; a start index of \<^verbatim>\<open>-1\<close> makes the search start at the last
  element of the array.
\<close>

definition blockEndFound :: "jstring list \<Rightarrow> jstring \<Rightarrow> bool" where
  "blockEndFound lines line =
    (let start = (case arr_indexOf lines line of Some i \<Rightarrow> i | None \<Rightarrow> length lines - 1)
     in S ''}'' \<in> set (drop start lines))"

definition skippedLine :: "jstring \<Rightarrow> bool" where
  "skippedLine line =
    (line = [] \<or> js_startsWith line (S ''#'') \<or> js_startsWith line (S ''//'')
     \<or> js_startsWith line (S ''/*'') \<or> js_includes line [0x2728]
     \<or> js_includes line [0x89C6, 0x89C9, 0x6837, 0x5F0F, 0x914D, 0x7F6E] \<or> js_includes line (S ''undefined''))"

text \<open>Saving the styles of the current element, as the three places of the parser do.\<close>

definition flush :: "pstate \<Rightarrow> rulemap" where
  "flush st =
    (if truthy (currentElement st) \<and> currentStyles st \<noteq> []
     then map_set (styles st) (the (currentElement st)) (currentStyles st)
     else styles st)"

text \<open>The declaration branch: the line contains an ASCII colon and an element is open.\<close>

definition parseDeclaration :: "pstate \<Rightarrow> jstring \<Rightarrow> pstate" where
  "parseDeclaration st line =
    (let colonIndex = the (js_indexOf line (S '':''));
         propName = js_trim (take colonIndex line);
         propValue = js_trim (drop (colonIndex + 1) line)
     in if propName = [] \<or> propValue = [] then st
        else (let cssProp = getProperty propName in
              if cssProp \<noteq> []
              then st\<lparr>currentStyles := obj_set (currentStyles st) cssProp (parseValue propValue cssProp)\<rparr>
              else st))"

text \<open>One iteration of the loop of \<^verbatim>\<open>_actualParseChineseFormat\<close> over the lines.\<close>

definition parseLine :: "jstring list \<Rightarrow> pstate \<Rightarrow> jstring \<Rightarrow> pstate" where
  "parseLine lines st rawLine =
    (let line = js_trim rawLine in
     if js_startsWith line (S ''@'') \<and> blockEndFound lines line then st
     else if skippedLine line then st
     else if js_endsWith line (S ''{'') then
       \<lparr> styles = flush st,
         currentElement = Some (getSelector (js_trim (js_replaceFirst line (S ''{'') []))),
         currentStyles = [] \<rparr>
     else if line = S ''}'' then
       \<lparr> styles = flush st, currentElement = None, currentStyles = [] \<rparr>
     else if js_includes line (S '':'') \<and> truthy (currentElement st) then parseDeclaration st line
     else st)"

definition initialState :: pstate where
  "initialState = \<lparr> styles = [], currentElement = None, currentStyles = [] \<rparr>"

definition actualParseChineseFormat :: "jstring \<Rightarrow> rulemap" where
  "actualParseChineseFormat input =
    (let lines = js_splitc 10 input
     in flush (foldl (parseLine lines) initialState lines))"

section \<open>The result cache\<close>

text \<open>
  \<^verbatim>\<open>SmartCache\<close>: a \<^verbatim>\<open>Map\<close> from signatures to parse results, at most \<open>maxSize\<close>
  entries. \<^verbatim>\<open>parseCSS\<close> returns the result together with the new cache.
\<close>

definition maxSize :: nat where
  "maxSize = 10"

definition cacheKey :: "jstring \<Rightarrow> jstring" where
  "cacheKey cssText = take 100 cssText @ S ''_'' @ show_nat (length cssText)"

definition parseCSS :: "(jstring \<Rightarrow> rulemap) \<Rightarrow> (jstring \<times> rulemap) list \<Rightarrow> jstring
    \<Rightarrow> rulemap \<times> (jstring \<times> rulemap) list" where
  "parseCSS actualParseFunc cache cssText =
    (let key = cacheKey cssText in
     case map_of cache key of
       Some cached \<Rightarrow> (cached, cache)
     | None \<Rightarrow>
         (let result = actualParseFunc cssText;
              cache1 = AList.update key result cache
          in (result, if length cache1 > maxSize then tl cache1 else cache1)))"

definition parseChineseFormat :: "(jstring \<times> rulemap) list \<Rightarrow> jstring
    \<Rightarrow> rulemap \<times> (jstring \<times> rulemap) list" where
  "parseChineseFormat cache input = parseCSS actualParseChineseFormat cache input"

text \<open>A run of calls of the memoized parser, starting from a given cache.\<close>

fun parseAll :: "(jstring \<times> rulemap) list \<Rightarrow> jstring list \<Rightarrow> (jstring \<times> rulemap) list" where
  "parseAll cache [] = cache"
| "parseAll cache (input # inputs) = parseAll (snd (parseChineseFormat cache input)) inputs"

section \<open>The decoration rule engine\<close>

subsection \<open>Translating the declarations of a decoration block\<close>

text \<open>\<^verbatim>\<open>s.replace(/PAT/g, rep)\<close> for a literal, non-empty pattern.\<close>

function js_replaceAll :: "jstring \<Rightarrow> jstring \<Rightarrow> jstring \<Rightarrow> jstring" where
  "js_replaceAll [] pat rep = []"
| "js_replaceAll (c # cs) pat rep =
     (if pat \<noteq> [] \<and> js_startsWith (c # cs) pat
      then rep @ js_replaceAll (drop (length pat) (c # cs)) pat rep
      else c # js_replaceAll cs pat rep)"
  by pat_completeness auto
termination
  by (relation "measure (\<lambda>(s, pat, rep). length s)") auto

text \<open>\<^verbatim>\<open>s.replace(/NAME\((.*?)\)/, 'out($1)')\<close>: the first call of \<open>NAME\<close> is renamed.\<close>

definition renameCall :: "jstring \<Rightarrow> jstring \<Rightarrow> jstring \<Rightarrow> jstring" where
  "renameCall name out s =
    (case findCall name s of
       None \<Rightarrow> s
     | Some (before, inner, after) \<Rightarrow> before @ out @ S ''('' @ inner @ S '')'' @ after)"

text \<open>\<^verbatim>\<open>resolveSelector\<close> and \<^verbatim>\<open>translateProperty\<close>, with the format parser present.
  \<open>None\<close> is the result \<^verbatim>\<open>null\<close> for an unknown property.\<close>

definition resolveSelector :: "jstring \<Rightarrow> jstring" where
  "resolveSelector elementName =
    (if getSelector elementName \<noteq> elementName then getSelector elementName
     else if js_includes elementName (S ''.'') \<or> js_includes elementName (S ''#'')
             \<or> js_includes elementName (S ''['') then elementName
     else S ''.'' @ elementName)"

definition decorationSpecificProps :: jsobj where
  "decorationSpecificProps =
    [([0x662F, 0x5426, 0x8D85, 0x51FA, 0x7236, 0x5143, 0x7D20, 0x663E, 0x793A], S ''decoration-overflow-mode''),
     ([0x8D85, 0x51FA, 0x7236, 0x5143, 0x7D20], S ''decoration-overflow-mode'')]"

definition isLowerOrDash :: "jchar \<Rightarrow> bool" where
  "isLowerOrDash c = ((97 \<le> c \<and> c \<le> 122) \<or> c = 45)"

definition translateProperty :: "jstring \<Rightarrow> jstring option" where
  "translateProperty prop =
    (if getProperty prop \<noteq> prop then Some (getProperty prop)
     else if truthy (obj_get decorationSpecificProps prop)
       then obj_get decorationSpecificProps prop
     else if prop \<noteq> [] \<and> list_all isLowerOrDash prop then Some prop
     else None)"

definition decoPositionMap :: jsobj where
  "decoPositionMap =
    [([0x7EDD, 0x5BF9], S ''absolute''), ([0x76F8, 0x5BF9], S ''relative''), ([0x56FA, 0x5B9A], S ''fixed''),
     ([0x9759, 0x6001], S ''static''), ([0x7C98, 0x6027], S ''sticky''), ([0x76F8, 0x5BF9, 0x5B9A, 0x4F4D], S ''relative''),
     ([0x7EDD, 0x5BF9, 0x5B9A, 0x4F4D], S ''absolute''), ([0x56FA, 0x5B9A, 0x5B9A, 0x4F4D], S ''fixed'')]"

definition repeatMap :: jsobj where
  "repeatMap =
    [([0x91CD, 0x590D], S ''repeat''), ([0x4E0D, 0x91CD, 0x590D], S ''no-repeat''), ([0x6A2A, 0x5411, 0x91CD, 0x590D], S ''repeat-x''),
     ([0x7EB5, 0x5411, 0x91CD, 0x590D], S ''repeat-y''), ([0x91CD, 0x590D, 0x6A2A, 0x5411], S ''repeat-x''), ([0x91CD, 0x590D, 0x7EB5, 0x5411], S ''repeat-y''),
     ([0x7A7A, 0x95F4], S ''space''), ([0x5706, 0x5F62], S ''round'')]"

definition sizeMap :: jsobj where
  "sizeMap =
    [([0x5305, 0x542B], S ''contain''), ([0x8986, 0x76D6], S ''cover''), ([0x81EA, 0x52A8], S ''auto''), ([0x539F, 0x59CB], S ''auto'')]"

definition positionValueMap :: jsobj where
  "positionValueMap =
    [([0x5C45, 0x4E2D], S ''center''), ([0x4E2D, 0x5FC3], S ''center''), ([0x5DE6, 0x4FA7], S ''left''), ([0x53F3, 0x4FA7], S ''right''),
     ([0x9876, 0x90E8], S ''top''), ([0x5E95, 0x90E8], S ''bottom''), ([0x5DE6, 0x4E0A], S ''left top''),
     ([0x53F3, 0x4E0A], S ''right top''), ([0x5DE6, 0x4E0B], S ''left bottom''), ([0x53F3, 0x4E0B], S ''right bottom''),
     ([0x4E2D, 0x4E0A], S ''center top''), ([0x4E2D, 0x4E0B], S ''center bottom''), ([0x5DE6, 0x4E2D], S ''left center''),
     ([0x53F3, 0x4E2D], S ''right center'')]"

definition attachmentMap :: jsobj where
  "attachmentMap = [([0x56FA, 0x5B9A], S ''fixed''), ([0x6EDA, 0x52A8], S ''scroll''), ([0x672C, 0x5730], S ''local'')]"

definition pointerMap :: jsobj where
  "pointerMap =
    [([0x65E0], S ''none''), ([0x81EA, 0x52A8], S ''auto''), ([0x7981, 0x7528], S ''none''), ([0x542F, 0x7528], S ''auto'')]"

definition translateUnits :: "jstring \<Rightarrow> jstring" where
  "translateUnits v =
    js_replaceAll (js_replaceAll (js_replaceAll (js_replaceAll (js_replaceAll (js_replaceAll v
      [0x50CF, 0x7D20] (S ''px'')) [0x767E, 0x5206, 0x6BD4] (S ''%'')) [0x767E, 0x5206, 0x53F7] (S ''%'')) [0x79D2] (S ''s''))
      [0x6BEB, 0x79D2] (S ''ms'')) [0x5EA6] (S ''deg'')"

definition translateTransform :: "jstring \<Rightarrow> jstring" where
  "translateTransform v =
    renameCall [0x503E, 0x659C] (S ''skew'') (renameCall [0x79FB, 0x52A8] (S ''translate'')
      (renameCall [0x504F, 0x79FB] (S ''translate'') (renameCall [0x7F29, 0x653E] (S ''scale'')
        (renameCall [0x65CB, 0x8F6C] (S ''rotate'') v))))"

definition translateFilter :: "jstring \<Rightarrow> jstring" where
  "translateFilter v =
    renameCall [0x8910, 0x8272] (S ''sepia'') (renameCall [0x900F, 0x660E, 0x5EA6] (S ''opacity'')
      (renameCall [0x53CD, 0x8F6C] (S ''invert'') (renameCall [0x9971, 0x548C, 0x5EA6] (S ''saturate'')
        (renameCall [0x8272, 0x76F8, 0x65CB, 0x8F6C] (S ''hue-rotate'') (renameCall [0x7070, 0x5EA6] (S ''grayscale'')
          (renameCall [0x5BF9, 0x6BD4, 0x5EA6] (S ''contrast'') (renameCall [0x4EAE, 0x5EA6] (S ''brightness'')
            (renameCall [0x6A21, 0x7CCA] (S ''blur'') v))))))))"

text \<open>\<^verbatim>\<open>translateValue(value, property)\<close>; the property is \<open>None\<close> when
  \<^verbatim>\<open>translateProperty\<close> returned \<^verbatim>\<open>null\<close>.\<close>

definition translateValue :: "jstring \<Rightarrow> jstring option \<Rightarrow> jstring" where
  "translateValue v property =
    (if property = Some (S ''decoration-overflow-mode'') then
       (if v = [0x8D85, 0x51FA] \<or> v = [0x5141, 0x8BB8, 0x8D85, 0x51FA] \<or> v = [0x662F] then S ''allow-overflow'' else S ''contain'')
     else if property = Some (S ''content'') then
       (if v = [] \<or> v = [0x7A7A] \<or> v = [0x65E0] then [39, 39] else v)
     else
       (let pv = translateUnits v in
        if property = Some (S ''position'') \<and> truthy (obj_get decoPositionMap pv)
          then the (obj_get decoPositionMap pv)
        else if property = Some (S ''background-repeat'') \<and> truthy (obj_get repeatMap pv)
          then the (obj_get repeatMap pv)
        else if property = Some (S ''background-size'') then js_or (obj_get sizeMap pv) pv
        else if property = Some (S ''background-position'') then js_or (obj_get positionValueMap pv) pv
        else if property = Some (S ''background-attachment'') \<and> truthy (obj_get attachmentMap pv)
          then the (obj_get attachmentMap pv)
        else if property = Some (S ''pointer-events'') \<and> truthy (obj_get pointerMap pv)
          then the (obj_get pointerMap pv)
        else if property = Some (S ''transform'') then translateTransform pv
        else if property = Some (S ''filter'') then translateFilter pv
        else if js_startsWith pv (S ''rgb'') then pv
        else (let result = parseValue pv (case property of None \<Rightarrow> [] | Some p \<Rightarrow> p)
              in if result \<noteq> [] then result else pv)))"

text \<open>\<^verbatim>\<open>styleText.split(/[;\uFF1B\n]/)\<close> (the class is written with the full-width
  semicolon itself): a split at every character of a class.\<close>

fun js_splitWhere :: "(jchar \<Rightarrow> bool) \<Rightarrow> jstring \<Rightarrow> jstring list" where
  "js_splitWhere P [] = [[]]"
| "js_splitWhere P (c # cs) =
     (if P c then [] # js_splitWhere P cs
      else (case js_splitWhere P cs of [] \<Rightarrow> [[c]] | p # ps \<Rightarrow> (c # p) # ps))"

definition declarationSeparator :: "jchar \<Rightarrow> bool" where
  "declarationSeparator c = (c = 59 \<or> c = 0xFF1B \<or> c = 10)"

text \<open>The position of the separating colon in a declaration of a decoration block: the
  first ASCII colon, or else the first full-width colon.\<close>

definition colonIndexOf :: "jstring \<Rightarrow> nat option" where
  "colonIndexOf declaration =
    (case js_indexOf declaration (S '':'') of
       Some i \<Rightarrow> Some i
     | None \<Rightarrow> js_indexOf declaration [0xFF1A])"

definition parseStyleDeclaration :: "jsobj \<Rightarrow> jstring \<Rightarrow> jsobj" where
  "parseStyleDeclaration acc declaration =
    (if js_trim declaration = [] then acc
     else (case colonIndexOf declaration of
             None \<Rightarrow> acc
           | Some colonIndex \<Rightarrow>
               (let prop = js_trim (take colonIndex declaration);
                    v = js_trim (drop (colonIndex + 1) declaration);
                    cssProp = translateProperty prop;
                    cssValue = translateValue v cssProp
                in if truthy cssProp \<and> cssValue \<noteq> []
                   then obj_set acc (the cssProp) cssValue
                   else acc)))"

definition parseStyles :: "jstring \<Rightarrow> jsobj" where
  "parseStyles styleText =
    foldl parseStyleDeclaration [] (js_splitWhere declarationSeparator styleText)"

subsection \<open>Rules, synthetic nodes and reconciliation\<close>

record decoRule =
  rid :: jstring
  selector :: jstring
  elementName :: jstring
  decorationName :: jstring
  ruleStyles :: jsobj
  className :: jstring

text \<open>
  \<^verbatim>\<open>JSON.stringify\<close> of an object whose values are strings. \<open>hex4\<close> prints the four
  lowercase hexadecimal digits of a code unit; a lone surrogate is escaped, a surrogate
  pair is copied.
\<close>

definition hexDigit :: "int \<Rightarrow> jchar" where
  "hexDigit d = (if d < 10 then 48 + d else 87 + d)"

definition hex4 :: "jchar \<Rightarrow> jstring" where
  "hex4 c = [hexDigit (c div 4096 mod 16), hexDigit (c div 256 mod 16),
             hexDigit (c div 16 mod 16), hexDigit (c mod 16)]"

definition jsonEscapeUnit :: "jchar \<Rightarrow> jstring" where
  "jsonEscapeUnit c =
    (if c = 8 then [92, 98]
     else if c = 9 then [92, 116]
     else if c = 10 then [92, 110]
     else if c = 12 then [92, 102]
     else if c = 13 then [92, 114]
     else if c = 34 then [92, 34]
     else if c = 92 then [92, 92]
     else if c < 32 then [92, 117] @ hex4 c
     else [c])"

definition isHighSurrogate :: "jchar \<Rightarrow> bool" where
  "isHighSurrogate c = (0xD800 \<le> c \<and> c \<le> 0xDBFF)"

definition isLowSurrogate :: "jchar \<Rightarrow> bool" where
  "isLowSurrogate c = (0xDC00 \<le> c \<and> c \<le> 0xDFFF)"

fun jsonEscape :: "jstring \<Rightarrow> jstring" where
  "jsonEscape [] = []"
| "jsonEscape [c] =
     (if isHighSurrogate c \<or> isLowSurrogate c then [92, 117] @ hex4 c else jsonEscapeUnit c)"
| "jsonEscape (c # d # cs) =
     (if isHighSurrogate c \<and> isLowSurrogate d then c # d # jsonEscape cs
      else if isHighSurrogate c \<or> isLowSurrogate c then [92, 117] @ hex4 c @ jsonEscape (d # cs)
      else jsonEscapeUnit c @ jsonEscape (d # cs))"

definition jsonQuote :: "jstring \<Rightarrow> jstring" where
  "jsonQuote s = 34 # jsonEscape s @ [34]"

fun jsonMembers :: "jsobj \<Rightarrow> jstring" where
  "jsonMembers [] = []"
| "jsonMembers ((k, v) # kvs) =
     jsonQuote k @ S '':'' @ jsonQuote v @ (if kvs = [] then [] else S '','' @ jsonMembers kvs)"

definition json_stringify :: "jsobj \<Rightarrow> jstring" where
  "json_stringify ob = S ''{'' @ jsonMembers ob @ S ''}''"

type_synonym ruletable = "(jstring \<times> decoRule) list"

text \<open>
  The three lists \<^verbatim>\<open>reconcileDecorations(oldRules)\<close> computes; \<open>newRules\<close> is
  \<^verbatim>\<open>this.decorationRules\<close> at the time of the call.
\<close>

definition toRemove :: "ruletable \<Rightarrow> ruletable \<Rightarrow> decoRule list" where
  "toRemove oldRules newRules =
    map snd (filter (\<lambda>(ruleId, rule). map_of newRules ruleId = None) oldRules)"

definition toAdd :: "ruletable \<Rightarrow> ruletable \<Rightarrow> decoRule list" where
  "toAdd oldRules newRules =
    map snd (filter (\<lambda>(ruleId, rule). map_of oldRules ruleId = None) newRules)"

definition toUpdate :: "ruletable \<Rightarrow> ruletable \<Rightarrow> decoRule list" where
  "toUpdate oldRules newRules =
    map snd (filter (\<lambda>(ruleId, rule).
       case map_of oldRules ruleId of
         None \<Rightarrow> False
       | Some oldRule \<Rightarrow> json_stringify (ruleStyles oldRule) \<noteq> json_stringify (ruleStyles rule))
     newRules)"

text \<open>
  The part of the page the engine acts on. The anchor elements are values of a type
  \<open>'e\<close>, and \<open>qsa sel\<close> lists the anchors \<^verbatim>\<open>document.querySelectorAll(sel)\<close> finds, which
  the synthetic nodes are not among. A synthetic node records its parent anchor, the class
  and the two data attributes it was created with, and its inline style.
  \<open>applied\<close> is the \<^verbatim>\<open>WeakMap\<close> from anchors to sets of rule ids (an absent entry is
  the empty set), \<open>anchorStyle\<close> the inline style of an anchor. The browser's validation
  of style declarations is not modelled: an inline style is the object assigned to it.
\<close>

record 'e node =
  parent :: 'e
  nodeClass :: jstring
  decorationId :: jstring
  nodeName :: jstring
  nodeStyle :: jsobj

record 'e dom =
  nodes :: "'e node list"
  applied :: "'e \<Rightarrow> jstring set"
  anchorStyle :: "'e \<Rightarrow> jsobj"

text \<open>\<^verbatim>\<open>applyStylesToElement\<close>: the style is replaced, and \<open>pointer-events\<close> is set to
  \<open>none\<close> unless the styles give it a value.\<close>

definition appliedStyle :: "jsobj \<Rightarrow> jsobj" where
  "appliedStyle st =
    (if truthy (obj_get st (S ''pointer-events'')) then st
     else obj_set st (S ''pointer-events'') (S ''none''))"

definition createDecorationElement :: "decoRule \<Rightarrow> 'e \<Rightarrow> 'e node" where
  "createDecorationElement rule e =
    \<lparr> parent = e, nodeClass = className rule, decorationId = rid rule,
      nodeName = decorationName rule,
      nodeStyle = appliedStyle (obj_delete (ruleStyles rule) (S ''decoration-overflow-mode'')) \<rparr>"

text \<open>\<^verbatim>\<open>removeDecoration(rule)\<close>: the nodes with the rule's class and id are removed
  from the page, and the id leaves the record of every anchor the rule's selector finds.\<close>

definition removeDecoration :: "(jstring \<Rightarrow> 'e list) \<Rightarrow> decoRule \<Rightarrow> 'e dom \<Rightarrow> 'e dom" where
  "removeDecoration qsa rule d =
    d\<lparr> nodes := filter (\<lambda>n. \<not> (nodeClass n = className rule \<and> decorationId n = rid rule)) (nodes d),
       applied := (\<lambda>e. if e \<in> set (qsa (selector rule)) then applied d e - {rid rule}
                         else applied d e) \<rparr>"

text \<open>The style of the first node under an anchor that has a given class is replaced.\<close>

fun restyleFirst :: "'e \<Rightarrow> jstring \<Rightarrow> jsobj \<Rightarrow> 'e node list \<Rightarrow> 'e node list" where
  "restyleFirst e cls st [] = []"
| "restyleFirst e cls st (n # ns) =
     (if parent n = e \<and> nodeClass n = cls then n\<lparr>nodeStyle := st\<rparr> # ns
      else n # restyleFirst e cls st ns)"

text \<open>
  One anchor of \<^verbatim>\<open>applyDecoration(rule)\<close>. \<open>isStatic e\<close> tells whether the page's
  style sheets leave the anchor statically positioned; its computed position is static
  when that holds and its inline style sets no position.
\<close>

definition applyToElement :: "('e \<Rightarrow> bool) \<Rightarrow> decoRule \<Rightarrow> 'e \<Rightarrow> 'e dom \<Rightarrow> 'e dom" where
  "applyToElement isStatic rule e d =
    (if rid rule \<in> applied d e then
       d\<lparr> nodes := restyleFirst e (className rule) (appliedStyle (ruleStyles rule)) (nodes d) \<rparr>
     else
       (let overflowMode = js_or (obj_get (ruleStyles rule) (S ''decoration-overflow-mode''))
                             (S ''contain'');
            st0 = anchorStyle d e;
            st1 = (if overflowMode = S ''allow-overflow'' then obj_set st0 (S ''overflow'') (S ''visible'')
                   else obj_set
                     (if obj_get (ruleStyles rule) (S ''position'') = Some (S ''absolute'')
                         \<and> isStatic e \<and> \<not> truthy (obj_get st0 (S ''position''))
                      then obj_set st0 (S ''position'') (S ''relative'') else st0)
                     (S ''overflow'') (S ''hidden''))
        in d\<lparr> nodes := nodes d @ [createDecorationElement rule e],
              applied := (applied d)(e := insert (rid rule) (applied d e)),
              anchorStyle := (anchorStyle d)(e := st1) \<rparr>))"

definition applyDecoration ::
    "(jstring \<Rightarrow> 'e list) \<Rightarrow> ('e \<Rightarrow> bool) \<Rightarrow> decoRule \<Rightarrow> 'e dom \<Rightarrow> 'e dom" where
  "applyDecoration qsa isStatic rule d =
    fold (applyToElement isStatic rule) (qsa (selector rule)) d"

text \<open>\<^verbatim>\<open>reconcileDecorations(oldRules)\<close>: removals, then updates (each a removal
  followed by an application), then additions.\<close>

definition reconcileDecorations ::
    "(jstring \<Rightarrow> 'e list) \<Rightarrow> ('e \<Rightarrow> bool) \<Rightarrow> ruletable \<Rightarrow> ruletable \<Rightarrow> 'e dom \<Rightarrow> 'e dom" where
  "reconcileDecorations qsa isStatic oldRules newRules d =
    fold (applyDecoration qsa isStatic) (toAdd oldRules newRules)
      (fold (\<lambda>rule d'. applyDecoration qsa isStatic rule (removeDecoration qsa rule d'))
         (toUpdate oldRules newRules)
         (fold (removeDecoration qsa) (toRemove oldRules newRules) d))"

subsection \<open>Extracting the decoration blocks\<close>

text \<open>
  One match of \<^verbatim>\<open>/@([^:\uFF1A{]+)[\uFF1A:]([^{]+)\s*\{([^}]+)\}/\<close> (written with the
  full-width colon itself) at the start of a text:
  the three groups and the text after the match. Each group is a maximal run, since the
  character that has to follow it is not in its class.
\<close>

definition decoMatchAt :: "jstring \<Rightarrow> (jstring \<times> jstring \<times> jstring \<times> jstring) option" where
  "decoMatchAt s =
    (case s of
       [] \<Rightarrow> None
     | a # r \<Rightarrow>
        (let g1 = takeWhile (\<lambda>c. c \<noteq> 58 \<and> c \<noteq> 0xFF1A \<and> c \<noteq> 123) r;
             r1 = dropWhile (\<lambda>c. c \<noteq> 58 \<and> c \<noteq> 0xFF1A \<and> c \<noteq> 123) r;
             g2 = takeWhile (\<lambda>c. c \<noteq> 123) (tl r1);
             r2 = dropWhile (\<lambda>c. c \<noteq> 123) (tl r1);
             g3 = takeWhile (\<lambda>c. c \<noteq> 125) (tl r2);
             r3 = dropWhile (\<lambda>c. c \<noteq> 125) (tl r2)
         in if a = 64 \<and> g1 \<noteq> [] \<and> r1 \<noteq> [] \<and> (hd r1 = 58 \<or> hd r1 = 0xFF1A)
               \<and> g2 \<noteq> [] \<and> r2 \<noteq> [] \<and> g3 \<noteq> [] \<and> r3 \<noteq> []
            then Some (g1, g2, g3, tl r3)
            else None))"

text \<open>The loop \<^verbatim>\<open>while ((match = decorationPattern.exec(cssText)) !== null)\<close>: the
  matches from left to right, each with its full text.\<close>

function decoMatches :: "jstring \<Rightarrow> (jstring \<times> jstring \<times> jstring \<times> jstring) list" where
  "decoMatches [] = []"
| "decoMatches (c # cs) =
     (case decoMatchAt (c # cs) of
        None \<Rightarrow> decoMatches cs
      | Some (g1, g2, g3, rest) \<Rightarrow>
          (take (length (c # cs) - length rest) (c # cs), g1, g2, g3) # decoMatches rest)"
  by pat_completeness auto
termination
proof -
  have shorter: "decoMatchAt s = Some (g1, g2, g3, rest) \<Longrightarrow> length rest < length s"
    for s g1 g2 g3 rest
  proof -
    assume m: "decoMatchAt s = Some (g1, g2, g3, rest)"
    then obtain a r where s: "s = a # r" by (cases s) (auto simp: decoMatchAt_def)
    let ?r1 = "dropWhile (\<lambda>c. c \<noteq> 58 \<and> c \<noteq> 0xFF1A \<and> c \<noteq> 123) r"
    let ?r2 = "dropWhile (\<lambda>c. c \<noteq> 123) (tl ?r1)"
    let ?r3 = "dropWhile (\<lambda>c. c \<noteq> 125) (tl ?r2)"
    from m s have rest: "rest = tl ?r3"
      by (auto simp: decoMatchAt_def Let_def split: if_splits)
    have "length ?r3 \<le> length (tl ?r2)" by (rule length_dropWhile_le)
    moreover have "length ?r2 \<le> length (tl ?r1)" by (rule length_dropWhile_le)
    moreover have "length ?r1 \<le> length r" by (rule length_dropWhile_le)
    ultimately have "length (tl ?r3) \<le> length r" by simp
    with rest s show ?thesis by simp
  qed
  show ?thesis
    by (relation "measure length") (auto dest: shorter)
qed

text \<open>The rule \<^verbatim>\<open>processCSS\<close> builds from one match.\<close>

definition ruleOfMatch :: "jstring \<times> jstring \<times> jstring \<times> jstring \<Rightarrow> decoRule" where
  "ruleOfMatch m =
    (case m of (fullMatch, g1, g2, g3) \<Rightarrow>
      \<lparr> rid = js_trim g1 @ S ''-'' @ js_trim g2,
        selector = resolveSelector (js_trim g1),
        elementName = js_trim g1,
        decorationName = js_trim g2,
        ruleStyles = parseStyles g3,
        className = S ''ve-decoration-'' @ replaceSpaceRuns (S ''-'') (js_trim g2) \<rparr>)"

record 'e engine =
  lastProcessedCSS :: jstring
  decorationRules :: ruletable
  page :: "'e dom"

text \<open>\<^verbatim>\<open>processCSS(cssText)\<close>: the text without the decoration blocks, and the new state
  of the engine.\<close>

definition processCSS ::
    "(jstring \<Rightarrow> 'e list) \<Rightarrow> ('e \<Rightarrow> bool) \<Rightarrow> 'e engine \<Rightarrow> jstring \<Rightarrow> jstring \<times> 'e engine" where
  "processCSS qsa isStatic eng cssText =
    (if cssText = lastProcessedCSS eng then (cssText, eng)
     else
       (let oldRules = decorationRules eng;
            ms = decoMatches cssText;
            newRules = foldl (\<lambda>rules m. AList.update (rid (ruleOfMatch m)) (ruleOfMatch m) rules) [] ms;
            cleanCSS = foldl (\<lambda>css m. js_replaceFirst css (fst m) []) cssText ms
        in (cleanCSS,
            \<lparr> lastProcessedCSS = cssText, decorationRules = newRules,
              page = reconcileDecorations qsa isStatic oldRules newRules (page eng) \<rparr>)))"

section \<open>The canonical-stylesheet parser\<close>

text \<open>
  \<^verbatim>\<open>normalizeValue\<close> of visual-editor-parser.js. Its first step,
  \<^verbatim>\<open>value.replace(/\s*!important\s*$/, '')\<close>, removes an \<open>!important\<close> that only
  white space follows, together with the white space around it.
\<close>

definition dropImportant :: "jstring \<Rightarrow> jstring" where
  "dropImportant v =
    (if js_endsWith (js_trimEnd v) (S ''!important'')
     then js_trimEnd (take (length (js_trimEnd v) - 10) (js_trimEnd v))
     else v)"

definition normalizeValue :: "jstring \<Rightarrow> jstring" where
  "normalizeValue v =
    map (\<lambda>c. if c = 39 then 34 else c)
      (replaceSpaceRuns (S '' '') (js_trim (dropImportant v)))"

text \<open>\<^verbatim>\<open>parseDeclarations\<close>: the parts between semicolons that are not blank, each split
  at its first colon when that colon is not the first character. The assignment
  \<^verbatim>\<open>properties[property] = value\<close> adds no property when the name is \<^verbatim>\<open>__proto__\<close>:
  the setter of that name ignores a string.\<close>

definition parseDeclarationPart :: "jsobj \<Rightarrow> jstring \<Rightarrow> jsobj" where
  "parseDeclarationPart properties part =
    (case js_indexOf part (S '':'') of
       None \<Rightarrow> properties
     | Some colonIndex \<Rightarrow>
         if 0 < colonIndex \<and> js_trim (take colonIndex part) \<noteq> []
            \<and> js_trim (drop (colonIndex + 1) part) \<noteq> []
         then (if js_trim (take colonIndex part) = S ''__proto__'' then properties
               else obj_set properties (js_trim (take colonIndex part))
                      (normalizeValue (js_trim (drop (colonIndex + 1) part))))
         else properties)"

definition parseDeclarations :: "jstring \<Rightarrow> jsobj" where
  "parseDeclarations declarations =
    foldl parseDeclarationPart []
      (filter (\<lambda>p. js_trim p \<noteq> []) (js_splitc 59 declarations))"

text \<open>
  One match of \<^verbatim>\<open>/([^{]+)\{([^}]+)\}/\<close> at the start of a text: a non-empty run
  without an opening brace, the brace, a non-empty run without a closing brace, and the
  closing brace; the two groups and the text after the match.
\<close>

definition cssMatchAt :: "jstring \<Rightarrow> (jstring \<times> jstring \<times> jstring) option" where
  "cssMatchAt s =
    (let sel = takeWhile (\<lambda>c. c \<noteq> 123) s;
         r1 = dropWhile (\<lambda>c. c \<noteq> 123) s;
         body = takeWhile (\<lambda>c. c \<noteq> 125) (tl r1);
         r2 = dropWhile (\<lambda>c. c \<noteq> 125) (tl r1)
     in if sel \<noteq> [] \<and> r1 \<noteq> [] \<and> body \<noteq> [] \<and> r2 \<noteq> []
        then Some (sel, body, tl r2)
        else None)"

function cssRuleMatches :: "jstring \<Rightarrow> (jstring \<times> jstring) list" where
  "cssRuleMatches [] = []"
| "cssRuleMatches (c # cs) =
     (case cssMatchAt (c # cs) of
        None \<Rightarrow> cssRuleMatches cs
      | Some (sel, body, rest) \<Rightarrow> (sel, body) # cssRuleMatches rest)"
  by pat_completeness auto
termination
proof -
  have shorter: "cssMatchAt s = Some (sel, body, rest) \<Longrightarrow> length rest < length s"
    for s sel body rest
  proof -
    assume m: "cssMatchAt s = Some (sel, body, rest)"
    let ?r1 = "dropWhile (\<lambda>c. c \<noteq> 123) s"
    let ?r2 = "dropWhile (\<lambda>c. c \<noteq> 125) (tl ?r1)"
    from m have rest: "rest = tl ?r2" and ne: "?r1 \<noteq> []"
      by (auto simp: cssMatchAt_def Let_def split: if_splits)
    have "length ?r2 \<le> length (tl ?r1)" by (rule length_dropWhile_le)
    moreover have "length ?r1 \<le> length s" by (rule length_dropWhile_le)
    moreover from ne have "length (tl ?r1) < length ?r1" by (cases ?r1) auto
    ultimately have "length (tl ?r2) < length s" by simp
    with rest show ?thesis by simp
  qed
  show ?thesis
    by (relation "measure length") (auto dest: shorter)
qed

definition addCssRule :: "rulemap \<Rightarrow> jstring \<times> jstring \<Rightarrow> rulemap" where
  "addCssRule rules m =
    (let sel = js_trim (fst m); declarations = js_trim (snd m) in
     if sel \<noteq> [] \<and> declarations \<noteq> [] then
       (let properties = parseDeclarations declarations in
        if properties \<noteq> [] then map_set rules sel properties else rules)
     else rules)"

definition parseCSSText :: "jstring \<Rightarrow> rulemap" where
  "parseCSSText cssText = foldl addCssRule [] (cssRuleMatches cssText)"

section \<open>Notions the properties are stated with\<close>

text \<open>A rule map in which no selector maps to an empty property map.\<close>

definition nonEmptyRules :: "rulemap \<Rightarrow> bool" where
  "nonEmptyRules m = (\<forall>(sel, props) \<in> set m. props \<noteq> [])"

text \<open>A line that contains one of the three marker substrings.\<close>

definition hasMarker :: "jstring \<Rightarrow> bool" where
  "hasMarker line =
    (js_includes line (S ''undefined'') \<or> js_includes line [0x2728] \<or> js_includes line [0x89C6, 0x89C9, 0x6837, 0x5F0F, 0x914D, 0x7F6E])"

text \<open>
  The lines of a block of the localized format, as the loop of the parser tells them
  apart: a line that opens a block (it reaches the test for the trailing brace), a line
  that closes one, and a line that adds no property to the block it is in, because the
  loop skips it or because it is no declaration with a name, a value and a property for
  the name.
\<close>

definition opensBlock :: "jstring list \<Rightarrow> jstring \<Rightarrow> bool" where
  "opensBlock lines rawLine =
    (let line = js_trim rawLine in
     \<not> (js_startsWith line (S ''@'') \<and> blockEndFound lines line) \<and> \<not> skippedLine line
     \<and> js_endsWith line (S ''{''))"

definition closesBlock :: "jstring \<Rightarrow> bool" where
  "closesBlock rawLine = (js_trim rawLine = S ''}'')"

definition yieldsNoProperty :: "jstring list \<Rightarrow> jstring \<Rightarrow> bool" where
  "yieldsNoProperty lines rawLine =
    (let line = js_trim rawLine in
     (js_startsWith line (S ''@'') \<and> blockEndFound lines line) \<or> skippedLine line \<or>
     (\<not> js_endsWith line (S ''{'') \<and> line \<noteq> S ''}'' \<and>
      (case js_indexOf line (S '':'') of
         None \<Rightarrow> True
       | Some colonIndex \<Rightarrow>
           js_trim (take colonIndex line) = [] \<or> js_trim (drop (colonIndex + 1) line) = []
           \<or> getProperty (js_trim (take colonIndex line)) = [])))"

text \<open>A cache all of whose entries are the signature and the parse result of an input
  that was seen.\<close>

definition cacheSound :: "(jstring \<Rightarrow> rulemap) \<Rightarrow> jstring set \<Rightarrow> (jstring \<times> rulemap) list \<Rightarrow> bool" where
  "cacheSound f seen cache = (\<forall>(k, r) \<in> set cache. \<exists>i \<in> seen. k = cacheKey i \<and> r = f i)"

text \<open>
  The first and the last alias of a canonical token in a table, in the order
  \<^verbatim>\<open>Object.entries\<close> enumerates the table.
\<close>

definition firstAlias :: "jsobj \<Rightarrow> jstring \<Rightarrow> jstring option" where
  "firstAlias table tok = map_option fst (find (\<lambda>(cn, t). t = tok) table)"

definition lastAlias :: "jsobj \<Rightarrow> jstring \<Rightarrow> jstring option" where
  "lastAlias table tok = firstAlias (rev table) tok"


text \<open>A string all of whose code units are 16-bit values, and an object of such strings.\<close>

definition validString :: "jstring \<Rightarrow> bool" where
  "validString s = list_all (\<lambda>c. 0 \<le> c \<and> c < 65536) s"

definition validObject :: "jsobj \<Rightarrow> bool" where
  "validObject ob = list_all (\<lambda>(k, v). validString k \<and> validString v) ob"

text \<open>
  A rule table as \<^verbatim>\<open>processCSS\<close> builds it: a \<^verbatim>\<open>Map\<close> has every key once, every rule is
  stored under its own id, and the styles are objects of strings.
\<close>

definition wellFormedTable :: "ruletable \<Rightarrow> bool" where
  "wellFormedTable R =
    (distinct (map fst R) \<and> list_all (\<lambda>(ruleId, rule). rid rule = ruleId \<and> validObject (ruleStyles rule)) R)"









section \<open>Concrete inputs used in examples\<close>

text \<open>A stand-in collation for the examples: every pair of names compares equal.\<close>

definition noCollation :: "jstring \<Rightarrow> jstring \<Rightarrow> int" where
  "noCollation a b = 0"

definition squeezeExampleProps :: jsobj where
  "squeezeExampleProps =
    [(S ''avatar-layout-mode'', S ''squeeze''), (S ''avatar-position'', S ''right-top''),
     (S ''avatar-rotate'', S ''0deg''), (S ''transform'', S ''rotate(45deg)''),
     (S ''info-layout-mode'', S ''squeeze''), (S ''info-rotate'', S ''15deg'')]"

definition marginExampleProps :: jsobj where
  "marginExampleProps =
    [(S ''margin-top'', S ''4px''), (S ''margin-right'', S ''4px''),
     (S ''margin-bottom'', S ''4px''), (S ''margin-left'', S ''4px'')]"

text \<open>The selector of the first entry of the element table.\<close>

definition userMessageSelector :: jstring where
  "userMessageSelector = (S ''.mes[is_user='' @ [34] @ S ''true'' @ [34] @ S ''] .mes_block'')"

text \<open>The selector two aliases of the element table share.\<close>

definition aiAvatarSelector :: jstring where
  "aiAvatarSelector = (S ''.mes[is_user='' @ [34] @ S ''false'' @ [34] @ S ''] .avatar'')"

text \<open>A block for the first element alias with one declaration, the background colour
  alias with the value \<open>red\<close>, written with the ASCII colon and with the full-width one.\<close>

definition blockAsciiColon :: jstring where
  "blockAsciiColon = ([0x7528, 0x6237, 0x6D88, 0x606F] @ S '' {'' @ [10] @ S ''  '' @ [0x80CC, 0x666F, 0x989C, 0x8272] @ S '':red'' @ [10] @ S ''}'')"

definition blockFullwidthColon :: jstring where
  "blockFullwidthColon = ([0x7528, 0x6237, 0x6D88, 0x606F] @ S '' {'' @ [10] @ S ''  '' @ [0x80CC, 0x666F, 0x989C, 0x8272, 0xFF1A] @ S ''red'' @ [10] @ S ''}'')"

text \<open>A block whose first declaration has the value \<open>undefined\<close>.\<close>

definition blockWithMarker :: jstring where
  "blockWithMarker = ([0x7528, 0x6237, 0x6D88, 0x606F] @ S '' {'' @ [10] @ S ''  '' @ [0x6587, 0x5B57, 0x989C, 0x8272] @ S '': undefined'' @ [10] @ S ''  '' @ [0x80CC, 0x666F, 0x989C, 0x8272] @ S '': red'' @ [10] @ S ''}'')"

definition markerLine :: jstring where
  "markerLine = (S ''  '' @ [0x6587, 0x5B57, 0x989C, 0x8272] @ S '': undefined'')"

text \<open>A block without a declaration that parses, followed by one with a declaration.\<close>

definition blocksOneEmpty :: jstring where
  "blocksOneEmpty = ([0x7528, 0x6237, 0x6D88, 0x606F] @ S '' {'' @ [10] @ S ''  nothing here'' @ [10] @ S ''}'' @ [10, 0x6D88, 0x606F, 0x6587, 0x672C] @ S '' {'' @ [10] @ S ''  '' @ [0x6587, 0x5B57, 0x989C, 0x8272] @ S '': red'' @ [10] @ S ''}'')"

definition cssOneEmpty :: jstring where
  "cssOneEmpty = S ''a { } b { color : red } c{x}''"

text \<open>Two inputs of the same length that agree on their first hundred characters.\<close>

definition longInputRed :: jstring where
  "longInputRed = replicate 100 32 @ ([0x7528, 0x6237, 0x6D88, 0x606F] @ S '' {'' @ [10, 0x80CC, 0x666F, 0x989C, 0x8272] @ S '': red'' @ [10] @ S ''}'')"

definition longInputTan :: jstring where
  "longInputTan = replicate 100 32 @ ([0x7528, 0x6237, 0x6D88, 0x606F] @ S '' {'' @ [10, 0x80CC, 0x666F, 0x989C, 0x8272] @ S '': tan'' @ [10] @ S ''}'')"









text \<open>A block of three lines none of which is a declaration that parses (no value, no
  name, no colon), followed by a block with one declaration; the block taken apart; and
  the matches of the style-sheet example before its last block.\<close>

definition blockAllFail :: jstring where
  "blockAllFail = ([0x7528, 0x6237, 0x6D88, 0x606F] @ S '' {'' @ [10] @ S ''  '' @ [0x80CC, 0x666F, 0x989C, 0x8272] @ S '':'' @ [10] @ S ''  : red'' @ [10] @ S ''  nothing here'' @ [10] @ S ''}'' @ [10, 0x6D88, 0x606F, 0x6587, 0x672C] @ S '' {'' @ [10] @ S ''  '' @ [0x6587, 0x5B57, 0x989C, 0x8272] @ S '': red'' @ [10] @ S ''}'')"

definition failingOpener :: jstring where
  "failingOpener = ([0x7528, 0x6237, 0x6D88, 0x606F] @ S '' {'')"

definition failingBody :: "jstring list" where
  "failingBody = [(S ''  '' @ [0x80CC, 0x666F, 0x989C, 0x8272] @ S '':''), S ''  : red'', S ''  nothing here'']"

definition afterFailingBlock :: "jstring list" where
  "afterFailingBlock = [([0x6D88, 0x606F, 0x6587, 0x672C] @ S '' {''), (S ''  '' @ [0x6587, 0x5B57, 0x989C, 0x8272] @ S '': red''), S ''}'']"

definition cssMatchesBefore :: "(jstring \<times> jstring) list" where
  "cssMatchesBefore = [(S ''a '', S '' ''), (S '' b '', S '' color : red '')]"

text \<open>
  A rule for the message id of the assistant in squeeze mode, with no rotation and a
  transform left from before, and the like for the avatar of the assistant.
\<close>

definition infoIdSelector :: jstring where
  "infoIdSelector = (S ''.mes[is_user='' @ [34] @ S ''false'' @ [34] @ S ''] .mesIDDisplay'')"

definition infoSqueezeProps :: jsobj where
  "infoSqueezeProps =
    [(S ''info-layout-mode'', S ''squeeze''), (S ''info-position'', S ''top-left''),
     (S ''info-rotate'', S ''0deg''), (S ''transform'', S ''rotate(45deg)''),
     (S ''color'', S ''red'')]"

definition avatarSqueezeProps :: jsobj where
  "avatarSqueezeProps =
    [(S ''avatar-layout-mode'', S ''squeeze''), (S ''avatar-position'', S ''top-left''),
     (S ''avatar-rotate'', S ''0deg''), (S ''transform'', S ''rotate(45deg)''),
     (S ''opacity'', S ''1'')]"

section \<open>Properties of objects\<close>

lemma obj_assign_get:
  "obj_get (obj_assign t s) k = (case map_of (rev s) k of None \<Rightarrow> obj_get t k | Some v \<Rightarrow> Some v)"
  unfolding obj_assign_def
proof (induction s arbitrary: t)
  case Nil
  show ?case by simp
next
  case (Cons a s)
  obtain k' v' where a: "a = (k', v')" by (cases a)
  show ?case
    by (simp add: a Cons.IH AList.update_conv' map_add_def split: option.splits)
qed

lemma obj_assign_distinct:
  "distinct (map fst t) \<Longrightarrow> distinct (map fst (obj_assign t s))"
  unfolding obj_assign_def
  by (induction s arbitrary: t) (auto simp: AList.distinct_update)

lemma map_of_rev_distinct:
  "distinct (map fst xs) \<Longrightarrow> map_of (rev xs) = map_of xs"
  by (rule map_of_inject_set[THEN iffD2]) (auto simp: rev_map[symmetric])

lemma filter_key_absent:
  "k \<notin> fst ` set xs \<Longrightarrow> filter (\<lambda>kv. fst kv = k) xs = []"
  by (induction xs) auto

lemma filter_key_distinct:
  "distinct (map fst xs) \<Longrightarrow> map_of xs k = Some v \<Longrightarrow> filter (\<lambda>kv. fst kv = k) xs = [(k, v)]"
proof (induction xs)
  case Nil
  then show ?case by simp
next
  case (Cons a xs)
  show ?case
  proof (cases "fst a = k")
    case True
    with Cons.prems have "a = (k, v)" by (cases a) auto
    moreover have "k \<notin> fst ` set xs"
      using Cons.prems(1) True by auto
    ultimately show ?thesis by (simp add: filter_key_absent)
  next
    case False
    with Cons show ?thesis by auto
  qed
qed

section \<open>Squeeze mode replaces the transform\<close>

lemma applyRotation_squeeze:
  "obj_get (applyRotation (Some (S ''squeeze'')) r css) (S ''transform'') =
     Some (if r = S ''0deg'' then S ''none'' else S ''rotate('' @ r @ S '')'')"
  by (simp add: applyRotation_def AList.update_conv')

lemma applyRotation_distinct:
  "distinct (map fst css) \<Longrightarrow> distinct (map fst (applyRotation m r css))"
  by (simp add: applyRotation_def AList.distinct_update)

lemma applyRotation_plain:
  "m \<noteq> Some (S ''overlay'') \<Longrightarrow> m \<noteq> Some (S ''squeeze'') \<Longrightarrow>
   obj_get (applyRotation m r []) (S ''transform'') =
     (if r = S ''0deg'' then None else Some (S ''rotate('' @ r @ S '')''))"
  by (simp add: applyRotation_def)

lemma generateAvatarLayoutCSS_distinct:
  "distinct (map fst (generateAvatarLayoutCSS props))"
  unfolding generateAvatarLayoutCSS_def Let_def
  by (intro applyRotation_distinct) (simp add: obj_assign_distinct)

lemma avatar_squeeze:
  "obj_get props (S ''avatar-layout-mode'') = Some (S ''squeeze'') \<Longrightarrow>
   obj_get (generateAvatarLayoutCSS props) (S ''transform'') =
     Some (if js_or (obj_get props (S ''avatar-rotate'')) (S ''0deg'') = S ''0deg'' then S ''none''
           else S ''rotate('' @ js_or (obj_get props (S ''avatar-rotate'')) (S ''0deg'') @ S '')'')"
  unfolding generateAvatarLayoutCSS_def Let_def
  by (simp only: applyRotation_squeeze)

lemma avatar_container_squeeze:
  assumes "obj_get props (S ''avatar-layout-mode'') = Some (S ''squeeze'')"
  shows "obj_get (avatarContainerProps props) (S ''transform'') =
     Some (if js_or (obj_get props (S ''avatar-rotate'')) (S ''0deg'') = S ''0deg'' then S ''none''
           else S ''rotate('' @ js_or (obj_get props (S ''avatar-rotate'')) (S ''0deg'') @ S '')'')"
  unfolding avatarContainerProps_def Let_def
  by (simp only: obj_assign_get map_of_rev_distinct[OF generateAvatarLayoutCSS_distinct]
        avatar_squeeze[OF assms] option.case)

lemma info_squeeze:
  "obj_get props (S ''info-layout-mode'') = Some (S ''squeeze'') \<Longrightarrow>
   obj_get (generateInfoLayoutCSS props) (S ''transform'') =
     Some (if js_or (obj_get props (S ''info-rotate'')) (S ''0deg'') = S ''0deg'' then S ''none''
           else S ''rotate('' @ js_or (obj_get props (S ''info-rotate'')) (S ''0deg'') @ S '')'')"
  unfolding generateInfoLayoutCSS_def Let_def
  by (simp only: applyRotation_squeeze)

lemma avatar_not_overlay:
  assumes "obj_get props (S ''avatar-layout-mode'') \<noteq> Some (S ''overlay'')"
  shows "obj_get (generateAvatarLayoutCSS props) (S ''transform'') \<in>
     {None, Some (S ''none''),
      Some (S ''rotate('' @ js_or (obj_get props (S ''avatar-rotate'')) (S ''0deg'') @ S '')'')}"
proof (cases "obj_get props (S ''avatar-layout-mode'') = Some (S ''squeeze'')")
  case True
  show ?thesis by (simp only: avatar_squeeze[OF True]) simp
next
  case False
  have "generateAvatarLayoutCSS props =
    applyRotation (obj_get props (S ''avatar-layout-mode''))
      (js_or (obj_get props (S ''avatar-rotate'')) (S ''0deg'')) []"
    using assms False unfolding generateAvatarLayoutCSS_def Let_def by (simp only: if_False)
  then show ?thesis
    by (simp only: applyRotation_plain[OF assms False]) simp
qed

lemma info_not_overlay:
  assumes "obj_get props (S ''info-layout-mode'') \<noteq> Some (S ''overlay'')"
  shows "obj_get (generateInfoLayoutCSS props) (S ''transform'') \<in>
     {None, Some (S ''none''),
      Some (S ''rotate('' @ js_or (obj_get props (S ''info-rotate'')) (S ''0deg'') @ S '')'')}"
proof (cases "obj_get props (S ''info-layout-mode'') = Some (S ''squeeze'')")
  case True
  show ?thesis by (simp only: info_squeeze[OF True]) simp
next
  case False
  have "generateInfoLayoutCSS props =
    applyRotation (obj_get props (S ''info-layout-mode''))
      (js_or (obj_get props (S ''info-rotate'')) (S ''0deg'')) []"
    using assms False unfolding generateInfoLayoutCSS_def Let_def by (simp only: if_False)
  then show ?thesis
    by (simp only: applyRotation_plain[OF assms False]) simp
qed

text \<open>
  Where the squeeze branch of the rotation step exists, the transform is \<open>rotate(r)\<close> when
  the rotation \<open>r\<close> (the intent property, \<open>0deg\<close> when absent or empty) is not \<open>0deg\<close> and
  is exactly \<open>none\<close> when it is \<open>0deg\<close>, whatever transform the input carried: in the
  result of \<^verbatim>\<open>generateAvatarLayoutCSS\<close>, in the rule the avatar preprocessor stores
  after overlaying that result on the remaining layout properties, and in the result of
  \<^verbatim>\<open>generateInfoLayoutCSS\<close>, a function that has no caller. Outside overlay mode the
  transform these functions generate is never a composition.
\<close>

lemma squeeze_assigns_transform:
  "(obj_get props (S ''avatar-layout-mode'') = Some (S ''squeeze'') \<longrightarrow>
      obj_get (generateAvatarLayoutCSS props) (S ''transform'') =
        Some (if js_or (obj_get props (S ''avatar-rotate'')) (S ''0deg'') = S ''0deg'' then S ''none''
              else S ''rotate('' @ js_or (obj_get props (S ''avatar-rotate'')) (S ''0deg'') @ S '')'')
      \<and> obj_get (avatarContainerProps props) (S ''transform'') =
        Some (if js_or (obj_get props (S ''avatar-rotate'')) (S ''0deg'') = S ''0deg'' then S ''none''
              else S ''rotate('' @ js_or (obj_get props (S ''avatar-rotate'')) (S ''0deg'') @ S '')''))
   \<and> (obj_get props (S ''info-layout-mode'') = Some (S ''squeeze'') \<longrightarrow>
      obj_get (generateInfoLayoutCSS props) (S ''transform'') =
        Some (if js_or (obj_get props (S ''info-rotate'')) (S ''0deg'') = S ''0deg'' then S ''none''
              else S ''rotate('' @ js_or (obj_get props (S ''info-rotate'')) (S ''0deg'') @ S '')''))
   \<and> (obj_get props (S ''avatar-layout-mode'') \<noteq> Some (S ''overlay'') \<longrightarrow>
      obj_get (generateAvatarLayoutCSS props) (S ''transform'') \<in>
        {None, Some (S ''none''),
         Some (S ''rotate('' @ js_or (obj_get props (S ''avatar-rotate'')) (S ''0deg'') @ S '')'')})
   \<and> (obj_get props (S ''info-layout-mode'') \<noteq> Some (S ''overlay'') \<longrightarrow>
      obj_get (generateInfoLayoutCSS props) (S ''transform'') \<in>
        {None, Some (S ''none''),
         Some (S ''rotate('' @ js_or (obj_get props (S ''info-rotate'')) (S ''0deg'') @ S '')'')})"
  using avatar_squeeze avatar_container_squeeze info_squeeze avatar_not_overlay info_not_overlay
  by blast

lemma squeeze_assigns_transform_example:
  "obj_get squeezeExampleProps (S ''avatar-layout-mode'') = Some (S ''squeeze'')
   \<and> obj_get squeezeExampleProps (S ''info-layout-mode'') = Some (S ''squeeze'')
   \<and> obj_get squeezeExampleProps (S ''transform'') = Some (S ''rotate(45deg)'')
   \<and> obj_get (generateAvatarLayoutCSS squeezeExampleProps) (S ''transform'') = Some (S ''none'')
   \<and> obj_get (avatarContainerProps squeezeExampleProps) (S ''transform'') = Some (S ''none'')
   \<and> obj_get (generateInfoLayoutCSS squeezeExampleProps) (S ''transform'') = Some (S ''rotate(15deg)'')"
  using squeeze_assigns_transform[of squeezeExampleProps]
  by (simp add: squeezeExampleProps_def)

lemma overlay_composes_rotation:
  "obj_get (generateAvatarLayoutCSS
      [(S ''avatar-layout-mode'', S ''overlay''), (S ''avatar-position'', S ''top-center''),
       (S ''avatar-rotate'', S ''45deg'')]) (S ''transform'') =
   Some (S ''translateX(-50%) translateX(0px) rotate(45deg)'')"
  by code_simp


text \<open>
  The rule \<^verbatim>\<open>generate\<close> emits for an information element comes from
  \<^verbatim>\<open>generateInfoElementCSS\<close>, whose rotation step has no squeeze branch: in squeeze mode
  the transform is \<open>rotate(r)\<close> for a rotation other than \<open>0deg\<close> and is left out, not set
  to \<open>none\<close>, for \<open>0deg\<close>.
\<close>

lemma squeezeAlignSelf_other:
  "k \<noteq> S ''align-self'' \<Longrightarrow> obj_get (squeezeAlignSelf p css) k = obj_get css k"
  by (simp add: squeezeAlignSelf_def AList.update_conv')

lemma squeezeJustifySelf_other:
  "k \<noteq> S ''justify-self'' \<Longrightarrow> obj_get (squeezeJustifySelf p css) k = obj_get css k"
  by (simp add: squeezeJustifySelf_def AList.update_conv')

lemma squeezePositions_no_transform:
  "obj_get (getSqueezePositions position offsetX offsetY) (S ''transform'') = None"
proof -
  have n: "S ''transform'' \<noteq> S ''align-self''" "S ''transform'' \<noteq> S ''justify-self''"
    "S ''transform'' \<noteq> S ''margin-left''" "S ''transform'' \<noteq> S ''margin-top''"
    by simp_all
  let ?css0 = "[(S ''position'', S ''static''), (S ''display'', S ''flex''),
                 (S ''top'', S ''auto''), (S ''right'', S ''auto''),
                 (S ''bottom'', S ''auto''), (S ''left'', S ''auto''),
                 (S ''z-index'', S ''auto'')]"
  have z: "obj_get ?css0 (S ''transform'') = None" by simp
  define css1 where "css1 = (if truthy position
                 then squeezeJustifySelf (the position) (squeezeAlignSelf (the position) ?css0)
                 else ?css0)"
  have c1: "obj_get css1 (S ''transform'') = None"
    unfolding css1_def
    by (cases "truthy position")
       (simp_all only: if_True if_False squeezeJustifySelf_other[OF n(2)]
          squeezeAlignSelf_other[OF n(1)] z)
  have g: "getSqueezePositions position offsetX offsetY =
      (if offsetX \<noteq> S ''0px'' \<or> offsetY \<noteq> S ''0px''
        then obj_set (obj_set css1 (S ''margin-left'') offsetX) (S ''margin-top'') offsetY
        else css1)"
    unfolding getSqueezePositions_def Let_def css1_def by (rule refl)
  have u: "obj_get (obj_set (obj_set css1 (S ''margin-left'') offsetX) (S ''margin-top'') offsetY)
             (S ''transform'') = None"
    using c1 by (simp add: AList.update_conv')
  show ?thesis
  proof (cases "offsetX \<noteq> S ''0px'' \<or> offsetY \<noteq> S ''0px''")
    case True
    with g u show ?thesis by (simp only: if_True)
  next
    case False
    with g c1 show ?thesis by (simp only: if_False)
  qed
qed

lemma info_element_squeeze:
  assumes "obj_get props (S ''info-layout-mode'') = Some (S ''squeeze'')"
  shows "obj_get (generateInfoElementCSS props) (S ''transform'') =
     (if js_or (obj_get props (S ''info-rotate'')) (S ''0deg'') = S ''0deg'' then None
      else Some (S ''rotate('' @ js_or (obj_get props (S ''info-rotate'')) (S ''0deg'') @ S '')''))"
proof -
  let ?pos = "getSqueezePositions (obj_get props (S ''info-position''))
       (js_or (obj_get props (S ''info-offset-x'')) (S ''0px''))
       (js_or (obj_get props (S ''info-offset-y'')) (S ''0px''))"
  let ?css = "obj_assign [(S ''position'', S ''static''), (S ''display'', S ''inline-block''),
                          (S ''margin'', S ''0 2px'')] ?pos"
  have "map_of (rev ?pos) (S ''transform'') = None"
    using squeezePositions_no_transform[of "obj_get props (S ''info-position'')"
       "js_or (obj_get props (S ''info-offset-x'')) (S ''0px'')"
       "js_or (obj_get props (S ''info-offset-y'')) (S ''0px'')"]
    by (simp add: map_of_eq_None_iff)
  then have n: "obj_get ?css (S ''transform'') = None"
    by (simp add: obj_assign_get)
  show ?thesis
    using assms n
    by (simp add: generateInfoElementCSS_def Let_def AList.update_conv')
qed

lemma infoSqueeze_rule:
  "preprocessInfoLayout (preprocessAvatarLayout [(infoIdSelector, infoSqueezeProps)]) =
    [(infoIdSelector,
      [(S ''position'', S ''static''), (S ''display'', S ''flex''), (S ''margin'', S ''0 2px''),
       (S ''top'', S ''auto''), (S ''right'', S ''auto''), (S ''bottom'', S ''auto''),
       (S ''left'', S ''auto''), (S ''z-index'', S ''auto''), (S ''align-self'', S ''flex-start''),
       (S ''justify-self'', S ''flex-start''), (S ''color'', S ''red'')])]"
  by code_simp

text \<open>
  C8. The claim fails on the path of the information elements. For the rule of the
  assistant's message id in squeeze mode with rotation \<open>0deg\<close> and an earlier transform
  \<open>rotate(45deg)\<close>, the rule the two preprocessors of \<^verbatim>\<open>generate\<close> produce has no
  transform at all, where the claim says it is exactly \<open>none\<close>; \<^verbatim>\<open>generateInfoLayoutCSS\<close>
  on the same properties, and the avatar path on the like rule for the avatar, give
  \<open>none\<close>.
\<close>

theorem info_squeeze_transform_not_reset:
  "obj_get infoSqueezeProps (S ''info-layout-mode'') = Some (S ''squeeze'')
   \<and> obj_get infoSqueezeProps (S ''info-rotate'') = Some (S ''0deg'')
   \<and> isInfoElementSelector infoIdSelector
   \<and> map_option (\<lambda>props. obj_get props (S ''transform''))
        (map_of (preprocessInfoLayout (preprocessAvatarLayout [(infoIdSelector, infoSqueezeProps)]))
           infoIdSelector) = Some None
   \<and> obj_get (generateInfoElementCSS (fst (separateInfoProperties infoSqueezeProps))) (S ''transform'') = None
   \<and> obj_get (generateInfoLayoutCSS infoSqueezeProps) (S ''transform'') = Some (S ''none'')
   \<and> isAvatarSelector aiAvatarSelector
   \<and> map_option (\<lambda>props. obj_get props (S ''transform''))
        (map_of (preprocessInfoLayout (preprocessAvatarLayout [(aiAvatarSelector, avatarSqueezeProps)]))
           aiAvatarSelector) = Some (Some (S ''none''))"
  by code_simp

section \<open>Shorthand merging\<close>

lemma mergeBoxInto_other:
  "k \<noteq> p \<Longrightarrow> k \<noteq> p @ S ''-top'' \<Longrightarrow> k \<noteq> p @ S ''-right'' \<Longrightarrow> k \<noteq> p @ S ''-bottom'' \<Longrightarrow>
   k \<noteq> p @ S ''-left'' \<Longrightarrow> obj_get (mergeBoxInto p m) k = obj_get m k"
  by (simp add: mergeBoxInto_def AList.delete_conv' AList.update_conv')

lemma mergeBoxInto_distinct:
  "distinct (map fst m) \<Longrightarrow> distinct (map fst (mergeBoxInto p m))"
  by (simp add: mergeBoxInto_def AList.distinct_delete AList.distinct_update)

lemma mergeBorderInto_other:
  "k \<noteq> S ''border'' \<Longrightarrow> k \<noteq> S ''border-width'' \<Longrightarrow> k \<noteq> S ''border-style'' \<Longrightarrow>
   k \<noteq> S ''border-color'' \<Longrightarrow> obj_get (mergeBorderInto m) k = obj_get m k"
  by (simp add: mergeBorderInto_def AList.delete_conv' AList.update_conv')

lemma mergeBorderInto_distinct:
  "distinct (map fst m) \<Longrightarrow> distinct (map fst (mergeBorderInto m))"
  by (simp add: mergeBorderInto_def AList.distinct_delete AList.distinct_update)

lemma mergeProperties_distinct:
  "distinct (map fst m) \<Longrightarrow> distinct (map fst (mergeProperties m))"
  by (simp add: mergeProperties_def mergeBorderInto_distinct mergeBoxInto_distinct)

lemma mergeBoxInto_margin4:
  assumes "obj_get m (S ''margin-top'') = Some v" "obj_get m (S ''margin-right'') = Some v"
    "obj_get m (S ''margin-bottom'') = Some v" "obj_get m (S ''margin-left'') = Some v" "v \<noteq> []"
  shows "mergeBoxInto (S ''margin'') m =
      obj_delete (obj_delete (obj_delete (obj_delete (obj_set m (S ''margin'') v)
         (S ''margin-top'')) (S ''margin-right'')) (S ''margin-bottom'')) (S ''margin-left'')"
  using assms
  by (simp add: mergeBoxInto_def canMergeBox_def mergeBox_def)

lemma margin_keys_pass:
  assumes "k = S ''margin'' \<or> k = S ''margin-top'' \<or> k = S ''margin-right''
     \<or> k = S ''margin-bottom'' \<or> k = S ''margin-left''"
  shows "obj_get (mergeProperties m) k = obj_get (mergeBoxInto (S ''margin'') m) k"
proof -
  have b: "k \<noteq> S ''border''" "k \<noteq> S ''border-width''" "k \<noteq> S ''border-style''"
     "k \<noteq> S ''border-color''"
    using assms by (elim disjE; simp)+
  have p: "k \<noteq> S ''padding''" "k \<noteq> S ''padding'' @ S ''-top''" "k \<noteq> S ''padding'' @ S ''-right''"
     "k \<noteq> S ''padding'' @ S ''-bottom''" "k \<noteq> S ''padding'' @ S ''-left''"
    using assms by (elim disjE; simp)+
  show ?thesis
    unfolding mergeProperties_def
    by (simp only: mergeBorderInto_other[OF b] mergeBoxInto_other[OF p])
qed

lemma mergeProperties_margin4:
  assumes "obj_get m (S ''margin-top'') = Some v" "obj_get m (S ''margin-right'') = Some v"
    "obj_get m (S ''margin-bottom'') = Some v" "obj_get m (S ''margin-left'') = Some v" "v \<noteq> []"
  shows "obj_get (mergeProperties m) (S ''margin'') = Some v"
    and "k = S ''margin-top'' \<or> k = S ''margin-right'' \<or> k = S ''margin-bottom''
         \<or> k = S ''margin-left'' \<Longrightarrow> obj_get (mergeProperties m) k = None"
proof -
  have pass: "obj_get (mergeProperties m) k' =
      obj_get (obj_delete (obj_delete (obj_delete (obj_delete (obj_set m (S ''margin'') v)
         (S ''margin-top'')) (S ''margin-right'')) (S ''margin-bottom'')) (S ''margin-left'')) k'"
    if "k' = S ''margin'' \<or> k' = S ''margin-top'' \<or> k' = S ''margin-right''
     \<or> k' = S ''margin-bottom'' \<or> k' = S ''margin-left''" for k'
    by (simp only: margin_keys_pass[OF that] mergeBoxInto_margin4[OF assms])
  show "obj_get (mergeProperties m) (S ''margin'') = Some v"
    by (subst pass) (simp_all add: AList.delete_conv' AList.update_conv')
  show "obj_get (mergeProperties m) k = None"
    if "k = S ''margin-top'' \<or> k = S ''margin-right'' \<or> k = S ''margin-bottom''
         \<or> k = S ''margin-left''"
  proof -
    have "obj_get (mergeProperties m) k =
      obj_get (obj_delete (obj_delete (obj_delete (obj_delete (obj_set m (S ''margin'') v)
         (S ''margin-top'')) (S ''margin-right'')) (S ''margin-bottom'')) (S ''margin-left'')) k"
      using that by (intro pass) blast
    also have "\<dots> = None"
      using that by (elim disjE; simp add: AList.delete_conv' AList.update_conv')
    finally show ?thesis .
  qed
qed

lemma mset_insertProp: "mset (insertProp lc x ys) = add_mset x (mset ys)"
  by (induction ys) auto

lemma mset_sortProperties: "mset (sortProperties lc xs) = mset xs"
  unfolding sortProperties_def by (induction xs) (auto simp: mset_insertProp)

text \<open>
  C3 (as amended). For a rule whose property map has the four margin sides all equal to
  \<open>4px\<close>, the merge pass \<^verbatim>\<open>mergeProperties\<close> (run by \<^verbatim>\<open>optimize\<close>) yields a map for
  which \<^verbatim>\<open>generateRule\<close> emits exactly one \<open>margin\<close> declaration, with value \<open>4px\<close>,
  and no \<open>margin-top\<close>, \<open>margin-right\<close>, \<open>margin-bottom\<close> or \<open>margin-left\<close> declaration.
\<close>

theorem margin_shorthand_merge:
  assumes "distinct (map fst props)"
    and "obj_get props (S ''margin-top'') = Some (S ''4px'')"
    and "obj_get props (S ''margin-right'') = Some (S ''4px'')"
    and "obj_get props (S ''margin-bottom'') = Some (S ''4px'')"
    and "obj_get props (S ''margin-left'') = Some (S ''4px'')"
  shows "filter (\<lambda>kv. fst kv = S ''margin'') (ruleDeclarations lc cfg (mergeProperties props))
           = [(S ''margin'', S ''4px'')]
    \<and> (\<forall>kv \<in> set (ruleDeclarations lc cfg (mergeProperties props)).
          fst kv \<noteq> S ''margin-top'' \<and> fst kv \<noteq> S ''margin-right'' \<and>
          fst kv \<noteq> S ''margin-bottom'' \<and> fst kv \<noteq> S ''margin-left'')"
proof -
  let ?M = "mergeProperties props"
  let ?D = "ruleDeclarations lc cfg ?M"
  have ne: "S ''4px'' \<noteq> []" by simp
  have perm: "mset ?D = mset ?M"
    by (simp add: ruleDeclarations_def mset_sortProperties)
  have g: "obj_get ?M (S ''margin'') = Some (S ''4px'')"
    by (rule mergeProperties_margin4(1)[OF assms(2-5) ne])
  have d: "distinct (map fst ?M)" by (rule mergeProperties_distinct[OF assms(1)])
  have f: "filter (\<lambda>kv. fst kv = S ''margin'') ?M = [(S ''margin'', S ''4px'')]"
    by (rule filter_key_distinct[OF d g])
  have "mset (filter (\<lambda>kv. fst kv = S ''margin'') ?D) = mset (filter (\<lambda>kv. fst kv = S ''margin'') ?M)"
    by (simp only: mset_filter perm)
  then have "mset (filter (\<lambda>kv. fst kv = S ''margin'') ?D) = {#(S ''margin'', S ''4px'')#}"
    by (simp only: f mset.simps)
  then have A: "filter (\<lambda>kv. fst kv = S ''margin'') ?D = [(S ''margin'', S ''4px'')]"
    by (simp only: mset_single_iff)
  have B: "fst kv \<noteq> S ''margin-top'' \<and> fst kv \<noteq> S ''margin-right'' \<and>
          fst kv \<noteq> S ''margin-bottom'' \<and> fst kv \<noteq> S ''margin-left''"
    if "kv \<in> set ?D" for kv
  proof (rule ccontr)
    assume "\<not> ?thesis"
    then have k: "fst kv = S ''margin-top'' \<or> fst kv = S ''margin-right'' \<or>
          fst kv = S ''margin-bottom'' \<or> fst kv = S ''margin-left''" by blast
    from that have "kv \<in> set ?M" by (metis perm set_mset_mset)
    then have "obj_get ?M (fst kv) \<noteq> None"
      by (metis prod.collapse weak_map_of_SomeI option.distinct(1))
    moreover have "obj_get ?M (fst kv) = None"
      by (rule mergeProperties_margin4(2)[OF assms(2-5) ne k])
    ultimately show False by simp
  qed
  show ?thesis using A B by blast
qed

theorem margin_shorthand_merge_witness:
  "distinct (map fst marginExampleProps)
   \<and> obj_get marginExampleProps (S ''margin-top'') = Some (S ''4px'')
   \<and> obj_get marginExampleProps (S ''margin-right'') = Some (S ''4px'')
   \<and> obj_get marginExampleProps (S ''margin-bottom'') = Some (S ''4px'')
   \<and> obj_get marginExampleProps (S ''margin-left'') = Some (S ''4px'')
   \<and> filter (\<lambda>kv. fst kv = S ''margin'')
        (ruleDeclarations noCollation defaultConfig (mergeProperties marginExampleProps))
        = [(S ''margin'', S ''4px'')]"
proof -
  have h: "distinct (map fst marginExampleProps)"
    "obj_get marginExampleProps (S ''margin-top'') = Some (S ''4px'')"
    "obj_get marginExampleProps (S ''margin-right'') = Some (S ''4px'')"
    "obj_get marginExampleProps (S ''margin-bottom'') = Some (S ''4px'')"
    "obj_get marginExampleProps (S ''margin-left'') = Some (S ''4px'')"
    by (simp_all add: marginExampleProps_def)
  show ?thesis
    using h margin_shorthand_merge[OF h, of noCollation defaultConfig] by blast
qed

text \<open>
  C3 as stated fails: \<^verbatim>\<open>generate\<close> never runs the merge pass. For one rule with the four
  margin sides equal to \<open>4px\<close> its output carries the four longhand declarations and no
  \<open>margin\<close> shorthand.
\<close>

lemma generate_margin_example:
  "generate noCollation (S ''2025/9/7 12:00:00'') defaultConfig [(S ''.mes_text'', marginExampleProps)] =
   S ''/* '' @ [10] @ S '' * Generated by Visual CSS Editor'' @ [10] @
   S '' * Time: 2025/9/7 12:00:00'' @ [10] @
   S '' * Rules: 1'' @ [10] @ S '' */'' @ [10, 10] @
   S ''/* === '' @ [0x6D88, 0x606F, 0x6837, 0x5F0F] @ S '' === */'' @ [10] @
   S ''.mes_text {'' @ [10] @
   S ''  margin-top: 4px !important;'' @ [10] @
   S ''  margin-right: 4px !important;'' @ [10] @
   S ''  margin-bottom: 4px !important;'' @ [10] @
   S ''  margin-left: 4px !important;'' @ [10] @
   S ''}'' @ [10, 10]"
  by code_simp

theorem generate_keeps_margin_longhands:
  "js_includes (generate noCollation (S ''2025/9/7 12:00:00'') defaultConfig
                  [(S ''.mes_text'', marginExampleProps)]) (S ''margin-top: 4px'')
   \<and> js_includes (generate noCollation (S ''2025/9/7 12:00:00'') defaultConfig
                  [(S ''.mes_text'', marginExampleProps)]) (S ''margin-left: 4px'')
   \<and> \<not> js_includes (generate noCollation (S ''2025/9/7 12:00:00'') defaultConfig
                  [(S ''.mes_text'', marginExampleProps)]) (S ''margin: 4px'')"
  by (simp only: generate_margin_example) code_simp

section \<open>The reverse alias maps\<close>

lemma firstAlias_Nil [simp]: "firstAlias [] tok = None"
  by (simp add: firstAlias_def)

lemma firstAlias_Cons [simp]:
  "firstAlias ((cn, t) # table) tok = (if t = tok then Some cn else firstAlias table tok)"
  by (simp add: firstAlias_def)

lemma firstAlias_append:
  "firstAlias (xs @ ys) tok = (case firstAlias xs tok of Some cn \<Rightarrow> Some cn | None \<Rightarrow> firstAlias ys tok)"
  by (induction xs) auto

lemma reverse_overwrite:
  "map_of (fold (\<lambda>(cn, sel) r. AList.update sel cn r) table r0) tok =
     (case lastAlias table tok of Some cn \<Rightarrow> Some cn | None \<Rightarrow> map_of r0 tok)"
proof (induction table arbitrary: r0)
  case Nil
  show ?case by (simp add: lastAlias_def)
next
  case (Cons a table)
  obtain cn t where a: "a = (cn, t)" by (cases a)
  show ?case
    by (simp add: a Cons.IH lastAlias_def firstAlias_append AList.update_conv'
          split: option.splits)
qed

lemma reverse_guarded:
  assumes "\<forall>(cn, t) \<in> set table. cn \<noteq> []" and "\<forall>c \<in> ran (map_of r0). c \<noteq> []"
  shows "map_of (fold (\<lambda>(cn, prop) r. if \<not> truthy (map_of r prop) then AList.update prop cn r else r)
            table r0) tok =
     (case map_of r0 tok of Some cn \<Rightarrow> Some cn | None \<Rightarrow> firstAlias table tok)"
  using assms
proof (induction table arbitrary: r0)
  case Nil
  show ?case by (simp split: option.splits)
next
  case (Cons a table)
  obtain cn t where a: "a = (cn, t)" by (cases a)
  from Cons.prems(1) a have cn: "cn \<noteq> []" and rest: "\<forall>(cn, t) \<in> set table. cn \<noteq> []"
    by auto
  show ?case
  proof (cases "map_of r0 t")
    case None
    have inv: "\<forall>c \<in> ran (map_of (AList.update t cn r0)). c \<noteq> []"
      using Cons.prems(2) cn None by (auto simp: AList.update_conv' ran_def)
    show ?thesis
      using None by (simp add: a Cons.IH[OF rest inv] AList.update_conv' split: option.splits)
  next
    case (Some c)
    with Cons.prems(2) have "c \<noteq> []" by (auto simp: ran_def)
    with Some show ?thesis
      by (auto simp add: a Cons.IH[OF rest Cons.prems(2)] split: option.splits)
  qed
qed

lemma propertyMap_aliases_nonempty: "list_all (\<lambda>(cn, t). cn \<noteq> []) propertyMap"
  by code_simp

text \<open>
  What the two loops build. The loop for the reverse property map assigns only when the
  property has no entry yet, so every canonical property resolves to the first alias the
  property table enumerates for it. The loop for the reverse element map assigns without
  that test, so every selector resolves to the last alias the element table enumerates
  for it.
\<close>

lemma reverse_maps_lookup:
  "obj_get reversePropertyMap tok = firstAlias propertyMap tok
   \<and> obj_get reverseElementMap tok = lastAlias elementMap tok"
proof
  have "\<forall>(cn, t) \<in> set propertyMap. cn \<noteq> []"
    using propertyMap_aliases_nonempty by (simp add: list_all_iff)
  from reverse_guarded[OF this, of "[]" tok]
  show "obj_get reversePropertyMap tok = firstAlias propertyMap tok"
    by (simp add: reversePropertyMap_def)
  show "obj_get reverseElementMap tok = lastAlias elementMap tok"
    by (simp add: reverseElementMap_def reverse_overwrite split: option.splits)
qed

lemma getElementName_code [code]: "getElementName sel = js_or (lastAlias elementMap sel) sel"
  using reverse_maps_lookup[of sel] by (simp add: getElementName_def)

lemma getPropertyName_code [code]: "getPropertyName p = js_or (firstAlias propertyMap p) p"
  using reverse_maps_lookup[of p] by (simp add: getPropertyName_def)

text \<open>The element table is its literal, evaluated.\<close>

lemma elementMap_literal: "obj_literal elementMapLiteral = elementMap"
  by code_simp



section \<open>Evaluations of the parsers on the example inputs\<close>

lemma parse_blockAsciiColon:
  "actualParseChineseFormat blockAsciiColon =
     [(userMessageSelector, [(S ''background-color'', S ''red'')])]"
  by code_simp

lemma parse_blockFullwidthColon: "actualParseChineseFormat blockFullwidthColon = []"
  by code_simp

lemma parse_blockWithMarker:
  "actualParseChineseFormat blockWithMarker =
     [(userMessageSelector, [(S ''background-color'', S ''red'')])]"
  by code_simp

lemma parse_blocksOneEmpty:
  "actualParseChineseFormat blocksOneEmpty = [(S ''.mes_text'', [(S ''color'', S ''red'')])]"
  by code_simp

lemma parse_cssOneEmpty: "parseCSSText cssOneEmpty = [(S ''b'', [(S ''color'', S ''red'')])]"
  by code_simp

lemma parse_longInputRed:
  "actualParseChineseFormat longInputRed =
     [(userMessageSelector, [(S ''background-color'', S ''red'')])]"
  by code_simp

lemma parse_longInputTan:
  "actualParseChineseFormat longInputTan =
     [(userMessageSelector, [(S ''background-color'', S ''tan'')])]"
  by code_simp

lemma key_longInputs: "cacheKey longInputRed = cacheKey longInputTan"
  by code_simp

section \<open>Empty rules are pruned\<close>

lemma set_update_subset: "set (AList.update k v al) \<subseteq> insert (k, v) (set al)"
  by (induction al) auto

lemma nonEmptyRules_update:
  "nonEmptyRules m \<Longrightarrow> props \<noteq> [] \<Longrightarrow> nonEmptyRules (map_set m sel props)"
  using set_update_subset[of sel props m] by (auto simp: nonEmptyRules_def)

lemma nonEmptyRules_flush: "nonEmptyRules (styles st) \<Longrightarrow> nonEmptyRules (flush st)"
  by (simp add: flush_def nonEmptyRules_update)

lemma styles_parseDeclaration [simp]: "styles (parseDeclaration st line) = styles st"
  by (simp add: parseDeclaration_def Let_def)

lemma nonEmptyRules_parseLine:
  "nonEmptyRules (styles st) \<Longrightarrow> nonEmptyRules (styles (parseLine lines st raw))"
  by (simp add: parseLine_def Let_def nonEmptyRules_flush)

lemma nonEmptyRules_foldl:
  "nonEmptyRules (styles st) \<Longrightarrow> nonEmptyRules (styles (foldl (parseLine lines) st ls))"
  by (induction ls arbitrary: st) (simp_all add: nonEmptyRules_parseLine)

lemma nonEmptyRules_actual: "nonEmptyRules (actualParseChineseFormat input)"
  unfolding actualParseChineseFormat_def Let_def
  by (intro nonEmptyRules_flush nonEmptyRules_foldl) (simp add: initialState_def nonEmptyRules_def)

lemma nonEmptyRules_addCssRule:
  "nonEmptyRules rules \<Longrightarrow> nonEmptyRules (addCssRule rules m)"
  by (simp add: addCssRule_def Let_def nonEmptyRules_update)

lemma nonEmptyRules_foldl_css:
  "nonEmptyRules rules \<Longrightarrow> nonEmptyRules (foldl addCssRule rules ms)"
  by (induction ms arbitrary: rules) (simp_all add: nonEmptyRules_addCssRule)

lemma nonEmptyRules_parseCSSText: "nonEmptyRules (parseCSSText cssText)"
  unfolding parseCSSText_def
  by (intro nonEmptyRules_foldl_css) (simp add: nonEmptyRules_def)

lemma includes_indexOf: "js_includes s t \<longleftrightarrow> js_indexOf s t \<noteq> None"
  by (induction s) auto

lemma parseLine_no_property:
  assumes "yieldsNoProperty lines raw"
  shows "parseLine lines st raw = st"
proof -
  let ?line = "js_trim raw"
  consider (at) "js_startsWith ?line (S ''@'') \<and> blockEndFound lines ?line"
    | (skip) "skippedLine ?line"
    | (decl) "\<not> js_endsWith ?line (S ''{'')" "?line \<noteq> S ''}''"
        "case js_indexOf ?line (S '':'') of
           None \<Rightarrow> True
         | Some colonIndex \<Rightarrow>
             js_trim (take colonIndex ?line) = [] \<or> js_trim (drop (colonIndex + 1) ?line) = []
             \<or> getProperty (js_trim (take colonIndex ?line)) = []"
    using assms unfolding yieldsNoProperty_def Let_def by blast
  then show ?thesis
  proof cases
    case at
    then show ?thesis unfolding parseLine_def Let_def by (simp only: simp_thms if_True)
  next
    case skip
    then show ?thesis unfolding parseLine_def Let_def by (simp only: if_True if_cancel)
  next
    case decl
    show ?thesis
    proof (cases "js_indexOf ?line (S '':'')")
      case None
      then have "\<not> js_includes ?line (S '':'')" by (simp only: includes_indexOf) simp
      with decl(1,2) show ?thesis
        unfolding parseLine_def Let_def by (simp only: simp_thms if_False if_cancel)
    next
      case (Some colonIndex)
      with decl(3) have "parseDeclaration st ?line = st"
        by (auto simp: parseDeclaration_def Let_def)
      with decl(1,2) show ?thesis
        unfolding parseLine_def Let_def by (simp only: simp_thms if_False if_cancel)
    qed
  qed
qed

lemma foldl_no_property:
  "list_all (yieldsNoProperty lines) body \<Longrightarrow> foldl (parseLine lines) st body = st"
  by (induction body) (simp_all add: parseLine_no_property)

lemma parseLine_opens:
  assumes "opensBlock lines raw"
  shows "parseLine lines st raw =
    \<lparr> styles = flush st,
      currentElement = Some (getSelector (js_trim (js_replaceFirst (js_trim raw) (S ''{'') []))),
      currentStyles = [] \<rparr>"
  using assms unfolding opensBlock_def parseLine_def Let_def
  by (simp only: simp_thms if_True if_False)

lemma closing_brace_line:
  "\<not> js_startsWith (S ''}'') (S ''@'')" "\<not> skippedLine (S ''}'')" "\<not> js_endsWith (S ''}'') (S ''{'')"
  by code_simp+

lemma parseLine_closes:
  assumes "closesBlock raw"
  shows "parseLine lines st raw = \<lparr> styles = flush st, currentElement = None, currentStyles = [] \<rparr>"
proof -
  from assms have l: "js_trim raw = S ''}''" by (simp only: closesBlock_def)
  show ?thesis
    unfolding parseLine_def Let_def l
    by (simp only: closing_brace_line simp_thms if_True if_False)
qed

lemma flush_fresh: "currentStyles st = [] \<Longrightarrow> flush st = styles st"
  by (simp add: flush_def)

lemma failed_block:
  assumes "opensBlock lines opener" "list_all (yieldsNoProperty lines) body"
  shows "flush (foldl (parseLine lines) st (opener # body)) = flush st"
    and "closesBlock next \<or> opensBlock lines next \<Longrightarrow>
         foldl (parseLine lines) st (opener # body @ next # rest) = foldl (parseLine lines) st (next # rest)"
proof -
  let ?st1 = "parseLine lines st opener"
  have b: "foldl (parseLine lines) st (opener # body) = ?st1"
    by (simp add: foldl_no_property[OF assms(2)])
  have f: "flush ?st1 = flush st"
    by (simp add: parseLine_opens[OF assms(1)] flush_fresh)
  from b f show "flush (foldl (parseLine lines) st (opener # body)) = flush st" by simp
  assume "closesBlock next \<or> opensBlock lines next"
  then have "parseLine lines ?st1 next = parseLine lines st next"
    using f by (auto simp: parseLine_closes parseLine_opens)
  then show "foldl (parseLine lines) st (opener # body @ next # rest) = foldl (parseLine lines) st (next # rest)"
    by (simp add: foldl_no_property[OF assms(2)])
qed

lemma addCssRule_no_property:
  "parseDeclarations (js_trim (snd m)) = [] \<Longrightarrow> addCssRule rules m = rules"
  by (simp add: addCssRule_def Let_def)

lemma parse_blockAllFail:
  "actualParseChineseFormat blockAllFail = [(S ''.mes_text'', [(S ''color'', S ''red'')])]"
  by code_simp

lemma lines_blockAllFail:
  "js_splitc 10 blockAllFail = [] @ failingOpener # failingBody @ S ''}'' # afterFailingBlock"
  by code_simp

lemma matches_cssOneEmpty:
  "cssRuleMatches cssOneEmpty = cssMatchesBefore @ (S '' c'', S ''x'') # []"
  by code_simp

text \<open>
  C9. In every rule map \<^verbatim>\<open>parseCSSText\<close> or the localized-format parser produces, every
  selector maps to a property map with at least one entry, and a block whose declarations
  all fail to parse contributes no entry. For \<^verbatim>\<open>parseCSSText\<close>: a match whose body
  yields no property leaves the rule map as it is, so the parse over the matches is the
  parse over the matches without it. For the localized-format parser: after a line that
  opens a block and body lines none of which yields a property, saving the current element
  gives what saving gave before the block; and when the next line closes the block or
  opens another, the loop goes on as if the opening line and the body were not there, so
  the parse of an input with such a block is the parse over its lines without them
  (\<open>lines\<close>, the array the decoration test looks into, is the same in both).
\<close>

theorem parsers_prune_empty_rules:
  "(\<forall>(sel, props) \<in> set (parseCSSText cssText). props \<noteq> [])
   \<and> (\<forall>(sel, props) \<in> set (actualParseChineseFormat input). props \<noteq> [])
   \<and> (parseDeclarations (js_trim body) = [] \<longrightarrow> addCssRule rules (sel0, body) = rules)
   \<and> (currentStyles st = [] \<longrightarrow> flush st = styles st)
   \<and> (parseDeclarations (js_trim body) = [] \<longrightarrow>
        foldl addCssRule rules (ms1 @ (sel0, body) # ms2) = foldl addCssRule rules (ms1 @ ms2))
   \<and> (opensBlock lines opener \<and> list_all (yieldsNoProperty lines) bodyLines \<longrightarrow>
        flush (foldl (parseLine lines) st (opener # bodyLines)) = flush st
        \<and> (closesBlock next \<or> opensBlock lines next \<longrightarrow>
             foldl (parseLine lines) st (opener # bodyLines @ next # rest)
               = foldl (parseLine lines) st (next # rest)))
   \<and> (js_splitc 10 input = before @ opener # bodyLines @ next # rest
        \<and> opensBlock (js_splitc 10 input) opener
        \<and> list_all (yieldsNoProperty (js_splitc 10 input)) bodyLines
        \<and> (closesBlock next \<or> opensBlock (js_splitc 10 input) next) \<longrightarrow>
        actualParseChineseFormat input
          = flush (foldl (parseLine (js_splitc 10 input)) initialState (before @ next # rest)))"
proof -
  have 5: "foldl addCssRule rules (ms1 @ (sel0, body) # ms2) = foldl addCssRule rules (ms1 @ ms2)"
    if "parseDeclarations (js_trim body) = []"
    using that by (simp add: addCssRule_no_property)
  have 7: "actualParseChineseFormat input
          = flush (foldl (parseLine (js_splitc 10 input)) initialState (before @ next # rest))"
    if "js_splitc 10 input = before @ opener # bodyLines @ next # rest"
       "opensBlock (js_splitc 10 input) opener"
       "list_all (yieldsNoProperty (js_splitc 10 input)) bodyLines"
       "closesBlock next \<or> opensBlock (js_splitc 10 input) next"
  proof -
    let ?lines = "js_splitc 10 input"
    have "foldl (parseLine ?lines) initialState (before @ opener # bodyLines @ next # rest)
        = foldl (parseLine ?lines) (foldl (parseLine ?lines) initialState before)
            (opener # bodyLines @ next # rest)"
      by (simp only: foldl_append)
    also have "\<dots> = foldl (parseLine ?lines) (foldl (parseLine ?lines) initialState before) (next # rest)"
      by (rule failed_block(2)[OF that(2,3,4)])
    also have "\<dots> = foldl (parseLine ?lines) initialState (before @ next # rest)"
      by (simp only: foldl_append)
    finally have "foldl (parseLine ?lines) initialState ?lines
        = foldl (parseLine ?lines) initialState (before @ next # rest)"
      by (simp only: that(1)[symmetric])
    then show ?thesis by (simp only: actualParseChineseFormat_def Let_def)
  qed
  have c1: "\<forall>(sel, props) \<in> set (parseCSSText cssText). props \<noteq> []"
    using nonEmptyRules_parseCSSText[of cssText] by (simp add: nonEmptyRules_def)
  have c2: "\<forall>(sel, props) \<in> set (actualParseChineseFormat input). props \<noteq> []"
    using nonEmptyRules_actual[of input] by (simp add: nonEmptyRules_def)
  have c3: "parseDeclarations (js_trim body) = [] \<longrightarrow> addCssRule rules (sel0, body) = rules"
    by (simp add: addCssRule_no_property)
  have c4: "currentStyles st = [] \<longrightarrow> flush st = styles st"
    by (simp add: flush_fresh)
  have c5: "parseDeclarations (js_trim body) = [] \<longrightarrow>
        foldl addCssRule rules (ms1 @ (sel0, body) # ms2) = foldl addCssRule rules (ms1 @ ms2)"
    using 5 by blast
  have c6: "opensBlock lines opener \<and> list_all (yieldsNoProperty lines) bodyLines \<longrightarrow>
        flush (foldl (parseLine lines) st (opener # bodyLines)) = flush st
        \<and> (closesBlock next \<or> opensBlock lines next \<longrightarrow>
             foldl (parseLine lines) st (opener # bodyLines @ next # rest)
               = foldl (parseLine lines) st (next # rest))"
    using failed_block(1)[where lines=lines and opener=opener and body=bodyLines and st=st]
      failed_block(2)[where lines=lines and opener=opener and body=bodyLines and st=st
        and ?next="next" and rest=rest]
    by blast
  have c7: "js_splitc 10 input = before @ opener # bodyLines @ next # rest
        \<and> opensBlock (js_splitc 10 input) opener
        \<and> list_all (yieldsNoProperty (js_splitc 10 input)) bodyLines
        \<and> (closesBlock next \<or> opensBlock (js_splitc 10 input) next) \<longrightarrow>
        actualParseChineseFormat input
          = flush (foldl (parseLine (js_splitc 10 input)) initialState (before @ next # rest))"
    using 7 by blast
  show ?thesis
    by (intro conjI c1 c2 c3 c4 c5 c6 c7)
qed

theorem parsers_prune_empty_rules_witness:
  "list_all (\<lambda>(sel, props). props \<noteq> []) (parseCSSText cssOneEmpty)
   \<and> list_all (\<lambda>(sel, props). props \<noteq> []) (actualParseChineseFormat blockAllFail)
   \<and> parseDeclarations (js_trim (S ''x'')) = []
   \<and> parseCSSText cssOneEmpty = foldl addCssRule [] cssMatchesBefore
   \<and> parseCSSText cssOneEmpty = [(S ''b'', [(S ''color'', S ''red'')])]
   \<and> opensBlock (js_splitc 10 blockAllFail) failingOpener
   \<and> list_all (yieldsNoProperty (js_splitc 10 blockAllFail)) failingBody
   \<and> closesBlock (S ''}'')
   \<and> actualParseChineseFormat blockAllFail
       = flush (foldl (parseLine (js_splitc 10 blockAllFail)) initialState (S ''}'' # afterFailingBlock))
   \<and> actualParseChineseFormat blockAllFail = [(S ''.mes_text'', [(S ''color'', S ''red'')])]"
proof -
  have h1: "opensBlock (js_splitc 10 blockAllFail) failingOpener" by code_simp
  have h2: "list_all (yieldsNoProperty (js_splitc 10 blockAllFail)) failingBody" by code_simp
  have h3: "closesBlock (S ''}'')" by code_simp
  have h4: "parseDeclarations (js_trim (S ''x'')) = []" by code_simp
  note t = parsers_prune_empty_rules[where cssText=cssOneEmpty and input=blockAllFail
      and body="S ''x''" and ?sel0.0="S '' c''" and rules="[]" and ?ms1.0=cssMatchesBefore and ?ms2.0="[]"
      and lines="js_splitc 10 blockAllFail" and opener=failingOpener and bodyLines=failingBody
      and ?next="S ''}''" and rest=afterFailingBlock and before="[]" and st=initialState]
  from t have a: "list_all (\<lambda>(sel, props). props \<noteq> []) (parseCSSText cssOneEmpty)"
    and b: "list_all (\<lambda>(sel, props). props \<noteq> []) (actualParseChineseFormat blockAllFail)"
    by (simp_all only: list_all_iff) blast+
  from t h4 have c: "foldl addCssRule [] (cssMatchesBefore @ (S '' c'', S ''x'') # [])
      = foldl addCssRule [] (cssMatchesBefore @ [])" by blast
  have c': "parseCSSText cssOneEmpty = foldl addCssRule [] cssMatchesBefore"
    unfolding parseCSSText_def matches_cssOneEmpty c by simp
  from t h1 h2 h3 lines_blockAllFail
  have d: "actualParseChineseFormat blockAllFail
       = flush (foldl (parseLine (js_splitc 10 blockAllFail)) initialState ([] @ S ''}'' # afterFailingBlock))"
    by blast
  from a b h4 c' h1 h2 h3 d parse_cssOneEmpty parse_blockAllFail show ?thesis
    by simp
qed

section \<open>Marker lines\<close>

lemma parseLine_marker:
  assumes "hasMarker (js_trim raw)"
  shows "parseLine lines st raw = st"
proof -
  have s: "skippedLine (js_trim raw)"
    using assms by (auto simp: skippedLine_def hasMarker_def)
  show ?thesis
    unfolding parseLine_def Let_def by (simp only: s if_True if_cancel)
qed

lemma foldl_skip:
  "parseLine lines (foldl (parseLine lines) st0 before) raw = foldl (parseLine lines) st0 before \<Longrightarrow>
   foldl (parseLine lines) st0 (before @ raw # after) = foldl (parseLine lines) st0 (before @ after)"
  by simp

text \<open>
  C10. A line whose trimmed text contains \<open>undefined\<close>, the sparkle character or the
  configuration title is skipped by the loop of the parser: the iteration leaves the state
  as it was, so the parse over the lines is the parse over the lines without that line
  (\<open>lines\<close>, the array the decoration test looks into, is the same in both).
\<close>

theorem marker_lines_dropped:
  assumes "hasMarker (js_trim raw)"
  shows "parseLine lines st raw = st
    \<and> foldl (parseLine lines) st0 (before @ raw # after) = foldl (parseLine lines) st0 (before @ after)"
  using assms by (simp add: parseLine_marker)

theorem marker_lines_dropped_witness:
  "hasMarker (js_trim markerLine)
   \<and> parseLine (js_splitc 10 blockWithMarker) initialState markerLine = initialState
   \<and> actualParseChineseFormat blockWithMarker =
       [(userMessageSelector, [(S ''background-color'', S ''red'')])]"
proof -
  have h: "hasMarker (js_trim markerLine)" by code_simp
  show ?thesis
    using h marker_lines_dropped[OF h, of "js_splitc 10 blockWithMarker" initialState initialState "[]" "[]"]
      parse_blockWithMarker
    by simp
qed



section \<open>Colon glyphs\<close>

lemma js_indexOf_char:
  "js_indexOf s [c] = (if c \<in> set s then Some (length (takeWhile (\<lambda>x. x \<noteq> c) s)) else None)"
  by (induction s) (auto simp: js_startsWith_def)

lemma js_includes_char: "js_includes s [c] = (c \<in> set s)"
  by (induction s) (auto simp: js_startsWith_def)

lemma js_trim_empty: "js_trim s = [] \<longleftrightarrow> (\<forall>c \<in> set s. js_ws c)"
proof -
  have a: "js_trimEnd t = [] \<longleftrightarrow> (\<forall>c \<in> set t. js_ws c)" for t
    by (auto simp: js_trimEnd_def dropWhile_eq_Nil_conv)
  have b: "(\<forall>c \<in> set (dropWhile js_ws s). js_ws c) \<longleftrightarrow> (\<forall>c \<in> set s. js_ws c)"
    by (induction s) auto
  show ?thesis by (simp add: js_trim_def a b)
qed

lemma takeWhile_until:
  "c \<notin> set p \<Longrightarrow> takeWhile (\<lambda>x. x \<noteq> c) (p @ c # v) = p"
  by (induction p) auto

lemma colonIndexOf_ascii:
  "58 \<notin> set p \<Longrightarrow> colonIndexOf (p @ [58] @ v) = Some (length p)"
  by (simp add: colonIndexOf_def js_indexOf_char takeWhile_until del: js_indexOf.simps)

lemma colonIndexOf_fullwidth:
  "58 \<notin> set p \<Longrightarrow> 58 \<notin> set v \<Longrightarrow> 0xFF1A \<notin> set p \<Longrightarrow>
   colonIndexOf (p @ [0xFF1A] @ v) = Some (length p)"
  by (simp add: colonIndexOf_def js_indexOf_char takeWhile_until del: js_indexOf.simps)

lemma not_ws_colons: "\<not> js_ws 58" "\<not> js_ws 0xFF1A"
  by (simp_all add: js_ws_def)

lemma decl_fullwidth_same:
  assumes "58 \<notin> set p" "58 \<notin> set v" "0xFF1A \<notin> set p"
  shows "parseStyleDeclaration acc (p @ [0xFF1A] @ v) = parseStyleDeclaration acc (p @ [58] @ v)"
proof -
  have 1: "js_trim (p @ [0xFF1A] @ v) \<noteq> []" "js_trim (p @ [58] @ v) \<noteq> []"
    using not_ws_colons by (auto simp: js_trim_empty)
  show ?thesis
    unfolding parseStyleDeclaration_def
    by (simp only: 1 if_False colonIndexOf_ascii[OF assms(1)] colonIndexOf_fullwidth[OF assms]
          option.case) simp
qed

lemma parseLine_no_colon:
  assumes "\<not> js_includes (js_trim raw) (S '':'')" "\<not> js_endsWith (js_trim raw) (S ''{'')"
    "js_trim raw \<noteq> S ''}''"
  shows "parseLine lines st raw = st"
  unfolding parseLine_def Let_def
  by (simp only: assms if_False simp_thms if_cancel)

text \<open>
  C7 (as amended). In the body of a decoration block, a declaration whose separator is the
  full-width colon (with no ASCII colon in it and no full-width colon before the
  separator) yields the same entry as the declaration written with the ASCII colon in
  its place. The element-block parser accepts the ASCII colon only: a line without one
  that neither opens nor closes a block leaves the state as it was.
\<close>

theorem colon_glyphs:
  "(58 \<notin> set p \<and> 58 \<notin> set v \<and> 0xFF1A \<notin> set p \<longrightarrow>
      parseStyleDeclaration acc (p @ [0xFF1A] @ v) = parseStyleDeclaration acc (p @ [58] @ v))
   \<and> (\<not> js_includes (js_trim raw) (S '':'') \<and> \<not> js_endsWith (js_trim raw) (S ''{'')
       \<and> js_trim raw \<noteq> S ''}'' \<longrightarrow> parseLine lines st raw = st)"
  using decl_fullwidth_same parseLine_no_colon by blast

theorem colon_glyphs_witness:
  "58 \<notin> set (S ''color'') \<and> 58 \<notin> set (S ''red'') \<and> 0xFF1A \<notin> set (S ''color'')
   \<and> parseStyleDeclaration [] (S ''color'' @ [0xFF1A] @ S ''red'') =
       parseStyleDeclaration [] (S ''color'' @ [58] @ S ''red'')
   \<and> \<not> js_includes (js_trim (S ''color'' @ [0xFF1A] @ S ''red'')) (S '':'')
   \<and> \<not> js_endsWith (js_trim (S ''color'' @ [0xFF1A] @ S ''red'')) (S ''{'')
   \<and> js_trim (S ''color'' @ [0xFF1A] @ S ''red'') \<noteq> S ''}''
   \<and> parseLine [] initialState (S ''color'' @ [0xFF1A] @ S ''red'') = initialState"
proof -
  have h1: "58 \<notin> set (S ''color'') \<and> 58 \<notin> set (S ''red'') \<and> 0xFF1A \<notin> set (S ''color'')"
    by simp
  have h2: "\<not> js_includes (js_trim (S ''color'' @ [0xFF1A] @ S ''red'')) (S '':'')
     \<and> \<not> js_endsWith (js_trim (S ''color'' @ [0xFF1A] @ S ''red'')) (S ''{'')
     \<and> js_trim (S ''color'' @ [0xFF1A] @ S ''red'') \<noteq> S ''}''"
    by code_simp
  show ?thesis
    using h1 h2 colon_glyphs[of "S ''color''" "S ''red''" "[]"
        "S ''color'' @ [0xFF1A] @ S ''red''" "[]" initialState]
    by blast
qed

text \<open>
  C7 as stated fails for the element-block parser: the block with the full-width colon
  yields no rule, the same block with the ASCII colon yields the rule.
\<close>

theorem fullwidth_colon_line_ignored:
  "actualParseChineseFormat blockFullwidthColon = []
   \<and> actualParseChineseFormat blockAsciiColon =
       [(userMessageSelector, [(S ''background-color'', S ''red'')])]"
  by (simp only: parse_blockFullwidthColon parse_blockAsciiColon)

section \<open>The result cache\<close>

lemma cacheSound_mono: "cacheSound f seen c \<Longrightarrow> seen \<subseteq> seen' \<Longrightarrow> cacheSound f seen' c"
  by (fastforce simp: cacheSound_def)

lemma cacheSound_subset: "cacheSound f seen c \<Longrightarrow> set c' \<subseteq> set c \<Longrightarrow> cacheSound f seen c'"
  by (fastforce simp: cacheSound_def)

lemma cacheSound_update:
  "cacheSound f seen c \<Longrightarrow> x \<in> seen \<Longrightarrow> cacheSound f seen (AList.update (cacheKey x) (f x) c)"
  using set_update_subset[of "cacheKey x" "f x" c] by (fastforce simp: cacheSound_def)

lemma parseCSS_sound:
  assumes "cacheSound f seen c"
  shows "cacheSound f (insert x seen) (snd (parseCSS f c x))"
proof (cases "map_of c (cacheKey x)")
  case None
  have s: "cacheSound f (insert x seen) c"
    using assms by (rule cacheSound_mono) auto
  have u: "cacheSound f (insert x seen) (AList.update (cacheKey x) (f x) c)"
    by (rule cacheSound_update[OF s]) simp
  have t: "cacheSound f (insert x seen) (tl (AList.update (cacheKey x) (f x) c))"
    by (rule cacheSound_subset[OF u]) (auto dest: list.set_sel(2)[rotated])
  show ?thesis using None u t by (simp add: parseCSS_def Let_def)
next
  case (Some r)
  have "cacheSound f (insert x seen) c"
    using assms by (rule cacheSound_mono) auto
  with Some show ?thesis by (simp add: parseCSS_def Let_def)
qed

lemma parseAll_sound:
  "cacheSound actualParseChineseFormat seen c \<Longrightarrow>
   cacheSound actualParseChineseFormat (seen \<union> set inputs) (parseAll c inputs)"
proof (induction inputs arbitrary: seen c)
  case Nil
  then show ?case by simp
next
  case (Cons x xs)
  have "cacheSound actualParseChineseFormat (insert x seen) (snd (parseChineseFormat c x))"
    unfolding parseChineseFormat_def by (rule parseCSS_sound[OF Cons.prems])
  from Cons.IH[OF this] show ?case by simp
qed

text \<open>
  C4 (as amended). After any run of calls of the memoized parser on an empty cache,
  \<^verbatim>\<open>parseChineseFormat(input)\<close> returns what \<^verbatim>\<open>_actualParseChineseFormat(input)\<close>
  returns, provided no input of the run has the signature of \<open>input\<close> (its first hundred
  characters and its length) and a different text.
\<close>

theorem cache_transparent_without_collision:
  assumes "\<forall>i \<in> set inputs. cacheKey i = cacheKey input \<longrightarrow> i = input"
  shows "fst (parseChineseFormat (parseAll [] inputs) input) = actualParseChineseFormat input"
proof -
  let ?c = "parseAll [] inputs"
  have "cacheSound actualParseChineseFormat ({} \<union> set inputs) ?c"
    by (rule parseAll_sound) (simp add: cacheSound_def)
  then have snd: "cacheSound actualParseChineseFormat (set inputs) ?c" by simp
  show ?thesis
  proof (cases "map_of ?c (cacheKey input)")
    case None
    then show ?thesis by (simp add: parseChineseFormat_def parseCSS_def Let_def)
  next
    case (Some r)
    then have "(cacheKey input, r) \<in> set ?c" by (rule map_of_SomeD)
    with snd obtain i where "i \<in> set inputs" "cacheKey input = cacheKey i"
        "r = actualParseChineseFormat i"
      by (fastforce simp: cacheSound_def)
    with assms have "r = actualParseChineseFormat input" by auto
    with Some show ?thesis by (simp add: parseChineseFormat_def parseCSS_def Let_def)
  qed
qed

theorem cache_transparent_without_collision_witness:
  "fst (parseChineseFormat (parseAll [] [blockAsciiColon, blockWithMarker]) blockAsciiColon) =
     actualParseChineseFormat blockAsciiColon"
proof -
  have k: "cacheKey blockWithMarker \<noteq> cacheKey blockAsciiColon" by code_simp
  have "\<forall>i \<in> set [blockAsciiColon, blockWithMarker].
          cacheKey i = cacheKey blockAsciiColon \<longrightarrow> i = blockAsciiColon"
    using k by simp
  then show ?thesis by (rule cache_transparent_without_collision)
qed

lemma stale_hit:
  assumes "cacheKey a = cacheKey b"
  shows "fst (parseChineseFormat (parseAll [] [a]) b) = actualParseChineseFormat a"
  using assms by (simp add: parseChineseFormat_def parseCSS_def Let_def maxSize_def)

text \<open>
  C4 as stated fails: two inputs with the same first hundred characters and the same length
  share a signature, and the second of them is answered with the parse of the first.
\<close>

theorem cache_returns_stale_result:
  "fst (parseChineseFormat (parseAll [] [longInputRed]) longInputTan) =
     [(userMessageSelector, [(S ''background-color'', S ''red'')])]
   \<and> actualParseChineseFormat longInputTan =
     [(userMessageSelector, [(S ''background-color'', S ''tan'')])]"
  by (simp only: stale_hit[OF key_longInputs] parse_longInputRed parse_longInputTan)

subsection \<open>Reconciliation of the decoration rules\<close>






























lemma wf_entry:
  assumes "wellFormedTable R" "(i, r) \<in> set R"
  shows "rid r = i" and "validObject (ruleStyles r)"
  using assms by (auto simp: wellFormedTable_def list_all_iff)







lemma rids_of:
  assumes "wellFormedTable R"
  shows "rid ` snd ` set (filter P R) \<subseteq> fst ` set R"
  using wf_entry(1)[OF assms] by force












end
